theory Spec2Isabelle
  imports Complex_Main "HOL-Library.AList" "HOL-Library.Log_Nat"
begin

section \<open>Numbers\<close>

text \<open>
  The engine (\<^verbatim>\<open>src/lib/macroTetris.ts\<close>) computes with JavaScript numbers, which are
  IEEE 754 doubles. Every number that enters it comes from a database row and is finite.
  A finite double is modelled as the real number it denotes, and an arithmetic operation
  of the machine as the exact operation followed by the rounding \<open>fl53\<close> to the nearest
  number with a significand of 53 bits, a tie going to the even significand. The range of
  the exponent is not bounded in the model (no overflow, no subnormal numbers: the
  quantities of this program are far from both) and the sign of zero is not modelled.

  \<open>pow2 e\<close> is the power of two with exponent \<open>e\<close>; \<open>expo x\<close> is the exponent of \<open>x\<close>,
  the \<open>e\<close> with \<open>pow2 e \<le> \<bar>x\<bar> < pow2 (e + 1)\<close>; \<open>rne\<close> rounds to the nearest integer,
  a tie to the even one.
\<close>

definition pow2 :: "int \<Rightarrow> real" where
  "pow2 e = (if 0 \<le> e then 2 ^ nat e else 1 / 2 ^ nat (- e))"

definition expo :: "real \<Rightarrow> int" where
  "expo x = (if 1 \<le> \<bar>x\<bar> then bitlen \<lfloor>\<bar>x\<bar>\<rfloor> - 1 else - bitlen (\<lceil>1 / \<bar>x\<bar>\<rceil> - 1))"

definition rne :: "real \<Rightarrow> int" where
  "rne y = (let f = \<lfloor>y\<rfloor>
            in if y - of_int f < 1 / 2 then f
               else if 1 / 2 < y - of_int f then f + 1
               else if even f then f else f + 1)"

definition fl53 :: "real \<Rightarrow> real" where
  "fl53 x = (if x = 0 then 0 else of_int (rne (x / pow2 (expo x - 52))) * pow2 (expo x - 52))"

text \<open>
  The non-finite values are kept: the code divides by quantities that can be zero, starts
  a minimum at \<^verbatim>\<open>Infinity\<close> and compares against it, so a division, a \<^verbatim>\<open>Math.min\<close> or a
  comparison whose operand may be non-finite works on \<open>jsnum\<close>.
\<close>

datatype jsnum = NaN | NegInf | Fin real | PosInf

text \<open>\<^verbatim>\<open>a / b\<close> for finite operands: a zero divisor gives an infinity, or NaN for 0/0.
  \<open>double_div\<close> is the quotient the machine returns. The stages that place servings
  (greedy fill, gap filler, fine-tuner) and the daily targets work on whole numbers: the
  macros of a recipe, the servings and the targets are results of \<^verbatim>\<open>Math.round\<close>,
  \<^verbatim>\<open>Math.min\<close> or integer columns, so their sums and products are exact. They divide,
  and the fine-tuner multiplies by 0.8 or 0.9, only to compare the result with a
  threshold or to round it to a whole number; there the exact quotient \<open>js_div\<close> and the
  exact product are written.\<close>

definition js_div :: "real \<Rightarrow> real \<Rightarrow> jsnum" where
  "js_div a b =
     (if b = 0 then (if a = 0 then NaN else if 0 < a then PosInf else NegInf)
      else Fin (a / b))"

definition double_div :: "real \<Rightarrow> real \<Rightarrow> jsnum" where
  "double_div a b =
     (if b = 0 then (if a = 0 then NaN else if 0 < a then PosInf else NegInf)
      else Fin (fl53 (a / b)))"

text \<open>The rounding of a result that may be non-finite.\<close>

fun js_fl :: "jsnum \<Rightarrow> jsnum" where
  "js_fl (Fin x) = Fin (fl53 x)"
| "js_fl v = v"

fun js_neg :: "jsnum \<Rightarrow> jsnum" where
  "js_neg NaN = NaN"
| "js_neg NegInf = PosInf"
| "js_neg (Fin x) = Fin (- x)"
| "js_neg PosInf = NegInf"

fun js_add :: "jsnum \<Rightarrow> jsnum \<Rightarrow> jsnum" where
  "js_add (Fin x) (Fin y) = Fin (x + y)"
| "js_add NaN _ = NaN"
| "js_add _ NaN = NaN"
| "js_add PosInf NegInf = NaN"
| "js_add NegInf PosInf = NaN"
| "js_add PosInf _ = PosInf"
| "js_add _ PosInf = PosInf"
| "js_add NegInf _ = NegInf"
| "js_add _ NegInf = NegInf"

definition js_sub :: "jsnum \<Rightarrow> jsnum \<Rightarrow> jsnum" where
  "js_sub a b = js_add a (js_neg b)"

text \<open>\<^verbatim>\<open>a * c\<close> for a finite factor \<open>c\<close>: an infinity times zero is NaN.\<close>

fun js_scale :: "jsnum \<Rightarrow> real \<Rightarrow> jsnum" where
  "js_scale NaN c = NaN"
| "js_scale (Fin x) c = Fin (x * c)"
| "js_scale PosInf c = (if c = 0 then NaN else if 0 < c then PosInf else NegInf)"
| "js_scale NegInf c = (if c = 0 then NaN else if 0 < c then NegInf else PosInf)"

text \<open>\<^verbatim>\<open>Math.floor\<close>, \<^verbatim>\<open>Math.ceil\<close> and \<^verbatim>\<open>Math.round\<close> (halves go up) keep a
  non-finite argument.\<close>

fun Math_floor :: "jsnum \<Rightarrow> jsnum" where
  "Math_floor (Fin x) = Fin (of_int \<lfloor>x\<rfloor>)"
| "Math_floor v = v"

fun Math_ceil :: "jsnum \<Rightarrow> jsnum" where
  "Math_ceil (Fin x) = Fin (of_int \<lceil>x\<rceil>)"
| "Math_ceil v = v"

definition round_half_up :: "real \<Rightarrow> real" where
  "round_half_up x = of_int \<lfloor>x + 1 / 2\<rfloor>"

fun Math_round :: "jsnum \<Rightarrow> jsnum" where
  "Math_round (Fin x) = Fin (round_half_up x)"
| "Math_round v = v"

text \<open>\<^verbatim>\<open>Math.min\<close> is NaN as soon as one argument is.\<close>

fun Math_min :: "jsnum \<Rightarrow> jsnum \<Rightarrow> jsnum" where
  "Math_min NaN _ = NaN"
| "Math_min _ NaN = NaN"
| "Math_min NegInf _ = NegInf"
| "Math_min _ NegInf = NegInf"
| "Math_min PosInf b = b"
| "Math_min a PosInf = a"
| "Math_min (Fin x) (Fin y) = Fin (min x y)"

definition Math_min3 :: "jsnum \<Rightarrow> jsnum \<Rightarrow> jsnum \<Rightarrow> jsnum" where
  "Math_min3 a b c = Math_min (Math_min a b) c"

text \<open>\<^verbatim>\<open>a > c\<close> for a finite \<open>c\<close>: false on NaN.\<close>

fun js_gt :: "jsnum \<Rightarrow> real \<Rightarrow> bool" where
  "js_gt (Fin x) c = (c < x)"
| "js_gt PosInf c = True"
| "js_gt NegInf c = False"
| "js_gt NaN c = False"

section \<open>Data model\<close>

text \<open>Rows of the tables \<^verbatim>\<open>ingredients\<close>, \<^verbatim>\<open>recipe_ingredients\<close> (joined with its
  ingredient), \<^verbatim>\<open>recipes\<close> and \<^verbatim>\<open>pantry_items\<close>, with the columns the engine reads.\<close>

record Ingredient =
  name :: string
  kcal :: real
  protein_100 :: real
  carbs_100 :: real
  fat_100 :: real

record RecipeIngredient =
  ingredient_id :: string
  quantity :: real
  unit :: string
  ingredients :: Ingredient

record Recipe =
  recipe_id :: string
  recipe_ingredients :: "RecipeIngredient list"

record PantryItem =
  p_ingredient_id :: string
  p_quantity :: real

record MacroProfile =
  calories :: real
  protein :: real
  carbs :: real
  fat :: real

record RecipeWithMacros = Recipe +
  macros :: MacroProfile
  proteinDensity :: real
  availableServings :: jsnum

record Selection =
  recipe :: RecipeWithMacros
  servings :: real
  day :: nat
  slot :: string

section \<open>Nutrition and availability of a recipe\<close>

text \<open>\<^verbatim>\<open>calculateRecipeMacros\<close>: the per-100 profile of each ingredient scaled by its
  quantity, summed, each total rounded. \<open>macroStep\<close> is one turn of the loop for one of
  the four totals, \<^verbatim>\<open>total += (nutrition.kcal * quantity) / 100\<close>: a product, a quotient
  and a sum of the machine.\<close>

definition macroStep :: "(Ingredient \<Rightarrow> real) \<Rightarrow> real \<Rightarrow> RecipeIngredient \<Rightarrow> real" where
  "macroStep per100 acc ingredient =
     fl53 (acc + fl53 (fl53 (per100 (ingredients ingredient) * quantity ingredient) / 100))"

definition calculateRecipeMacros :: "'a Recipe_scheme \<Rightarrow> MacroProfile" where
  "calculateRecipeMacros r =
     \<lparr> calories = round_half_up (foldl (macroStep kcal) 0 (recipe_ingredients r)),
       protein = round_half_up (foldl (macroStep protein_100) 0 (recipe_ingredients r)),
       carbs = round_half_up (foldl (macroStep carbs_100) 0 (recipe_ingredients r)),
       fat = round_half_up (foldl (macroStep fat_100) 0 (recipe_ingredients r)) \<rparr>"

text \<open>\<^verbatim>\<open>calculateAvailableServings\<close>. The body of the \<^verbatim>\<open>forEach\<close> is \<open>servingsStep\<close>:
  a missing pantry item sets the running minimum to 0 and leaves the callback (the
  iteration goes on with the next ingredient); otherwise the minimum is taken with
  \<^verbatim>\<open>Math.floor(availableQuantity / requiredQuantity)\<close>.\<close>

definition pantryFind :: "PantryItem list \<Rightarrow> string \<Rightarrow> PantryItem option" where
  "pantryFind pantryItems k = find (\<lambda>p. p_ingredient_id p = k) pantryItems"

definition servingsStep :: "PantryItem list \<Rightarrow> jsnum \<Rightarrow> RecipeIngredient \<Rightarrow> jsnum" where
  "servingsStep pantryItems maxServings recipeIngredient =
     (case pantryFind pantryItems (ingredient_id recipeIngredient) of
        None \<Rightarrow> Fin 0
      | Some pantryItem \<Rightarrow>
          Math_min maxServings
            (Math_floor (double_div (p_quantity pantryItem) (quantity recipeIngredient))))"

definition calculateAvailableServings :: "'a Recipe_scheme \<Rightarrow> PantryItem list \<Rightarrow> jsnum" where
  "calculateAvailableServings r pantryItems =
     (let maxServings = foldl (servingsStep pantryItems) PosInf (recipe_ingredients r)
      in if maxServings = PosInf then Fin 0 else maxServings)"

section \<open>Ranking and greedy protein fill\<close>

text \<open>\<^verbatim>\<open>Array.prototype.sort\<close> with a comparator is stable: an element moves behind a later
  one only when the comparator is positive on the pair (a NaN result counts as 0). The
  model inserts from the right, which gives that order for a consistent comparator.\<close>

fun insort_cmp :: "('a \<Rightarrow> 'a \<Rightarrow> jsnum) \<Rightarrow> 'a \<Rightarrow> 'a list \<Rightarrow> 'a list" where
  "insort_cmp cmp x [] = [x]"
| "insort_cmp cmp x (y # ys) =
     (if js_gt (cmp x y) 0 then y # insort_cmp cmp x ys else x # y # ys)"

definition js_sort :: "('a \<Rightarrow> 'a \<Rightarrow> jsnum) \<Rightarrow> 'a list \<Rightarrow> 'a list" where
  "js_sort cmp xs = foldr (insort_cmp cmp) xs []"

definition sortByProteinDensity :: "RecipeWithMacros list \<Rightarrow> RecipeWithMacros list" where
  "sortByProteinDensity recipes =
     js_sort (\<lambda>a b. Fin (proteinDensity b - proteinDensity a))
       (filter (\<lambda>recipe. js_gt (availableServings recipe) 0) recipes)"

text \<open>Every call in the repository leaves \<^verbatim>\<open>daysInWeek\<close> at its default, 7.\<close>

definition daysInWeek :: nat where
  "daysInWeek = 7"

definition mealSlots :: "string list" where
  "mealSlots = [''breakfast'', ''lunch'', ''dinner'']"

record GreedyState =
  selectedRecipes :: "Selection list"
  currentMacros :: MacroProfile
  currentDay :: nat
  currentSlot :: nat

definition dailyGap :: "real \<Rightarrow> real \<Rightarrow> real" where
  "dailyGap target weekly = max 0 (target - weekly / of_nat daysInWeek)"

text \<open>The body of \<^verbatim>\<open>if (servingsToAdd > 0)\<close> in \<^verbatim>\<open>greedyProteinFill\<close>.\<close>

definition pushSelection :: "GreedyState \<Rightarrow> RecipeWithMacros \<Rightarrow> real \<Rightarrow> GreedyState" where
  "pushSelection st r servingsToAdd =
     \<lparr> selectedRecipes = selectedRecipes st @
         [\<lparr> recipe = r, servings = servingsToAdd,
            day = currentDay st mod daysInWeek,
            slot = mealSlots ! (currentSlot st mod length mealSlots) \<rparr>],
       currentMacros =
         \<lparr> calories = calories (currentMacros st) + calories (macros r) * servingsToAdd,
           protein = protein (currentMacros st) + protein (macros r) * servingsToAdd,
           carbs = carbs (currentMacros st) + carbs (macros r) * servingsToAdd,
           fat = fat (currentMacros st) + fat (macros r) * servingsToAdd \<rparr>,
       currentDay = (if Suc (currentSlot st) mod length mealSlots = 0
                     then Suc (currentDay st) else currentDay st),
       currentSlot = Suc (currentSlot st) \<rparr>"

text \<open>The \<^verbatim>\<open>for (const recipe of sortedRecipes)\<close> loop; the first equation's \<open>else\<close> is
  the \<^verbatim>\<open>break\<close>. The minimum with the finite cap 3 is never \<^verbatim>\<open>Infinity\<close>, so a value that
  passes \<^verbatim>\<open>servingsToAdd > 0\<close> is finite.\<close>

fun greedyLoop :: "MacroProfile \<Rightarrow> RecipeWithMacros list \<Rightarrow> GreedyState \<Rightarrow> GreedyState" where
  "greedyLoop dailyTargets [] st = st"
| "greedyLoop dailyTargets (r # rs) st =
     (let dailyProteinNeeded = dailyGap (protein dailyTargets) (protein (currentMacros st))
      in if dailyProteinNeeded \<le> 0 then st
         else
           let servingsNeeded = Math_ceil (js_div dailyProteinNeeded (protein (macros r)));
               servingsToAdd = Math_min3 servingsNeeded (availableServings r) (Fin 3)
           in (case servingsToAdd of
                 Fin s \<Rightarrow> if 0 < s then greedyLoop dailyTargets rs (pushSelection st r s)
                          else greedyLoop dailyTargets rs st
               | _ \<Rightarrow> greedyLoop dailyTargets rs st))"

definition greedyProteinFill :: "RecipeWithMacros list \<Rightarrow> MacroProfile \<Rightarrow> GreedyState" where
  "greedyProteinFill recipes dailyTargets =
     greedyLoop dailyTargets (sortByProteinDensity recipes)
       \<lparr> selectedRecipes = [],
         currentMacros = \<lparr> calories = 0, protein = 0, carbs = 0, fat = 0 \<rparr>,
         currentDay = 0, currentSlot = 0 \<rparr>"

section \<open>Gap filler\<close>

text \<open>\<^verbatim>\<open>fillRemainingMacros\<close>. The two values \<^verbatim>\<open>Math.random()\<close> returns, if it is called
  for the carbohydrate and for the fat snack, are the parameters \<open>rndCarb\<close> and \<open>rndFat\<close>.\<close>

definition availableRecipes :: "RecipeWithMacros list \<Rightarrow> Selection list \<Rightarrow> RecipeWithMacros list" where
  "availableRecipes recipes selected =
     filter (\<lambda>r. recipe_id r \<notin> set (map (\<lambda>s. recipe_id (recipe s)) selected)
                 \<and> js_gt (availableServings r) 0) recipes"

definition carbRichRecipes :: "RecipeWithMacros list \<Rightarrow> Selection list \<Rightarrow> RecipeWithMacros list" where
  "carbRichRecipes recipes selected =
     js_sort (\<lambda>a b. js_sub (js_div (carbs (macros b)) (calories (macros b)))
                          (js_div (carbs (macros a)) (calories (macros a))))
       (filter (\<lambda>r. fat (macros r) < carbs (macros r)) (availableRecipes recipes selected))"

definition fatRichRecipes :: "RecipeWithMacros list \<Rightarrow> Selection list \<Rightarrow> RecipeWithMacros list" where
  "fatRichRecipes recipes selected =
     js_sort (\<lambda>a b. js_sub (js_div (fat (macros b)) (calories (macros b)))
                          (js_div (fat (macros a)) (calories (macros a))))
       (filter (\<lambda>r. carbs (macros r) < fat (macros r)) (availableRecipes recipes selected))"

definition randomDay :: "real \<Rightarrow> nat" where
  "randomDay rnd = nat \<lfloor>rnd * of_nat daysInWeek\<rfloor>"

text \<open>One of the two \<^verbatim>\<open>if (gap > 0 && candidates.length > 0)\<close> blocks: the assignments it
  pushes (none or one). \<open>grams\<close> reads the macro of the block.\<close>

definition snackFor :: "(MacroProfile \<Rightarrow> real) \<Rightarrow> real \<Rightarrow> RecipeWithMacros list \<Rightarrow> real \<Rightarrow> Selection list" where
  "snackFor grams gap candidates rnd =
     (if 0 < gap \<and> candidates \<noteq> [] then
        let r = hd candidates;
            servingsNeeded = Math_min3 (Math_ceil (js_div gap (grams (macros r))))
                               (availableServings r) (Fin 2)
        in (case servingsNeeded of
              Fin s \<Rightarrow> if 0 < s then [\<lparr> recipe = r, servings = s, day = randomDay rnd,
                                         slot = ''snack'' \<rparr>]
                       else []
            | _ \<Rightarrow> [])
      else [])"

definition fillRemainingMacros ::
  "RecipeWithMacros list \<Rightarrow> Selection list \<Rightarrow> MacroProfile \<Rightarrow> MacroProfile \<Rightarrow> real \<Rightarrow> real
     \<Rightarrow> Selection list" where
  "fillRemainingMacros recipes selected current dailyTargets rndCarb rndFat =
     (let dailyCarbGap = dailyGap (carbs dailyTargets) (carbs current);
          dailyFatGap = dailyGap (fat dailyTargets) (fat current)
      in selected
         @ snackFor carbs dailyCarbGap (carbRichRecipes recipes selected) rndCarb
         @ snackFor fat dailyFatGap (fatRichRecipes recipes selected) rndFat)"

section \<open>Fine-tuner\<close>

definition weeklyCalories :: "Selection list \<Rightarrow> real" where
  "weeklyCalories sel = (\<Sum>s \<leftarrow> sel. calories (macros (recipe s)) * servings s)"

definition weeklyProtein :: "Selection list \<Rightarrow> real" where
  "weeklyProtein sel = (\<Sum>s \<leftarrow> sel. protein (macros (recipe s)) * servings s)"

definition weeklyCarbs :: "Selection list \<Rightarrow> real" where
  "weeklyCarbs sel = (\<Sum>s \<leftarrow> sel. carbs (macros (recipe s)) * servings s)"

definition weeklyFat :: "Selection list \<Rightarrow> real" where
  "weeklyFat sel = (\<Sum>s \<leftarrow> sel. fat (macros (recipe s)) * servings s)"

text \<open>\<^verbatim>\<open>fineTuneMacros\<close>: \<open>calorieAccuracy\<close> is the same for every element of the
  \<^verbatim>\<open>map\<close>, which computes it again each time.\<close>

definition calorieAccuracy :: "Selection list \<Rightarrow> MacroProfile \<Rightarrow> jsnum" where
  "calorieAccuracy sel dailyTargets =
     js_div \<bar>weeklyCalories sel / of_nat daysInWeek - calories dailyTargets\<bar> (calories dailyTargets)"

definition fineTuneMacros :: "Selection list \<Rightarrow> MacroProfile \<Rightarrow> Selection list" where
  "fineTuneMacros sel dailyTargets =
     map (\<lambda>selection.
            if js_gt (calorieAccuracy sel dailyTargets) (15 / 100) then
              let scaleFactor = (if js_gt (calorieAccuracy sel dailyTargets) (5 / 10)
                                 then 8 / 10 else 9 / 10 :: real)
              in selection\<lparr> servings := max 1 (round_half_up (servings selection * scaleFactor)) \<rparr>
            else selection) sel"

section \<open>Shortfall reporter\<close>

text \<open>\<^verbatim>\<open>calculateMissingIngredients\<close> keeps a \<^verbatim>\<open>Map\<close> from ingredient id to its need. A
  \<^verbatim>\<open>Map\<close> iterates in insertion order and one is never deleted from here, so it is an
  association list: a new key goes to the end, a known key is updated in place.
  \<open>pantryQuantity\<close> is \<^verbatim>\<open>pantryItem?.quantity || 0\<close>. The product
  \<^verbatim>\<open>ingredient.quantity * servings\<close>, the sum \<^verbatim>\<open>current.needed += totalNeeded\<close> and the
  difference \<^verbatim>\<open>need.needed - need.available\<close> are those of the machine; the comparison
  \<^verbatim>\<open>need.needed > need.available\<close> is exact.\<close>

record Need =
  needed :: real
  need_unit :: string
  need_name :: string
  available :: real

record ShortfallEntry =
  ingredientId :: string
  ingredientName :: string
  neededQuantity :: real
  shortfall_unit :: string
  availableQuantity :: real

definition pantryQuantity :: "PantryItem list \<Rightarrow> string \<Rightarrow> real" where
  "pantryQuantity pantryItems k =
     (case pantryFind pantryItems k of None \<Rightarrow> 0 | Some pantryItem \<Rightarrow> p_quantity pantryItem)"

definition needStep ::
  "PantryItem list \<Rightarrow> real \<Rightarrow> (string \<times> Need) list \<Rightarrow> RecipeIngredient \<Rightarrow> (string \<times> Need) list" where
  "needStep pantryItems servs ingredientNeeds ingredient =
     (let totalNeeded = fl53 (quantity ingredient * servs);
          key = ingredient_id ingredient
      in case map_of ingredientNeeds key of
           Some current \<Rightarrow>
             AList.update key (current\<lparr> needed := fl53 (needed current + totalNeeded) \<rparr>)
               ingredientNeeds
         | None \<Rightarrow>
             AList.update key
               \<lparr> needed = totalNeeded, need_unit = unit ingredient,
                 need_name = name (ingredients ingredient),
                 available = pantryQuantity pantryItems key \<rparr> ingredientNeeds)"

definition ingredientNeeds :: "Selection list \<Rightarrow> PantryItem list \<Rightarrow> (string \<times> Need) list" where
  "ingredientNeeds sel pantryItems =
     foldl (\<lambda>m selection.
              foldl (needStep pantryItems (servings selection)) m
                (recipe_ingredients (recipe selection)))
       [] sel"

definition calculateMissingIngredients :: "Selection list \<Rightarrow> PantryItem list \<Rightarrow> ShortfallEntry list" where
  "calculateMissingIngredients sel pantryItems =
     map (\<lambda>(k, need).
            \<lparr> ingredientId = k, ingredientName = need_name need,
              neededQuantity = fl53 (needed need - available need),
              shortfall_unit = need_unit need, availableQuantity = available need \<rparr>)
       (filter (\<lambda>(k, need). available need < needed need) (ingredientNeeds sel pantryItems))"

section \<open>The planning run\<close>

text \<open>\<^verbatim>\<open>generatePlan\<close> reads the user's targets, the pantry and the recipes from the
  database, runs the stages, stores the plan and its meals, and returns them with the
  shortfall and the accuracy. The database is the record \<open>Db\<close>: what each query answers
  (\<^verbatim>\<open>data\<close>, null as \<open>None\<close>, and whether \<^verbatim>\<open>error\<close> is set), and what the two inserts
  answer for the row they are given. The column \<^verbatim>\<open>user_id\<close> plays no part in the
  computation and is left out, as is the delete of an older plan, whose failure is only
  logged.

  The second argument is the \<^verbatim>\<open>Date\<close> of the week's start. The route hands over
  \<^verbatim>\<open>new Date(weekStart)\<close> for the string of the request as it is, so the date can be an
  invalid one; a valid date is given by the string \<^verbatim>\<open>toISOString\<close> returns for it.\<close>

datatype JsDate = InvalidDate | ValidDate string

record UserProfile =
  kcal_target :: real
  protein_pct :: real
  carb_pct :: real
  fat_pct :: real

record 'a Response =
  rsp_data :: "'a option"
  rsp_error :: bool

record PlanTotals =
  total_kcal :: real
  total_protein :: real
  total_carbs :: real
  total_fat :: real

record MealPlan = PlanTotals +
  week_start :: string

record Meal =
  meal_recipe_id :: string
  meal_servings :: real
  day_of_week :: nat
  meal_slot :: string

record Db =
  users_single :: "UserProfile Response"
  pantry_select :: "PantryItem list Response"
  recipes_select :: "Recipe list Response"
  plan_insert :: "MealPlan \<Rightarrow> MealPlan Response"
  meal_insert :: "Meal \<Rightarrow> Meal Response"
  random_carb :: real
  random_fat :: real

record MacroAccuracy =
  acc_calories :: jsnum
  acc_protein :: jsnum
  acc_carbs :: jsnum
  acc_fat :: jsnum

record OptimizationResult =
  mealPlan :: MealPlan
  meals :: "Meal list"
  missingIngredients :: "ShortfallEntry list"
  macroAccuracy :: MacroAccuracy

text \<open>What \<^verbatim>\<open>generatePlan\<close> throws in the model. \<open>RecipesNull\<close> is the \<^verbatim>\<open>TypeError\<close> of
  \<^verbatim>\<open>recipes.map\<close> when the query answers null without an error, \<open>InvalidTimeValue\<close> the
  \<^verbatim>\<open>RangeError\<close> of \<^verbatim>\<open>weekStart.toISOString()\<close> on an invalid date.\<close>

datatype PlanError =
    UserProfileNotFound
  | FailedToFetchPantryItems
  | FailedToFetchRecipes
  | RecipesNull
  | InvalidTimeValue
  | FailedToCreateMealPlan

definition dailyTargetsOf :: "UserProfile \<Rightarrow> MacroProfile" where
  "dailyTargetsOf userProfile =
     \<lparr> calories = kcal_target userProfile,
       protein = round_half_up (kcal_target userProfile * protein_pct userProfile / 100 / 4),
       carbs = round_half_up (kcal_target userProfile * carb_pct userProfile / 100 / 4),
       fat = round_half_up (kcal_target userProfile * fat_pct userProfile / 100 / 9) \<rparr>"

definition withMacros :: "PantryItem list \<Rightarrow> Recipe \<Rightarrow> RecipeWithMacros" where
  "withMacros pantryItems r =
     (let m = calculateRecipeMacros r
      in \<lparr> recipe_id = recipe_id r, recipe_ingredients = recipe_ingredients r,
           macros = m,
           proteinDensity = (if 0 < calories m then protein m / calories m * 100 else 0),
           availableServings = calculateAvailableServings r pantryItems \<rparr>)"

text \<open>Steps 3 to 5: \<^verbatim>\<open>proteinFilledRecipes\<close>, \<^verbatim>\<open>filledRecipes\<close> and \<^verbatim>\<open>finalRecipes\<close>.\<close>

definition filledRecipes ::
  "RecipeWithMacros list \<Rightarrow> MacroProfile \<Rightarrow> real \<Rightarrow> real \<Rightarrow> Selection list" where
  "filledRecipes recipesWithMacros dailyTargets rndCarb rndFat =
     (let g = greedyProteinFill recipesWithMacros dailyTargets
      in fillRemainingMacros recipesWithMacros (selectedRecipes g) (currentMacros g)
           dailyTargets rndCarb rndFat)"

definition finalRecipes ::
  "RecipeWithMacros list \<Rightarrow> MacroProfile \<Rightarrow> real \<Rightarrow> real \<Rightarrow> Selection list" where
  "finalRecipes recipesWithMacros dailyTargets rndCarb rndFat =
     fineTuneMacros (filledRecipes recipesWithMacros dailyTargets rndCarb rndFat) dailyTargets"

text \<open>Step 7: the totals stored with the plan are read from the accumulator the greedy
  stage returned. \<open>planRow\<close> is the row given to the insert, with
  \<^verbatim>\<open>weekStart.toISOString().split('T')[0]\<close> as its week.\<close>

definition planTotals :: "RecipeWithMacros list \<Rightarrow> MacroProfile \<Rightarrow> PlanTotals" where
  "planTotals recipesWithMacros dailyTargets =
     (let current = currentMacros (greedyProteinFill recipesWithMacros dailyTargets)
      in \<lparr> total_kcal = round_half_up (calories current),
           total_protein = round_half_up (protein current),
           total_carbs = round_half_up (carbs current),
           total_fat = round_half_up (fat current) \<rparr>)"

definition planRow :: "string \<Rightarrow> PlanTotals \<Rightarrow> MealPlan" where
  "planRow isoString totals =
     \<lparr> total_kcal = total_kcal totals, total_protein = total_protein totals,
       total_carbs = total_carbs totals, total_fat = total_fat totals,
       week_start = takeWhile (\<lambda>c. c \<noteq> CHR ''T'') isoString \<rparr>"

text \<open>Step 8: a meal whose insert fails is logged and skipped.\<close>

definition insertMeals :: "(Meal \<Rightarrow> Meal Response) \<Rightarrow> Selection list \<Rightarrow> Meal list" where
  "insertMeals ins sel =
     concat (map (\<lambda>selection.
        let rsp = ins \<lparr> meal_recipe_id = recipe_id (recipe selection),
                         meal_servings = servings selection,
                         day_of_week = day selection, meal_slot = slot selection \<rparr>
        in (case rsp_data rsp of
              Some meal \<Rightarrow> if rsp_error rsp then [] else [meal]
            | None \<Rightarrow> [])) sel)"

text \<open>Step 9: \<^verbatim>\<open>finalMacros\<close>, the daily averages of the final assignments
  (\<^verbatim>\<open>reduce((sum, s) => sum + macro * s.servings, 0) / 7\<close>), and the accuracy of one
  macro from its daily average and its target,
  \<^verbatim>\<open>Math.round((1 - Math.abs(actual - target) / target) * 100)\<close>, every operation being
  the machine's.\<close>

definition reduceMacro :: "(MacroProfile \<Rightarrow> real) \<Rightarrow> Selection list \<Rightarrow> real" where
  "reduceMacro macro sel =
     foldl (\<lambda>sum s. fl53 (sum + fl53 (macro (macros (recipe s)) * servings s))) 0 sel"

definition finalMacros :: "Selection list \<Rightarrow> MacroProfile" where
  "finalMacros sel =
     \<lparr> calories = fl53 (reduceMacro calories sel / 7),
       protein = fl53 (reduceMacro protein sel / 7),
       carbs = fl53 (reduceMacro carbs sel / 7),
       fat = fl53 (reduceMacro fat sel / 7) \<rparr>"

definition accuracy :: "real \<Rightarrow> real \<Rightarrow> jsnum" where
  "accuracy actual target =
     Math_round
       (js_fl (js_scale
          (js_fl (js_sub (Fin 1) (double_div \<bar>fl53 (actual - target)\<bar> target))) 100))"

definition macroAccuracyOf :: "Selection list \<Rightarrow> MacroProfile \<Rightarrow> MacroAccuracy" where
  "macroAccuracyOf sel dailyTargets =
     \<lparr> acc_calories = accuracy (calories (finalMacros sel)) (calories dailyTargets),
       acc_protein = accuracy (protein (finalMacros sel)) (protein dailyTargets),
       acc_carbs = accuracy (carbs (finalMacros sel)) (carbs dailyTargets),
       acc_fat = accuracy (fat (finalMacros sel)) (fat dailyTargets) \<rparr>"

definition generatePlan :: "Db \<Rightarrow> JsDate \<Rightarrow> PlanError + OptimizationResult" where
  "generatePlan db weekStart =
     (case rsp_data (users_single db) of
        None \<Rightarrow> Inl UserProfileNotFound
      | Some userProfile \<Rightarrow>
          if rsp_error (users_single db) then Inl UserProfileNotFound
          else if rsp_error (pantry_select db) then Inl FailedToFetchPantryItems
          else if rsp_error (recipes_select db) then Inl FailedToFetchRecipes
          else
            (case rsp_data (recipes_select db) of
               None \<Rightarrow> Inl RecipesNull
             | Some recipes \<Rightarrow>
                 let pantryItems = (case rsp_data (pantry_select db) of
                                      None \<Rightarrow> [] | Some items \<Rightarrow> items);
                     dailyTargets = dailyTargetsOf userProfile;
                     recipesWithMacros = map (withMacros pantryItems) recipes;
                     final = finalRecipes recipesWithMacros dailyTargets
                               (random_carb db) (random_fat db);
                     missing = calculateMissingIngredients final pantryItems
                 in (case weekStart of
                       InvalidDate \<Rightarrow> Inl InvalidTimeValue
                     | ValidDate isoString \<Rightarrow>
                         let planRsp = plan_insert db
                               (planRow isoString (planTotals recipesWithMacros dailyTargets))
                         in (case rsp_data planRsp of
                               None \<Rightarrow> Inl FailedToCreateMealPlan
                             | Some plan \<Rightarrow>
                                 if rsp_error planRsp then Inl FailedToCreateMealPlan
                                 else Inr \<lparr> mealPlan = plan,
                                            meals = insertMeals (meal_insert db) final,
                                            missingIngredients = missing,
                                            macroAccuracy = macroAccuracyOf final dailyTargets \<rparr>))))"

section \<open>Notions used to state the properties\<close>

text \<open>An ingredient requirement is present when the pantry has an item for its
  ingredient; \<open>possibleServings\<close> is the floor of the machine's quotient of pantry
  quantity and required quantity.\<close>

definition present :: "PantryItem list \<Rightarrow> RecipeIngredient \<Rightarrow> bool" where
  "present pantryItems i = (pantryFind pantryItems (ingredient_id i) \<noteq> None)"

definition possibleServings :: "PantryItem list \<Rightarrow> RecipeIngredient \<Rightarrow> int" where
  "possibleServings pantryItems i =
     \<lfloor>fl53 (pantryQuantity pantryItems (ingredient_id i) / quantity i)\<rfloor>"

text \<open>The assignments a run of the greedy loop emits, replayed from the protein \<open>acc\<close>
  accumulated before them: each one is emitted while the daily gap is positive, with the
  clamped number of servings, and adds its protein to the accumulator.\<close>

fun greedyTrace :: "MacroProfile \<Rightarrow> real \<Rightarrow> Selection list \<Rightarrow> bool" where
  "greedyTrace t acc [] = True"
| "greedyTrace t acc (s # ss) =
     (0 < dailyGap (protein t) acc
      \<and> Math_min3 (Math_ceil (js_div (dailyGap (protein t) acc) (protein (macros (recipe s)))))
           (availableServings (recipe s)) (Fin 3) = Fin (servings s)
      \<and> 0 < servings s
      \<and> greedyTrace t (acc + protein (macros (recipe s)) * servings s) ss)"

text \<open>The ingredients a plan requires: the ids its assignments' recipes list, and for an
  id the total of servings times required quantity over the assignments and their
  requirements with that id, as the machine adds it up. \<open>requirements\<close> lists every
  requirement with the servings of its assignment, in the order the reporter visits
  them. \<open>sumFor\<close> is the total of one id's requirements in such a list: the product of
  the first of them, to which \<open>sumFrom\<close> adds the products of the others from left to
  right, every product and every sum rounded. \<open>needFold\<close> is the reporter's loop over
  such a list.\<close>

definition requirements :: "Selection list \<Rightarrow> (RecipeIngredient \<times> real) list" where
  "requirements sel =
     concat (map (\<lambda>s. map (\<lambda>i. (i, servings s)) (recipe_ingredients (recipe s))) sel)"

definition requiredIds :: "Selection list \<Rightarrow> string set" where
  "requiredIds sel = (\<Union>s\<in>set sel. ingredient_id ` set (recipe_ingredients (recipe s)))"

fun sumFrom :: "string \<Rightarrow> real \<Rightarrow> (RecipeIngredient \<times> real) list \<Rightarrow> real" where
  "sumFrom k acc [] = acc"
| "sumFrom k acc ((i, sv) # ps) =
     sumFrom k (if ingredient_id i = k then fl53 (acc + fl53 (quantity i * sv)) else acc) ps"

fun sumFor :: "(RecipeIngredient \<times> real) list \<Rightarrow> string \<Rightarrow> real" where
  "sumFor [] k = 0"
| "sumFor ((i, sv) # ps) k =
     (if ingredient_id i = k then sumFrom k (fl53 (quantity i * sv)) ps else sumFor ps k)"

definition totalRequired :: "Selection list \<Rightarrow> string \<Rightarrow> real" where
  "totalRequired sel k = sumFor (requirements sel) k"

definition needFold :: "PantryItem list \<Rightarrow> (string \<times> Need) list \<Rightarrow> (RecipeIngredient \<times> real) list \<Rightarrow> (string \<times> Need) list" where
  "needFold pantryItems m ps = foldl (\<lambda>m (i, sv). needStep pantryItems sv m i) m ps"

text \<open>The accumulator of the greedy stage holds the macros of the assignments selected
  so far.\<close>

definition accumulated :: "GreedyState \<Rightarrow> bool" where
  "accumulated st =
     (calories (currentMacros st) = weeklyCalories (selectedRecipes st)
      \<and> protein (currentMacros st) = weeklyProtein (selectedRecipes st)
      \<and> carbs (currentMacros st) = weeklyCarbs (selectedRecipes st)
      \<and> fat (currentMacros st) = weeklyFat (selectedRecipes st))"

section \<open>Sample data\<close>

text \<open>Two ingredients of the seed catalogue, a recipe that needs 150 g of the first and
  80 g of the second per serving, and a pantry with 500 g and 400 g of them. A decimal
  of a database column enters the engine as the nearest double: 3.6 g of fat is
  \<open>fl53 (36 / 10)\<close>.\<close>

definition chickenBreast :: Ingredient where
  "chickenBreast = \<lparr> name = ''Chicken Breast'', kcal = 165, protein_100 = 23,
                     carbs_100 = 0, fat_100 = fl53 (36 / 10) \<rparr>"

definition brownRice :: Ingredient where
  "brownRice = \<lparr> name = ''Brown Rice'', kcal = 111, protein_100 = fl53 (26 / 10),
                 carbs_100 = 23, fat_100 = fl53 (9 / 10) \<rparr>"

definition chickenRice :: Recipe where
  "chickenRice =
     \<lparr> recipe_id = ''chicken-rice'',
       recipe_ingredients =
         [\<lparr> ingredient_id = ''chicken'', quantity = 150, unit = ''g'', ingredients = chickenBreast \<rparr>,
          \<lparr> ingredient_id = ''rice'', quantity = 80, unit = ''g'', ingredients = brownRice \<rparr>] \<rparr>"

definition samplePantry :: "PantryItem list" where
  "samplePantry = [\<lparr> p_ingredient_id = ''chicken'', p_quantity = 500 \<rparr>,
                   \<lparr> p_ingredient_id = ''rice'', p_quantity = 400 \<rparr>]"

text \<open>The scenario of the specification: 2000 kcal at 30/40/30 percent, and one recipe
  with 40 g of protein per serving, available 10 times.\<close>

definition specTargets :: MacroProfile where
  "specTargets = \<lparr> calories = 2000, protein = 150, carbs = 200, fat = 67 \<rparr>"

definition specChickenRice :: RecipeWithMacros where
  "specChickenRice =
     \<lparr> recipe_id = ''chicken+rice'', recipe_ingredients = [],
       macros = \<lparr> calories = 400, protein = 40, carbs = 30, fat = 10 \<rparr>,
       proteinDensity = 10, availableServings = Fin 10 \<rparr>"

text \<open>Two more recipes with their macros: one rich in carbohydrate, one rich in fat.\<close>

definition oatsBowl :: RecipeWithMacros where
  "oatsBowl =
     \<lparr> recipe_id = ''oats-bowl'', recipe_ingredients = [],
       macros = \<lparr> calories = 300, protein = 5, carbs = 60, fat = 5 \<rparr>,
       proteinDensity = 5 / 3, availableServings = Fin 5 \<rparr>"

definition nutMix :: RecipeWithMacros where
  "nutMix =
     \<lparr> recipe_id = ''nut-mix'', recipe_ingredients = [],
       macros = \<lparr> calories = 600, protein = 20, carbs = 10, fat = 50 \<rparr>,
       proteinDensity = 10 / 3, availableServings = Fin 1 \<rparr>"

text \<open>A target whose protein part the first serving of the scenario's recipe meets, so
  that recipes are left for the gap filler.\<close>

definition lowProteinTargets :: MacroProfile where
  "lowProteinTargets = \<lparr> calories = 2000, protein = 5, carbs = 200, fat = 67 \<rparr>"

text \<open>A pantry with too little chicken for one serving of the sample recipe, and a plan
  of four servings of it.\<close>

definition scarcePantry :: "PantryItem list" where
  "scarcePantry = [\<lparr> p_ingredient_id = ''chicken'', p_quantity = 100 \<rparr>,
                   \<lparr> p_ingredient_id = ''rice'', p_quantity = 400 \<rparr>]"

definition fourServings :: "Selection list" where
  "fourServings = [\<lparr> recipe = withMacros samplePantry chickenRice, servings = 4, day = 0,
                     slot = ''dinner'' \<rparr>]"

text \<open>A database that answers every query and echoes every inserted row, and the one
  with the sample recipe and pantry; a Monday as the week's start; the profile a new user
  has by default; the sample recipe with its macros and availability in the sample
  pantry.\<close>

definition sampleWeek :: JsDate where
  "sampleWeek = ValidDate ''2025-01-06T00:00:00.000Z''"

definition echoDb :: "UserProfile \<Rightarrow> Recipe list \<Rightarrow> PantryItem list \<Rightarrow> Db" where
  "echoDb userProfile recipes pantryItems =
     \<lparr> users_single = \<lparr> rsp_data = Some userProfile, rsp_error = False \<rparr>,
       pantry_select = \<lparr> rsp_data = Some pantryItems, rsp_error = False \<rparr>,
       recipes_select = \<lparr> rsp_data = Some recipes, rsp_error = False \<rparr>,
       plan_insert = (\<lambda>row. \<lparr> rsp_data = Some row, rsp_error = False \<rparr>),
       meal_insert = (\<lambda>row. \<lparr> rsp_data = Some row, rsp_error = False \<rparr>),
       random_carb = 1 / 2, random_fat = 9 / 10 \<rparr>"

definition sampleDb :: "UserProfile \<Rightarrow> Db" where
  "sampleDb userProfile = echoDb userProfile [chickenRice] samplePantry"

definition defaultProfile :: UserProfile where
  "defaultProfile = \<lparr> kcal_target = 2000, protein_pct = 30, carb_pct = 40, fat_pct = 30 \<rparr>"

definition chickenRiceMacros :: RecipeWithMacros where
  "chickenRiceMacros =
     \<lparr> recipe_id = ''chicken-rice'', recipe_ingredients = recipe_ingredients chickenRice,
       macros = \<lparr> calories = 336, protein = 37, carbs = 18, fat = 6 \<rparr>,
       proteinDensity = 925 / 84, availableServings = Fin 3 \<rparr>"

text \<open>Profiles with a protein percentage above 100, with no energy and with negative
  energy.\<close>

definition overProteinProfile :: UserProfile where
  "overProteinProfile = \<lparr> kcal_target = 2000, protein_pct = 150, carb_pct = 40, fat_pct = 30 \<rparr>"

definition zeroEnergyProfile :: UserProfile where
  "zeroEnergyProfile = \<lparr> kcal_target = 0, protein_pct = 30, carb_pct = 40, fat_pct = 30 \<rparr>"

definition negativeEnergyProfile :: UserProfile where
  "negativeEnergyProfile = \<lparr> kcal_target = - 500, protein_pct = 30, carb_pct = 40, fat_pct = 30 \<rparr>"

text \<open>A profile of 100 kcal a day (8 g, 10 g and 3 g at 30/40/30 percent), a pantry with
  300 g of nuts, and two recipes of 231 g and 115.5 g of nuts a serving (1402 and 701
  kcal), with their macros and availability in that pantry.\<close>

definition mixedNuts :: Ingredient where
  "mixedNuts = \<lparr> name = ''Mixed Nuts'', kcal = 607, protein_100 = 20, carbs_100 = 21,
                 fat_100 = 54 \<rparr>"

definition nutFeast :: Recipe where
  "nutFeast =
     \<lparr> recipe_id = ''nut-feast'',
       recipe_ingredients =
         [\<lparr> ingredient_id = ''nuts'', quantity = 231, unit = ''g'', ingredients = mixedNuts \<rparr>] \<rparr>"

definition nutSnack :: Recipe where
  "nutSnack =
     \<lparr> recipe_id = ''nut-snack'',
       recipe_ingredients =
         [\<lparr> ingredient_id = ''nuts'', quantity = 231 / 2, unit = ''g'', ingredients = mixedNuts \<rparr>] \<rparr>"

definition nutPantry :: "PantryItem list" where
  "nutPantry = [\<lparr> p_ingredient_id = ''nuts'', p_quantity = 300 \<rparr>]"

definition lightProfile :: UserProfile where
  "lightProfile = \<lparr> kcal_target = 100, protein_pct = 30, carb_pct = 40, fat_pct = 30 \<rparr>"

definition nutFeastMacros :: RecipeWithMacros where
  "nutFeastMacros =
     \<lparr> recipe_id = ''nut-feast'', recipe_ingredients = recipe_ingredients nutFeast,
       macros = \<lparr> calories = 1402, protein = 46, carbs = 49, fat = 125 \<rparr>,
       proteinDensity = 2300 / 701, availableServings = Fin 1 \<rparr>"

definition nutSnackMacros :: RecipeWithMacros where
  "nutSnackMacros =
     \<lparr> recipe_id = ''nut-snack'', recipe_ingredients = recipe_ingredients nutSnack,
       macros = \<lparr> calories = 701, protein = 23, carbs = 24, fat = 62 \<rparr>,
       proteinDensity = 2300 / 701, availableServings = Fin 2 \<rparr>"

text \<open>A recipe of 173 g of nuts a serving (1050 kcal).\<close>

definition nutBowl :: Recipe where
  "nutBowl =
     \<lparr> recipe_id = ''nut-bowl'',
       recipe_ingredients =
         [\<lparr> ingredient_id = ''nuts'', quantity = 173, unit = ''g'', ingredients = mixedNuts \<rparr>] \<rparr>"

definition nutBowlMacros :: RecipeWithMacros where
  "nutBowlMacros =
     \<lparr> recipe_id = ''nut-bowl'', recipe_ingredients = recipe_ingredients nutBowl,
       macros = \<lparr> calories = 1050, protein = 35, carbs = 36, fat = 93 \<rparr>,
       proteinDensity = 10 / 3, availableServings = Fin 1 \<rparr>"

text \<open>Two recipes that take 0.1 g of saffron a serving, the second with 80 g of rice, and
  a pantry with 0.3 g of saffron and 100 g of rice; the recipes with their macros and
  availability in that pantry.\<close>

definition saffron :: Ingredient where
  "saffron = \<lparr> name = ''Saffron'', kcal = 310, protein_100 = 11, carbs_100 = 65,
               fat_100 = 6 \<rparr>"

definition saffronTea :: Recipe where
  "saffronTea =
     \<lparr> recipe_id = ''saffron-tea'',
       recipe_ingredients =
         [\<lparr> ingredient_id = ''saffron'', quantity = fl53 (1 / 10), unit = ''g'',
            ingredients = saffron \<rparr>] \<rparr>"

definition saffronRice :: Recipe where
  "saffronRice =
     \<lparr> recipe_id = ''saffron-rice'',
       recipe_ingredients =
         [\<lparr> ingredient_id = ''saffron'', quantity = fl53 (1 / 10), unit = ''g'',
            ingredients = saffron \<rparr>,
          \<lparr> ingredient_id = ''rice'', quantity = 80, unit = ''g'', ingredients = brownRice \<rparr>] \<rparr>"

definition saffronPantry :: "PantryItem list" where
  "saffronPantry = [\<lparr> p_ingredient_id = ''saffron'', p_quantity = fl53 (3 / 10) \<rparr>,
                    \<lparr> p_ingredient_id = ''rice'', p_quantity = 100 \<rparr>]"

definition saffronTeaMacros :: RecipeWithMacros where
  "saffronTeaMacros =
     \<lparr> recipe_id = ''saffron-tea'', recipe_ingredients = recipe_ingredients saffronTea,
       macros = \<lparr> calories = 0, protein = 0, carbs = 0, fat = 0 \<rparr>,
       proteinDensity = 0, availableServings = Fin 2 \<rparr>"

definition saffronRiceMacros :: RecipeWithMacros where
  "saffronRiceMacros =
     \<lparr> recipe_id = ''saffron-rice'', recipe_ingredients = recipe_ingredients saffronRice,
       macros = \<lparr> calories = 89, protein = 2, carbs = 18, fat = 1 \<rparr>,
       proteinDensity = 200 / 89, availableServings = Fin 1 \<rparr>"

section \<open>Rounding to a double\<close>

text \<open>The exponent is found from the length of the integer part, or of the integer part
  of the inverse, in bits.\<close>

lemma bitlen_One [simp]: "bitlen 1 = 1"
  by (subst compute_bitlen) simp

lemma bitlen_Bit0 [simp]: "bitlen (numeral (Num.Bit0 n)) = bitlen (numeral n) + 1"
  by (subst compute_bitlen) simp

lemma bitlen_Bit1 [simp]: "bitlen (numeral (Num.Bit1 n)) = bitlen (numeral n) + 1"
  by (subst compute_bitlen) simp

text \<open>The rules that evaluate \<open>fl53\<close> on a number.\<close>

lemmas fl53_eval = fl53_def expo_def pow2_def rne_def Let_def

lemma pow2_powr: "pow2 e = 2 powr (of_int e)"
proof (cases "0 \<le> e")
  case True
  then have "(2::real) powr (of_int e) = 2 powr (real (nat e))" by simp
  also have "\<dots> = 2 ^ nat e" by (simp only: powr_realpow zero_less_numeral)
  finally show ?thesis using True by (simp add: pow2_def)
next
  case False
  then have "(2::real) powr (of_int e) = 2 powr (- real (nat (- e)))" by simp
  also have "\<dots> = 1 / 2 powr (real (nat (- e)))" by (simp only: powr_minus_divide)
  also have "\<dots> = 1 / 2 ^ nat (- e)" by (simp only: powr_realpow zero_less_numeral)
  finally show ?thesis using False by (simp add: pow2_def)
qed

lemma pow2_pos [simp]: "0 < pow2 e"
  by (simp add: pow2_powr)

lemma pow2_nonneg [simp]: "0 \<le> pow2 e"
  by (simp add: pow2_powr)

lemma pow2_neq_0 [simp]: "pow2 e \<noteq> 0"
  by (simp add: pow2_powr)

lemma pow2_add: "pow2 (a + b) = pow2 a * pow2 b"
  by (simp add: pow2_powr powr_add)

lemma pow2_mono: "a \<le> b \<Longrightarrow> pow2 a \<le> pow2 b"
  by (simp add: pow2_powr)

lemma pow2_less_iff: "pow2 a < pow2 b \<longleftrightarrow> a < b"
  by (simp add: pow2_powr)

lemma pow2_nat: "0 \<le> e \<Longrightarrow> pow2 e = 2 ^ nat e"
  by (simp add: pow2_def)

lemma expo_bounds:
  assumes "x \<noteq> 0"
  shows "pow2 (expo x) \<le> \<bar>x\<bar> \<and> \<bar>x\<bar> < pow2 (expo x + 1)"
proof (cases "1 \<le> \<bar>x\<bar>")
  case True
  define n where "n = \<lfloor>\<bar>x\<bar>\<rfloor>"
  have n: "0 < n" using True by (simp add: n_def)
  have e: "expo x = bitlen n - 1" using True by (simp add: expo_def n_def)
  from bitlen_bounds[OF n] have b: "2 ^ nat (bitlen n - 1) \<le> n" "n < 2 ^ nat (bitlen n)" by simp_all
  have bl: "1 \<le> bitlen n" using n bitlen_nonneg[of "n div 2"] by (subst compute_bitlen) simp
  have "pow2 (expo x) = 2 ^ nat (bitlen n - 1)" using bl by (simp add: e pow2_nat)
  also have "\<dots> \<le> of_int n"
  proof -
    have "(of_int (2 ^ nat (bitlen n - 1)) :: real) \<le> of_int n" using b(1) by (simp only: of_int_le_iff)
    then show ?thesis by simp
  qed
  also have "\<dots> \<le> \<bar>x\<bar>" by (simp add: n_def)
  finally have 1: "pow2 (expo x) \<le> \<bar>x\<bar>" .
  have "\<bar>x\<bar> < of_int (n + 1)" unfolding n_def by linarith
  also have "of_int (n + 1) \<le> (2::real) ^ nat (bitlen n)"
  proof -
    from b(2) have "n + 1 \<le> 2 ^ nat (bitlen n)" by simp
    then have "(of_int (n + 1) :: real) \<le> of_int (2 ^ nat (bitlen n))" by (simp only: of_int_le_iff)
    then show ?thesis by simp
  qed
  also have "\<dots> = pow2 (expo x + 1)" using bl by (simp add: e pow2_nat)
  finally show ?thesis using 1 by simp
next
  case False
  define m where "m = \<lceil>1 / \<bar>x\<bar>\<rceil>"
  have x: "0 < \<bar>x\<bar>" "\<bar>x\<bar> < 1" using assms False by simp_all
  then have "1 < 1 / \<bar>x\<bar>" by simp
  then have m: "2 \<le> m" unfolding m_def by linarith
  define k where "k = bitlen (m - 1)"
  have e: "expo x = - k" using False by (simp add: expo_def m_def k_def)
  have m1: "0 < m - 1" using m by simp
  from bitlen_bounds[OF m1] have b: "2 ^ nat (k - 1) \<le> m - 1" "m - 1 < 2 ^ nat k"
    by (simp_all add: k_def)
  have k: "1 \<le> k" unfolding k_def
    using m1 bitlen_nonneg[of "(m - 1) div 2"] by (subst compute_bitlen) simp
  have "1 / \<bar>x\<bar> \<le> of_int m" by (simp add: m_def)
  also have "of_int m \<le> (2::real) ^ nat k"
  proof -
    from b(2) have "m \<le> 2 ^ nat k" by simp
    then have "(of_int m :: real) \<le> of_int (2 ^ nat k)" by (simp only: of_int_le_iff)
    then show ?thesis by simp
  qed
  finally have "1 / \<bar>x\<bar> \<le> 2 ^ nat k" .
  then have "1 \<le> 2 ^ nat k * \<bar>x\<bar>" using x(1) by (simp add: pos_divide_le_eq)
  then have "1 / 2 ^ nat k \<le> \<bar>x\<bar>" by (simp add: pos_divide_le_eq mult.commute)
  moreover have "pow2 (expo x) = 1 / 2 ^ nat k" using k by (simp add: e pow2_def)
  ultimately have 1: "pow2 (expo x) \<le> \<bar>x\<bar>" by simp
  have "(2::real) ^ nat (k - 1) \<le> of_int (m - 1)"
  proof -
    have "(of_int (2 ^ nat (k - 1)) :: real) \<le> of_int (m - 1)" using b(1) by (simp only: of_int_le_iff)
    then show ?thesis by simp
  qed
  also have "of_int (m - 1) < 1 / \<bar>x\<bar>" unfolding m_def by linarith
  finally have "2 ^ nat (k - 1) < 1 / \<bar>x\<bar>" .
  then have "2 ^ nat (k - 1) * \<bar>x\<bar> < 1" using x(1) by (simp add: pos_less_divide_eq)
  then have "\<bar>x\<bar> < 1 / 2 ^ nat (k - 1)" by (simp add: pos_less_divide_eq mult.commute)
  moreover have "pow2 (expo x + 1) = 1 / 2 ^ nat (k - 1)"
  proof (cases "k = 1")
    case True
    then show ?thesis by (simp add: e pow2_def)
  next
    case False
    with k have "1 < k" by simp
    then have "- k + 1 < 0" "nat (- (- k + 1)) = nat (k - 1)" by simp_all
    then show ?thesis by (simp add: e pow2_def)
  qed
  ultimately show ?thesis using 1 by simp
qed

lemma rne_bounds: "y - 1 / 2 \<le> of_int (rne y) \<and> of_int (rne y) \<le> y + 1 / 2"
  unfolding rne_def Let_def by (auto; linarith)

lemma rne_of_int [simp]: "rne (of_int n) = n"
  by (simp add: rne_def)

lemma rne_mono: "x \<le> y \<Longrightarrow> rne x \<le> rne y"
proof -
  assume xy: "x \<le> y"
  then have f: "\<lfloor>x\<rfloor> \<le> \<lfloor>y\<rfloor>" by (rule floor_mono)
  have lx: "\<lfloor>x\<rfloor> \<le> rne x" "rne x \<le> \<lfloor>x\<rfloor> + 1" by (simp_all add: rne_def Let_def)
  have ly: "\<lfloor>y\<rfloor> \<le> rne y" by (simp add: rne_def Let_def)
  show ?thesis
  proof (cases "\<lfloor>x\<rfloor> = \<lfloor>y\<rfloor>")
    case True
    then have "x - of_int \<lfloor>x\<rfloor> \<le> y - of_int \<lfloor>y\<rfloor>" using xy by simp
    then show ?thesis using True unfolding rne_def Let_def by auto
  next
    case False
    with f have "\<lfloor>x\<rfloor> + 1 \<le> \<lfloor>y\<rfloor>" by simp
    with lx ly show ?thesis by linarith
  qed
qed

lemma rne_minus: "rne (- y) = - rne y"
proof (cases "y = of_int \<lfloor>y\<rfloor>")
  case True
  then obtain n where "y = of_int n" ..
  then have "- y = of_int (- n)" by simp
  then show ?thesis using \<open>y = of_int n\<close> by (metis rne_of_int)
next
  case False
  then have fl: "\<lfloor>- y\<rfloor> = - \<lfloor>y\<rfloor> - 1"
    by (metis ceiling_altdef ceiling_def add_diff_cancel_right' minus_diff_eq diff_minus_eq_add minus_minus uminus_add_conv_diff)
  have ev: "even (- \<lfloor>y\<rfloor> - 1) \<longleftrightarrow> odd \<lfloor>y\<rfloor>" by simp
  have fr: "- y - of_int (- \<lfloor>y\<rfloor> - 1) = 1 - (y - of_int \<lfloor>y\<rfloor>)" by simp
  show ?thesis
    unfolding rne_def Let_def fl fr ev by auto
qed

lemma fl53_zero [simp]: "fl53 0 = 0"
  by (simp add: fl53_def)

lemma expo_minus [simp]: "expo (- x) = expo x"
  by (simp add: expo_def)

lemma fl53_minus: "fl53 (- x) = - fl53 x"
  by (simp add: fl53_def rne_minus)

lemma pow2_split: "pow2 e = 2 ^ 52 * pow2 (e - 52)" "pow2 (e + 1) = 2 ^ 53 * pow2 (e - 52)"
proof -
  have "pow2 e = pow2 (52 + (e - 52))" by (rule arg_cong[of _ _ pow2]) simp
  also have "\<dots> = pow2 52 * pow2 (e - 52)" by (simp only: pow2_add)
  finally show "pow2 e = 2 ^ 52 * pow2 (e - 52)" by (simp add: pow2_def)
  have "pow2 (e + 1) = pow2 (53 + (e - 52))" by (rule arg_cong[of _ _ pow2]) simp
  also have "\<dots> = pow2 53 * pow2 (e - 52)" by (simp only: pow2_add)
  finally show "pow2 (e + 1) = 2 ^ 53 * pow2 (e - 52)" by (simp add: pow2_def)
qed

lemma mantissa_bounds:
  assumes "0 < x"
  shows "2 ^ 52 \<le> x / pow2 (expo x - 52) \<and> x / pow2 (expo x - 52) < 2 ^ 53"
proof -
  from assms expo_bounds[of x] have b: "pow2 (expo x) \<le> x" "x < pow2 (expo x + 1)" by simp_all
  show ?thesis
    using b unfolding pow2_split[of "expo x"] by (simp add: pos_le_divide_eq pos_divide_less_eq)
qed

lemma fl53_binade:
  assumes "0 < x"
  shows "pow2 (expo x) \<le> fl53 x \<and> fl53 x \<le> pow2 (expo x + 1)"
proof -
  let ?u = "pow2 (expo x - 52)"
  from mantissa_bounds[OF assms] have m: "2 ^ 52 \<le> x / ?u" "x / ?u \<le> 2 ^ 53" by simp_all
  have "rne (of_int (2 ^ 52)) \<le> rne (x / ?u)" using m(1) by (intro rne_mono) simp
  then have lo: "(2 ^ 52 :: int) \<le> rne (x / ?u)" by (simp only: rne_of_int)
  have "rne (x / ?u) \<le> rne (of_int (2 ^ 53))" using m(2) by (intro rne_mono) simp
  then have hi: "rne (x / ?u) \<le> (2 ^ 53 :: int)" by (simp only: rne_of_int)
  have f: "fl53 x = of_int (rne (x / ?u)) * ?u" using assms by (simp add: fl53_def)
  from lo have "(of_int (2 ^ 52) :: real) \<le> of_int (rne (x / ?u))" by (simp only: of_int_le_iff)
  then have "2 ^ 52 * ?u \<le> of_int (rne (x / ?u)) * ?u" by (simp add: mult_right_mono)
  moreover from hi have "(of_int (rne (x / ?u)) :: real) \<le> of_int (2 ^ 53)" by (simp only: of_int_le_iff)
  then have "of_int (rne (x / ?u)) * ?u \<le> 2 ^ 53 * ?u" by (simp add: mult_right_mono)
  ultimately show ?thesis unfolding f pow2_split[of "expo x"] by simp
qed

lemma fl53_mono_pos:
  assumes "0 < x" "x \<le> y"
  shows "fl53 x \<le> fl53 y"
proof -
  have y: "0 < y" using assms by simp
  from expo_bounds[of x] expo_bounds[of y] assms y
  have b: "pow2 (expo x) \<le> x" "y < pow2 (expo y + 1)" by simp_all
  with assms(2) have "pow2 (expo x) < pow2 (expo y + 1)" by linarith
  then have le: "expo x \<le> expo y" by (simp add: pow2_less_iff)
  show ?thesis
  proof (cases "expo x = expo y")
    case True
    let ?u = "pow2 (expo y - 52)"
    have "x / ?u \<le> y / ?u" using assms(2) by (simp add: divide_right_mono)
    then have "rne (x / ?u) \<le> rne (y / ?u)" by (rule rne_mono)
    then have "(of_int (rne (x / ?u)) :: real) \<le> of_int (rne (y / ?u))" by (simp only: of_int_le_iff)
    then have "of_int (rne (x / ?u)) * ?u \<le> of_int (rne (y / ?u)) * ?u" by (simp add: mult_right_mono)
    then show ?thesis using assms y True by (simp add: fl53_def)
  next
    case False
    with le have "expo x + 1 \<le> expo y" by simp
    then have "pow2 (expo x + 1) \<le> pow2 (expo y)" by (rule pow2_mono)
    with fl53_binade[OF assms(1)] fl53_binade[OF y] show ?thesis by linarith
  qed
qed

lemma fl53_nonneg: "0 \<le> x \<Longrightarrow> 0 \<le> fl53 x"
proof (cases "x = 0")
  case False
  assume "0 \<le> x"
  with False have "0 < x" by simp
  from fl53_binade[OF this] pow2_pos[of "expo x"] show ?thesis by linarith
qed simp

lemma fl53_mono: "x \<le> y \<Longrightarrow> fl53 x \<le> fl53 y"
proof -
  assume xy: "x \<le> y"
  consider "0 < x" | "x \<le> 0" "0 \<le> y" | "y < 0" using xy by linarith
  then show ?thesis
  proof cases
    case 1
    then show ?thesis using xy by (rule fl53_mono_pos)
  next
    case 2
    have "0 \<le> fl53 (- x)" using 2(1) by (intro fl53_nonneg) simp
    then have "fl53 x \<le> 0" by (simp add: fl53_minus)
    also have "0 \<le> fl53 y" using 2(2) by (rule fl53_nonneg)
    finally show ?thesis .
  next
    case 3
    then have "0 < - y" "- y \<le> - x" using xy by simp_all
    from fl53_mono_pos[OF this] show ?thesis by (simp add: fl53_minus)
  qed
qed

lemma fl53_error:
  "\<bar>fl53 x - x\<bar> \<le> \<bar>x\<bar> / 2 ^ 53"
proof (cases "x = 0")
  case True
  then show ?thesis by simp
next
  case False
  let ?u = "pow2 (expo x - 52)"
  have f: "fl53 x = of_int (rne (x / ?u)) * ?u" using False by (simp add: fl53_def)
  from rne_bounds[of "x / ?u"] have "\<bar>of_int (rne (x / ?u)) - x / ?u\<bar> \<le> 1 / 2" by linarith
  then have "\<bar>of_int (rne (x / ?u)) - x / ?u\<bar> * ?u \<le> 1 / 2 * ?u"
    by (intro mult_right_mono) simp_all
  moreover have "\<bar>of_int (rne (x / ?u)) - x / ?u\<bar> * ?u = \<bar>fl53 x - x\<bar>"
  proof -
    have "\<bar>of_int (rne (x / ?u)) - x / ?u\<bar> * ?u = \<bar>(of_int (rne (x / ?u)) - x / ?u) * ?u\<bar>"
      by (simp add: abs_mult)
    also have "(of_int (rne (x / ?u)) - x / ?u) * ?u = fl53 x - x"
      by (simp add: f left_diff_distrib)
    finally show ?thesis .
  qed
  moreover have "1 / 2 * ?u \<le> \<bar>x\<bar> / 2 ^ 53"
  proof -
    from expo_bounds[OF False] have "pow2 (expo x) \<le> \<bar>x\<bar>" by simp
    then have "2 ^ 52 * ?u \<le> \<bar>x\<bar>" unfolding pow2_split[of "expo x"] .
    then show ?thesis by simp
  qed
  ultimately show ?thesis by linarith
qed

lemma fl53_upper: "0 \<le> x \<Longrightarrow> fl53 x \<le> x * (1 + 1 / 2 ^ 53)"
proof -
  assume x: "0 \<le> x"
  from fl53_error[of x] have "fl53 x - x \<le> \<bar>x\<bar> / 2 ^ 53" by linarith
  with x have "fl53 x \<le> x + x / 2 ^ 53" by simp
  also have "x + x / 2 ^ 53 = x * (1 + 1 / 2 ^ 53)" by (simp only: distrib_left mult_1_right times_divide_eq_right)
  finally show ?thesis .
qed

lemma fl53_lower: "0 \<le> x \<Longrightarrow> x * (1 - 1 / 2 ^ 53) \<le> fl53 x"
proof -
  assume x: "0 \<le> x"
  from fl53_error[of x] have "x - fl53 x \<le> \<bar>x\<bar> / 2 ^ 53" by linarith
  with x have "x - x / 2 ^ 53 \<le> fl53 x" by simp
  moreover have "x - x / 2 ^ 53 = x * (1 - 1 / 2 ^ 53)" by (simp only: right_diff_distrib mult_1_right times_divide_eq_right)
  ultimately show ?thesis by simp
qed

text \<open>The result of a rounding is a double: rounding it again returns it.\<close>

lemma expo_unique:
  assumes "pow2 e \<le> \<bar>x\<bar>" "\<bar>x\<bar> < pow2 (e + 1)"
  shows "expo x = e"
proof -
  have x: "x \<noteq> 0"
  proof
    assume "x = 0"
    with assms(1) have "pow2 e \<le> 0" by simp
    with pow2_pos[of e] show False by linarith
  qed
  from expo_bounds[OF x] have b: "pow2 (expo x) \<le> \<bar>x\<bar>" "\<bar>x\<bar> < pow2 (expo x + 1)" by simp_all
  from b(1) assms(2) have "pow2 (expo x) < pow2 (e + 1)" by linarith
  then have 1: "expo x < e + 1" by (simp only: pow2_less_iff)
  from assms(1) b(2) have "pow2 e < pow2 (expo x + 1)" by linarith
  then have 2: "e < expo x + 1" by (simp only: pow2_less_iff)
  from 1 2 show ?thesis by simp
qed

lemma pow2_shift: "pow2 (k + 52) = 2 ^ 52 * pow2 k" "pow2 (k + 53) = 2 ^ 53 * pow2 k"
proof -
  have "pow2 (k + 52) = pow2 k * pow2 52" by (simp only: pow2_add)
  also have "pow2 52 = 2 ^ 52" by (simp add: pow2_def)
  finally show "pow2 (k + 52) = 2 ^ 52 * pow2 k" by simp
  have "pow2 (k + 53) = pow2 k * pow2 53" by (simp only: pow2_add)
  also have "pow2 53 = 2 ^ 53" by (simp add: pow2_def)
  finally show "pow2 (k + 53) = 2 ^ 53 * pow2 k" by simp
qed

lemma fl53_fixed:
  assumes "2 ^ 52 \<le> m" "m \<le> 2 ^ 53"
  shows "fl53 (of_int m * pow2 k) = of_int m * pow2 k"
proof (cases "m = 2 ^ 53")
  case False
  with assms have m: "m < 2 ^ 53" by simp
  let ?x = "of_int m * pow2 k"
  have pos: "0 < ?x" using assms(1) by (simp add: zero_less_mult_iff) 
  have lo: "pow2 (k + 52) \<le> \<bar>?x\<bar>"
  proof -
    have "pow2 (k + 52) = 2 ^ 52 * pow2 k" by (rule pow2_shift)
    also have "\<dots> \<le> of_int m * pow2 k"
    proof (rule mult_right_mono)
      have "(of_int (2 ^ 52) :: real) \<le> of_int m" using assms(1) by (simp only: of_int_le_iff)
      then show "(2 ^ 52 :: real) \<le> of_int m" by simp
    qed simp
    finally show ?thesis using pos by simp
  qed
  have hi: "\<bar>?x\<bar> < pow2 (k + 52 + 1)"
  proof -
    have "(of_int m :: real) < of_int (2 ^ 53)" using m by (simp only: of_int_less_iff)
    then have "(of_int m :: real) < 2 ^ 53" by simp
    then have "of_int m * pow2 k < 2 ^ 53 * pow2 k" by (simp add: mult_strict_right_mono)
    also have "\<dots> = pow2 (k + 52 + 1)"
    proof -
      have "pow2 (k + 52 + 1) = pow2 (k + 53)" by (rule arg_cong[of _ _ pow2]) simp
      then show ?thesis by (simp only: pow2_shift)
    qed
    finally show ?thesis using pos by simp
  qed
  have e: "expo ?x = k + 52" using lo hi by (rule expo_unique)
  have "?x / pow2 (expo ?x - 52) = of_int m" by (simp add: e)
  then show ?thesis using pos by (simp add: fl53_def e)
next
  case True
  define y where "y = pow2 (k + 53)"
  have x: "of_int m * pow2 k = y" by (simp add: True pow2_shift y_def)
  have pos: "0 < y" by (simp add: y_def)
  have e: "expo y = k + 53"
  proof (rule expo_unique)
    show "pow2 (k + 53) \<le> \<bar>y\<bar>" by (simp add: y_def)
    show "\<bar>y\<bar> < pow2 (k + 53 + 1)" by (simp add: y_def pow2_less_iff)
  qed
  have u: "pow2 (expo y - 52) = pow2 (k + 1)"
    unfolding e by (rule arg_cong[of _ _ pow2]) simp
  have y2: "y = 2 ^ 52 * pow2 (k + 1)"
  proof -
    have "pow2 (k + 53) = pow2 (k + 1 + 52)" by (rule arg_cong[of _ _ pow2]) simp
    also have "\<dots> = 2 ^ 52 * pow2 (k + 1)" by (rule pow2_shift)
    finally show ?thesis by (simp only: y_def)
  qed
  have "y / pow2 (k + 1) = of_int (2 ^ 52)" by (subst y2) simp
  then have "rne (y / pow2 (k + 1)) = 2 ^ 52" by (simp only: rne_of_int)
  then have "fl53 y = of_int (2 ^ 52) * pow2 (k + 1)" using pos by (simp add: fl53_def u)
  also have "\<dots> = y" by (simp add: y2)
  finally show ?thesis by (simp only: x)
qed

lemma fl53_idem: "fl53 (fl53 x) = fl53 x"
proof -
  have pos: "fl53 (fl53 x) = fl53 x" if "0 < x" for x
  proof -
    let ?u = "pow2 (expo x - 52)"
    from mantissa_bounds[OF that] have m: "2 ^ 52 \<le> x / ?u" "x / ?u \<le> 2 ^ 53" by simp_all
    have "rne (of_int (2 ^ 52)) \<le> rne (x / ?u)" using m(1) by (intro rne_mono) simp
    then have lo: "(2 ^ 52 :: int) \<le> rne (x / ?u)" by (simp only: rne_of_int)
    have "rne (x / ?u) \<le> rne (of_int (2 ^ 53))" using m(2) by (intro rne_mono) simp
    then have hi: "rne (x / ?u) \<le> (2 ^ 53 :: int)" by (simp only: rne_of_int)
    have f: "fl53 x = of_int (rne (x / ?u)) * ?u" using that by (simp add: fl53_def)
    show ?thesis unfolding f using lo hi by (rule fl53_fixed)
  qed
  consider "0 < x" | "x = 0" | "0 < - x" by linarith
  then show ?thesis
  proof cases
    case 1 then show ?thesis by (rule pos)
  next
    case 2 then show ?thesis by simp
  next
    case 3
    from pos[OF this] show ?thesis by (simp add: fl53_minus)
  qed
qed

text \<open>The doubles of 0.1 and of 0.1 + 0.2.\<close>

lemma fl53_known: "fl53 (1 / 10) = 3602879701896397 / 2 ^ 55"
  "fl53 (fl53 (1 / 10) + fl53 (2 / 10)) = 5404319552844596 / 2 ^ 54"
  by (simp_all add: fl53_eval)

text \<open>Some roundings that occur below.\<close>

lemma fl53_whole [simp]: "fl53 1 = 1" "fl53 100 = 100"
  by (simp_all add: fl53_eval)

lemma round_half_up_mono: "x \<le> y \<Longrightarrow> round_half_up x \<le> round_half_up y"
  by (simp add: round_half_up_def floor_mono)

section \<open>Availability calculator\<close>

lemma step_present:
  "present pantry i \<Longrightarrow> quantity i \<noteq> 0 \<Longrightarrow>
   servingsStep pantry (Fin a) i = Fin (min a (of_int (possibleServings pantry i)))"
  by (auto simp: servingsStep_def double_div_def present_def possibleServings_def pantryQuantity_def)

lemma step_present_inf:
  "present pantry i \<Longrightarrow> quantity i \<noteq> 0 \<Longrightarrow>
   servingsStep pantry PosInf i = Fin (of_int (possibleServings pantry i))"
  by (auto simp: servingsStep_def double_div_def present_def possibleServings_def pantryQuantity_def)

lemma step_absent: "\<not> present pantry i \<Longrightarrow> servingsStep pantry acc i = Fin 0"
  by (simp add: servingsStep_def present_def)

lemma foldl_all_present:
  "\<forall>i\<in>set xs. present pantry i \<and> quantity i \<noteq> 0 \<Longrightarrow>
   foldl (servingsStep pantry) (Fin a) xs = Fin (fold min (map (\<lambda>i. of_int (possibleServings pantry i)) xs) a)"
  by (induction xs arbitrary: a) (simp_all add: step_present min.commute)

lemma servings_all_present:
  assumes "xs \<noteq> []" "\<forall>i\<in>set xs. present pantry i \<and> quantity i \<noteq> 0"
  shows "foldl (servingsStep pantry) PosInf xs = Fin (of_int (Min (possibleServings pantry ` set xs)))"
proof -
  obtain x ys where xs: "xs = x # ys" using assms(1) by (cases xs) auto
  let ?f = "\<lambda>i. (of_int (possibleServings pantry i) :: real)"
  have "foldl (servingsStep pantry) PosInf xs = Fin (fold min (map ?f ys) (?f x))"
    using assms(2) by (simp add: xs step_present_inf foldl_all_present)
  also have "fold min (map ?f ys) (?f x) = Min (set (map ?f xs))"
    unfolding xs using Min.set_eq_fold[of "?f x" "map ?f ys"] by simp
  also have "Min (set (map ?f xs)) = of_int (Min (possibleServings pantry ` set xs))"
  proof -
    have "mono (of_int :: int \<Rightarrow> real)" by (simp add: mono_def)
    from mono_Min_commute[OF this, of "possibleServings pantry ` set xs"] assms(1)
    show ?thesis by (simp add: image_image)
  qed
  finally show ?thesis .
qed

lemma pantryQuantity_nonneg:
  "\<forall>p\<in>set pantry. 0 \<le> p_quantity p \<Longrightarrow> 0 \<le> pantryQuantity pantry k"
  by (auto simp: pantryQuantity_def pantryFind_def find_Some_iff split: option.splits)

lemma possible_nonneg:
  assumes "0 < quantity i" "\<forall>p\<in>set pantry. 0 \<le> p_quantity p"
  shows "0 \<le> possibleServings pantry i"
proof -
  have "0 \<le> pantryQuantity pantry (ingredient_id i) / quantity i"
    using assms(1) pantryQuantity_nonneg[OF assms(2), of "ingredient_id i"] by simp
  then have "0 \<le> fl53 (pantryQuantity pantry (ingredient_id i) / quantity i)"
    by (rule fl53_nonneg)
  then show ?thesis by (simp add: possibleServings_def)
qed

lemma foldl_zero:
  "\<forall>i\<in>set xs. 0 < quantity i \<Longrightarrow> \<forall>p\<in>set pantry. 0 \<le> p_quantity p \<Longrightarrow>
   foldl (servingsStep pantry) (Fin 0) xs = Fin 0"
proof (induction xs)
  case Nil then show ?case by simp
next
  case (Cons x xs)
  show ?case
  proof (cases "present pantry x")
    case True
    with Cons.prems have "servingsStep pantry (Fin 0) x = Fin 0"
      using possible_nonneg[of x pantry] by (simp add: step_present min_def)
    then show ?thesis using Cons by simp
  next
    case False
    then show ?thesis using Cons by (simp add: step_absent)
  qed
qed

lemma foldl_some_absent:
  "\<exists>i\<in>set xs. \<not> present pantry i \<Longrightarrow> \<forall>i\<in>set xs. 0 < quantity i \<Longrightarrow>
   \<forall>p\<in>set pantry. 0 \<le> p_quantity p \<Longrightarrow> foldl (servingsStep pantry) acc xs = Fin 0"
proof (induction xs arbitrary: acc)
  case Nil then show ?case by simp
next
  case (Cons x xs)
  show ?case
  proof (cases "present pantry x")
    case True
    with Cons.prems have "\<exists>i\<in>set xs. \<not> present pantry i" by auto
    with Cons show ?thesis by simp
  next
    case False
    then show ?thesis using Cons.prems by (simp add: step_absent foldl_zero)
  qed
qed

text \<open>The floor of the machine's quotient is at most the quotient, which exceeds the
  exact one by at most one part in \<open>2 ^ 53\<close>.\<close>

lemma possible_le_quotient:
  "of_int (possibleServings pantry i) \<le> fl53 (pantryQuantity pantry (ingredient_id i) / quantity i)"
  by (simp add: possibleServings_def)

lemma possible_times_le:
  assumes "0 < quantity i" "0 \<le> pantryQuantity pantry (ingredient_id i)"
  shows "of_int (possibleServings pantry i) * quantity i
           \<le> pantryQuantity pantry (ingredient_id i) * (1 + 1 / 2 ^ 53)"
proof -
  let ?p = "pantryQuantity pantry (ingredient_id i)"
  have "0 \<le> ?p / quantity i" using assms by simp
  from fl53_upper[OF this] possible_le_quotient[of pantry i]
  have "of_int (possibleServings pantry i) \<le> ?p / quantity i * (1 + 1 / 2 ^ 53)"
    by linarith
  then have "of_int (possibleServings pantry i) \<le> ?p * (1 + 1 / 2 ^ 53) / quantity i"
    by simp
  then show ?thesis using assms(1) by (simp only: pos_le_divide_eq)
qed

lemma possible_antimono:
  assumes "0 < quantity i" "quantity i \<le> q'" "\<forall>p\<in>set pantry. 0 \<le> p_quantity p"
  shows "possibleServings pantry (i\<lparr>quantity := q'\<rparr>) \<le> possibleServings pantry i"
proof -
  have "0 \<le> pantryQuantity pantry (ingredient_id i)"
    using assms(3) by (rule pantryQuantity_nonneg)
  then have "pantryQuantity pantry (ingredient_id i) / q' \<le> pantryQuantity pantry (ingredient_id i) / quantity i"
    using assms(1,2) by (simp add: frac_le)
  then have "fl53 (pantryQuantity pantry (ingredient_id i) / q')
               \<le> fl53 (pantryQuantity pantry (ingredient_id i) / quantity i)"
    by (rule fl53_mono)
  then show ?thesis by (simp add: possibleServings_def floor_mono)
qed

lemma availability_present:
  assumes "recipe_ingredients r \<noteq> []"
      and "\<forall>i\<in>set (recipe_ingredients r). 0 < quantity i"
      and "\<forall>i\<in>set (recipe_ingredients r). present pantry i"
  shows "calculateAvailableServings r pantry =
     Fin (of_int (Min (possibleServings pantry ` set (recipe_ingredients r))))"
proof -
  from assms(2,3) have "\<forall>i\<in>set (recipe_ingredients r). present pantry i \<and> quantity i \<noteq> 0"
    by auto
  from servings_all_present[OF assms(1) this] show ?thesis
    by (simp add: calculateAvailableServings_def)
qed

lemma availability_absent:
  assumes "\<forall>i\<in>set (recipe_ingredients r). 0 < quantity i"
      and "\<forall>p\<in>set pantry. 0 \<le> p_quantity p"
      and "\<exists>i\<in>set (recipe_ingredients r). \<not> present pantry i"
  shows "calculateAvailableServings r pantry = Fin 0"
  using foldl_some_absent[OF assms(3) assms(1,2)]
  by (simp add: calculateAvailableServings_def)

lemma Min_possible_update_le:
  assumes "xs \<noteq> []" "j < length xs" "0 < quantity (xs ! j)" "quantity (xs ! j) \<le> q'"
      and "\<forall>p\<in>set pantry. 0 \<le> p_quantity p"
  shows "Min (possibleServings pantry ` set (xs[j := (xs ! j)\<lparr>quantity := q'\<rparr>]))
         \<le> Min (possibleServings pantry ` set xs)"
proof -
  let ?xs' = "xs[j := (xs ! j)\<lparr>quantity := q'\<rparr>]"
  have ne: "possibleServings pantry ` set ?xs' \<noteq> {}" using assms(1) by simp
  have "\<exists>b\<in>possibleServings pantry ` set ?xs'. b \<le> a"
    if "a \<in> possibleServings pantry ` set xs" for a
  proof -
    from that obtain k where k: "k < length xs" "a = possibleServings pantry (xs ! k)"
      by (auto simp: in_set_conv_nth)
    have mem: "?xs' ! k \<in> set ?xs'" using k(1) by (simp add: nth_mem)
    have "possibleServings pantry (?xs' ! k) \<le> a"
    proof (cases "k = j")
      case True
      then show ?thesis using k assms possible_antimono[of "xs ! j" q' pantry] by simp
    next
      case False
      then show ?thesis using k by simp
    qed
    with mem show ?thesis by blast
  qed
  then have "\<forall>a\<in>possibleServings pantry ` set xs.
      Min (possibleServings pantry ` set ?xs') \<le> a"
    using ne by (meson List.finite_set Min_le finite_imageI order_trans)
  then show ?thesis using assms(1) by (simp add: Min_ge_iff del: set_update_subsetI)
qed

text \<open>
  \<^bold>\<open>Claim C2\<close>, as the code has it. Take a recipe with at least one ingredient
  requirement, every required quantity positive, and a pantry whose quantities are not
  negative. Then \<open>calculateAvailableServings\<close>
  \<^item> returns the minimum over the requirements of the floor of the quotient of pantry
    quantity and required quantity as the machine computes it, when every required
    ingredient has a pantry item;
  \<^item> returns 0 when some required ingredient has none;
  \<^item> returns a finite \<open>n\<close> that, for every required ingredient with a pantry item, is
    at most the machine's quotient, with \<open>n * required quantity\<close> at most the pantry
    quantity enlarged by one part in \<open>2 ^ 53\<close>;
  \<^item> does not return more after one requirement's quantity is replaced by a larger one.
\<close>

theorem availability_floor_property:
  assumes "recipe_ingredients r \<noteq> []"
      and "\<forall>i\<in>set (recipe_ingredients r). 0 < quantity i"
      and "\<forall>p\<in>set pantryItems. 0 \<le> p_quantity p"
  shows "((\<forall>i\<in>set (recipe_ingredients r). present pantryItems i) \<longrightarrow>
            calculateAvailableServings r pantryItems =
              Fin (of_int (Min (possibleServings pantryItems ` set (recipe_ingredients r)))))
       \<and> ((\<exists>i\<in>set (recipe_ingredients r). \<not> present pantryItems i) \<longrightarrow>
            calculateAvailableServings r pantryItems = Fin 0)
       \<and> (\<exists>n. calculateAvailableServings r pantryItems = Fin n \<and>
            (\<forall>i\<in>set (recipe_ingredients r). present pantryItems i \<longrightarrow>
               n \<le> fl53 (pantryQuantity pantryItems (ingredient_id i) / quantity i)
               \<and> n * quantity i
                    \<le> pantryQuantity pantryItems (ingredient_id i) * (1 + 1 / 2 ^ 53)))
       \<and> (\<forall>j q'. j < length (recipe_ingredients r) \<longrightarrow> quantity (recipe_ingredients r ! j) \<le> q' \<longrightarrow>
            (\<exists>n n'. calculateAvailableServings r pantryItems = Fin n \<and>
               calculateAvailableServings
                 (r\<lparr>recipe_ingredients :=
                      (recipe_ingredients r)[j := (recipe_ingredients r ! j)\<lparr>quantity := q'\<rparr>]\<rparr>)
                 pantryItems = Fin n' \<and> n' \<le> n))"
proof (intro conjI)
  let ?xs = "recipe_ingredients r"
  show "(\<forall>i\<in>set ?xs. present pantryItems i) \<longrightarrow>
        calculateAvailableServings r pantryItems = Fin (of_int (Min (possibleServings pantryItems ` set ?xs)))"
    using availability_present[OF assms(1,2)] by blast
  show "(\<exists>i\<in>set ?xs. \<not> present pantryItems i) \<longrightarrow> calculateAvailableServings r pantryItems = Fin 0"
    using availability_absent[OF assms(2,3)] by blast
  show "\<exists>n. calculateAvailableServings r pantryItems = Fin n \<and>
            (\<forall>i\<in>set ?xs. present pantryItems i \<longrightarrow>
               n \<le> fl53 (pantryQuantity pantryItems (ingredient_id i) / quantity i)
               \<and> n * quantity i
                    \<le> pantryQuantity pantryItems (ingredient_id i) * (1 + 1 / 2 ^ 53))"
  proof (cases "\<forall>i\<in>set ?xs. present pantryItems i")
    case True
    let ?n = "of_int (Min (possibleServings pantryItems ` set ?xs)) :: real"
    have "?n \<le> fl53 (pantryQuantity pantryItems (ingredient_id i) / quantity i)
          \<and> ?n * quantity i \<le> pantryQuantity pantryItems (ingredient_id i) * (1 + 1 / 2 ^ 53)"
      if i: "i \<in> set ?xs" for i
    proof -
      have "Min (possibleServings pantryItems ` set ?xs) \<le> possibleServings pantryItems i"
        using i by simp
      then have le: "?n \<le> of_int (possibleServings pantryItems i)" by simp
      have q: "0 < quantity i" using assms(2) i by simp
      have p: "0 \<le> pantryQuantity pantryItems (ingredient_id i)"
        using assms(3) by (rule pantryQuantity_nonneg)
      from le possible_le_quotient[of pantryItems i]
      have 1: "?n \<le> fl53 (pantryQuantity pantryItems (ingredient_id i) / quantity i)"
        by linarith
      from le q have "?n * quantity i \<le> of_int (possibleServings pantryItems i) * quantity i"
        by (simp add: mult_right_mono)
      also have "\<dots> \<le> pantryQuantity pantryItems (ingredient_id i) * (1 + 1 / 2 ^ 53)"
        using q p by (rule possible_times_le)
      finally show ?thesis using 1 by simp
    qed
    with availability_present[OF assms(1,2) True] show ?thesis by blast
  next
    case False
    then have ab: "\<exists>i\<in>set ?xs. \<not> present pantryItems i" by blast
    have "(0::real) \<le> fl53 (pantryQuantity pantryItems (ingredient_id i) / quantity i)
          \<and> (0::real) * quantity i \<le> pantryQuantity pantryItems (ingredient_id i) * (1 + 1 / 2 ^ 53)"
      if i: "i \<in> set ?xs" for i
    proof -
      have q: "0 < quantity i" using assms(2) i by simp
      have p: "0 \<le> pantryQuantity pantryItems (ingredient_id i)"
        using assms(3) by (rule pantryQuantity_nonneg)
      from p q have "0 \<le> pantryQuantity pantryItems (ingredient_id i) / quantity i" by simp
      then have "0 \<le> fl53 (pantryQuantity pantryItems (ingredient_id i) / quantity i)"
        by (rule fl53_nonneg)
      moreover have "0 \<le> pantryQuantity pantryItems (ingredient_id i) * (1 + 1 / 2 ^ 53)"
        using p by simp
      ultimately show ?thesis by simp
    qed
    with availability_absent[OF assms(2,3) ab] show ?thesis by blast
  qed
  show "\<forall>j q'. j < length ?xs \<longrightarrow> quantity (?xs ! j) \<le> q' \<longrightarrow>
            (\<exists>n n'. calculateAvailableServings r pantryItems = Fin n \<and>
               calculateAvailableServings (r\<lparr>recipe_ingredients := ?xs[j := (?xs ! j)\<lparr>quantity := q'\<rparr>]\<rparr>)
                 pantryItems = Fin n' \<and> n' \<le> n)"
  proof (intro allI impI)
    fix j q' assume j: "j < length ?xs" and q': "quantity (?xs ! j) \<le> q'"
    let ?xs' = "?xs[j := (?xs ! j)\<lparr>quantity := q'\<rparr>]"
    let ?r' = "r\<lparr>recipe_ingredients := ?xs'\<rparr>"
    have qj: "0 < quantity (?xs ! j)" using assms(2) j by simp
    have sel': "recipe_ingredients ?r' = ?xs'" by simp
    have ne': "recipe_ingredients ?r' \<noteq> []" using assms(1) by simp
    have pos': "\<forall>i\<in>set (recipe_ingredients ?r'). 0 < quantity i"
    proof
      fix i assume "i \<in> set (recipe_ingredients ?r')"
      then have "i \<in> insert ((?xs ! j)\<lparr>quantity := q'\<rparr>) (set ?xs)"
        using set_update_subset_insert[of ?xs j] by auto
      then show "0 < quantity i" using assms(2) qj q' by auto
    qed
    have ids: "ingredient_id ` set ?xs' = ingredient_id ` set ?xs"
    proof -
      have "map ingredient_id ?xs' = map ingredient_id ?xs"
        using j by (simp add: map_update list_update_same_conv)
      then have "set (map ingredient_id ?xs') = set (map ingredient_id ?xs)" by simp
      then show ?thesis by simp
    qed
    show "\<exists>n n'. calculateAvailableServings r pantryItems = Fin n \<and>
               calculateAvailableServings ?r' pantryItems = Fin n' \<and> n' \<le> n"
    proof (cases "\<forall>i\<in>set ?xs. present pantryItems i")
      case True
      have "\<forall>i\<in>set (recipe_ingredients ?r'). present pantryItems i"
      proof
        fix i assume "i \<in> set (recipe_ingredients ?r')"
        then have "ingredient_id i \<in> ingredient_id ` set ?xs" using ids by auto
        then show "present pantryItems i" using True by (auto simp: present_def)
      qed
      from availability_present[OF ne' pos' this]
      have 1: "calculateAvailableServings ?r' pantryItems =
               Fin (of_int (Min (possibleServings pantryItems ` set ?xs')))"
        unfolding sel' .
      have "Min (possibleServings pantryItems ` set ?xs') \<le> Min (possibleServings pantryItems ` set ?xs)"
        using Min_possible_update_le[OF assms(1) j qj q' assms(3)] .
      then show ?thesis using 1 availability_present[OF assms(1,2) True] by simp
    next
      case False
      then obtain i where i: "i \<in> set ?xs" "\<not> present pantryItems i" by blast
      then have "ingredient_id i \<in> ingredient_id ` set ?xs'" using ids by auto
      then obtain i' where i': "i' \<in> set ?xs'" "ingredient_id i' = ingredient_id i" by auto
      from i(2) i'(2) have "\<not> present pantryItems i'" by (simp add: present_def)
      with i'(1) have "\<exists>i\<in>set (recipe_ingredients ?r'). \<not> present pantryItems i"
        unfolding sel' by blast
      from availability_absent[OF pos' assms(3) this]
        availability_absent[OF assms(2,3)] i
      show ?thesis by auto
    qed
  qed
qed

text \<open>The sample recipe has 3 servings in the sample pantry (the quotients of 500 by
  150 and of 400 by 80 have the floors 3 and 5), none in a pantry without chicken, and
  at most 3 when a serving needs 300 g of chicken.\<close>

theorem availability_floor_property_witness:
  "calculateAvailableServings chickenRice samplePantry = Fin 3
   \<and> calculateAvailableServings chickenRice [\<lparr> p_ingredient_id = ''rice'', p_quantity = 400 \<rparr>] = Fin 0
   \<and> (\<exists>n. calculateAvailableServings chickenRice samplePantry = Fin n
          \<and> n * 150 \<le> pantryQuantity samplePantry ''chicken'' * (1 + 1 / 2 ^ 53))
   \<and> (\<exists>n'. calculateAvailableServings
               (chickenRice\<lparr> recipe_ingredients :=
                  (recipe_ingredients chickenRice)
                    [0 := (recipe_ingredients chickenRice ! 0)\<lparr> quantity := 300 \<rparr>] \<rparr>)
               samplePantry = Fin n' \<and> n' \<le> 3)"
proof -
  let ?short = "[\<lparr> p_ingredient_id = ''rice'', p_quantity = 400 \<rparr>]"
  have ne: "recipe_ingredients chickenRice \<noteq> []"
    by (simp add: chickenRice_def)
  have pos: "\<forall>i\<in>set (recipe_ingredients chickenRice). 0 < quantity i"
    by (simp add: chickenRice_def)
  have nn: "\<forall>p\<in>set samplePantry. 0 \<le> p_quantity p"
    by (simp add: samplePantry_def)
  have nn': "\<forall>p\<in>set ?short. 0 \<le> p_quantity p"
    by simp
  have pres: "\<forall>i\<in>set (recipe_ingredients chickenRice). present samplePantry i"
    by (simp add: chickenRice_def samplePantry_def present_def pantryFind_def)
  have abs: "\<exists>i\<in>set (recipe_ingredients chickenRice). \<not> present ?short i"
    by (simp add: chickenRice_def present_def pantryFind_def)
  have m: "Min (possibleServings samplePantry ` set (recipe_ingredients chickenRice)) = 3"
    by (simp add: chickenRice_def samplePantry_def possibleServings_def pantryQuantity_def
        pantryFind_def fl53_eval)
  note full = availability_floor_property[OF ne pos nn]
  note short = availability_floor_property[OF ne pos nn']
  have 1: "calculateAvailableServings chickenRice samplePantry = Fin 3"
    using full pres m by simp
  have 2: "calculateAvailableServings chickenRice ?short = Fin 0"
    using short abs by blast
  have 3: "\<exists>n. calculateAvailableServings chickenRice samplePantry = Fin n
          \<and> n * 150 \<le> pantryQuantity samplePantry ''chicken'' * (1 + 1 / 2 ^ 53)"
    using 1 by (simp add: pantryQuantity_def pantryFind_def samplePantry_def)
  have "0 < length (recipe_ingredients chickenRice)"
    and "quantity (recipe_ingredients chickenRice ! 0) \<le> 300"
    by (simp_all add: chickenRice_def)
  with full 1 have 4: "\<exists>n'. calculateAvailableServings
               (chickenRice\<lparr> recipe_ingredients :=
                  (recipe_ingredients chickenRice)
                    [0 := (recipe_ingredients chickenRice ! 0)\<lparr> quantity := 300 \<rparr>] \<rparr>)
               samplePantry = Fin n' \<and> n' \<le> 3"
    by fastforce
  from 1 2 3 4 show ?thesis by blast
qed

text \<open>The claim as the specification states it, for every pantry snapshot, fails.
  \<^item> With no chicken in the pantry and a stock of rice of -100 g (the column has no
    constraint and the pantry form accepts the number), the sample recipe is reported
    with -2 servings, not with 0: the missing chicken sets the minimum to 0 and the rice
    lowers it to \<open>\<lfloor>-100 / 80\<rfloor>\<close>.
  \<^item> With a required quantity of 0 and a stock of 0 the result is NaN.
  \<^item> With 0.4 g a serving and a stock of 1.2 g the result is 2, where the floor of 1.2
    over 0.4 is 3: the doubles nearest to 1.2 and 0.4 have a quotient below 3.
  \<^item> With 165.77 g a serving and a stock of 497.31 g the result is 3, and 3 times the
    double that is the required quantity exceeds the double that is the stock.\<close>

theorem availability_floor_fails:
  "calculateAvailableServings chickenRice [\<lparr> p_ingredient_id = ''rice'', p_quantity = - 100 \<rparr>]
     = Fin (- 2)
   \<and> calculateAvailableServings
        \<lparr> recipe_id = ''plain-rice'',
          recipe_ingredients = [\<lparr> ingredient_id = ''rice'', quantity = 0, unit = ''g'',
                                   ingredients = brownRice \<rparr>] \<rparr>
        [\<lparr> p_ingredient_id = ''rice'', p_quantity = 0 \<rparr>] = NaN
   \<and> calculateAvailableServings
        \<lparr> recipe_id = ''plain-rice'',
          recipe_ingredients = [\<lparr> ingredient_id = ''rice'', quantity = fl53 (4 / 10), unit = ''g'',
                                   ingredients = brownRice \<rparr>] \<rparr>
        [\<lparr> p_ingredient_id = ''rice'', p_quantity = fl53 (12 / 10) \<rparr>] = Fin 2
   \<and> \<lfloor>(12 / 10) / (4 / 10) :: real\<rfloor> = 3
   \<and> calculateAvailableServings
        \<lparr> recipe_id = ''plain-rice'',
          recipe_ingredients = [\<lparr> ingredient_id = ''rice'', quantity = fl53 (16577 / 100),
                                   unit = ''g'', ingredients = brownRice \<rparr>] \<rparr>
        [\<lparr> p_ingredient_id = ''rice'', p_quantity = fl53 (49731 / 100) \<rparr>] = Fin 3
   \<and> fl53 (49731 / 100) < 3 * fl53 (16577 / 100)"
proof (intro conjI)
  show "calculateAvailableServings chickenRice [\<lparr> p_ingredient_id = ''rice'', p_quantity = - 100 \<rparr>]
     = Fin (- 2)"
    by (simp add: calculateAvailableServings_def servingsStep_def pantryFind_def double_div_def
        chickenRice_def fl53_eval)
  show "calculateAvailableServings
        \<lparr> recipe_id = ''plain-rice'',
          recipe_ingredients = [\<lparr> ingredient_id = ''rice'', quantity = 0, unit = ''g'',
                                   ingredients = brownRice \<rparr>] \<rparr>
        [\<lparr> p_ingredient_id = ''rice'', p_quantity = 0 \<rparr>] = NaN"
    by (simp add: calculateAvailableServings_def servingsStep_def pantryFind_def double_div_def)
  show "calculateAvailableServings
        \<lparr> recipe_id = ''plain-rice'',
          recipe_ingredients = [\<lparr> ingredient_id = ''rice'', quantity = fl53 (4 / 10), unit = ''g'',
                                   ingredients = brownRice \<rparr>] \<rparr>
        [\<lparr> p_ingredient_id = ''rice'', p_quantity = fl53 (12 / 10) \<rparr>] = Fin 2"
    by (simp add: calculateAvailableServings_def servingsStep_def pantryFind_def double_div_def
        fl53_eval)
  show "\<lfloor>(12 / 10) / (4 / 10) :: real\<rfloor> = 3"
    by simp
  show "calculateAvailableServings
        \<lparr> recipe_id = ''plain-rice'',
          recipe_ingredients = [\<lparr> ingredient_id = ''rice'', quantity = fl53 (16577 / 100),
                                   unit = ''g'', ingredients = brownRice \<rparr>] \<rparr>
        [\<lparr> p_ingredient_id = ''rice'', p_quantity = fl53 (49731 / 100) \<rparr>] = Fin 3"
    by (simp add: calculateAvailableServings_def servingsStep_def pantryFind_def double_div_def
        fl53_eval)
  show "fl53 (49731 / 100) < 3 * fl53 (16577 / 100)"
    by (simp add: fl53_eval)
qed

text \<open>
  \<^bold>\<open>Claim C5\<close>, as the code has it. A recipe with no ingredient requirement leaves the
  running minimum at \<^verbatim>\<open>Infinity\<close>, and the last line of \<open>calculateAvailableServings\<close>
  turns \<^verbatim>\<open>Infinity\<close> into 0: for every pantry such a recipe is reported with 0 servings,
  and no recipe is ever reported with unboundedly many.
\<close>

theorem no_requirements_zero_servings:
  "calculateAvailableServings (r\<lparr> recipe_ingredients := [] \<rparr>) pantryItems = Fin 0
   \<and> calculateAvailableServings r' pantryItems \<noteq> PosInf"
  by (simp add: calculateAvailableServings_def Let_def)

text \<open>The claim as the specification states it (unlimited servings, not zero) fails on a
  recipe without requirements in the sample pantry.\<close>

theorem no_requirements_not_unbounded:
  "calculateAvailableServings \<lparr> recipe_id = ''tap-water'', recipe_ingredients = [] \<rparr> samplePantry = Fin 0
   \<and> calculateAvailableServings \<lparr> recipe_id = ''tap-water'', recipe_ingredients = [] \<rparr> samplePantry \<noteq> PosInf"
  by (simp add: calculateAvailableServings_def)

section \<open>Greedy protein fill\<close>

lemma Math_min_Fin_le: "Math_min a (Fin c) = Fin s \<Longrightarrow> s \<le> c"
  by (cases a) (auto split: if_splits)

lemma Math_min3_cap: "Math_min3 a b (Fin c) = Fin s \<Longrightarrow> s \<le> c"
  unfolding Math_min3_def by (rule Math_min_Fin_le)

lemma weeklyProtein_Nil [simp]: "weeklyProtein [] = 0"
  by (simp add: weeklyProtein_def)

lemma weeklyProtein_Cons [simp]:
  "weeklyProtein (s # ss) = protein (macros (recipe s)) * servings s + weeklyProtein ss"
  by (simp add: weeklyProtein_def)

lemma weeklyProtein_append [simp]:
  "weeklyProtein (xs @ ys) = weeklyProtein xs + weeklyProtein ys"
  by (simp add: weeklyProtein_def)

lemma greedyLoop_break:
  "protein dailyTargets \<le> protein (currentMacros st) / 7 \<Longrightarrow> greedyLoop dailyTargets rs st = st"
  by (cases rs) (simp_all add: dailyGap_def daysInWeek_def)

lemma greedyLoop_trace:
  "\<exists>new. selectedRecipes (greedyLoop t rs st) = selectedRecipes st @ new
         \<and> greedyTrace t (protein (currentMacros st)) new
         \<and> protein (currentMacros (greedyLoop t rs st)) = protein (currentMacros st) + weeklyProtein new
         \<and> set (map recipe new) \<subseteq> set rs"
proof (induction rs arbitrary: st)
  case Nil
  show ?case by (rule exI[of _ "[]"]) simp
next
  case (Cons r rs)
  let ?gap = "dailyGap (protein t) (protein (currentMacros st))"
  let ?add = "Math_min3 (Math_ceil (js_div ?gap (protein (macros r)))) (availableServings r) (Fin 3)"
  show ?case
  proof (cases "?gap \<le> 0")
    case True
    then have "greedyLoop t (r # rs) st = st" by simp
    then show ?thesis by (intro exI[of _ "[]"]) simp
  next
    case gap: False
    show ?thesis
    proof (cases "\<exists>s. ?add = Fin s \<and> 0 < s")
      case True
      then obtain s where s: "?add = Fin s" "0 < s" by blast
      let ?st' = "pushSelection st r s"
      let ?sel = "\<lparr> recipe = r, servings = s, day = currentDay st mod daysInWeek,
                     slot = mealSlots ! (currentSlot st mod length mealSlots) \<rparr>"
      have step: "greedyLoop t (r # rs) st = greedyLoop t rs ?st'"
        using gap s by (simp add: Let_def)
      from Cons.IH[of ?st'] obtain new where new:
        "selectedRecipes (greedyLoop t rs ?st') = selectedRecipes ?st' @ new"
        "greedyTrace t (protein (currentMacros ?st')) new"
        "protein (currentMacros (greedyLoop t rs ?st')) = protein (currentMacros ?st') + weeklyProtein new"
        "set (map recipe new) \<subseteq> set rs"
        by blast
      have sel': "selectedRecipes ?st' = selectedRecipes st @ [?sel]"
        and prot': "protein (currentMacros ?st') = protein (currentMacros st) + protein (macros r) * s"
        by (simp_all add: pushSelection_def)
      have "greedyTrace t (protein (currentMacros st)) (?sel # new)"
        using gap s new(2) prot' by simp
      then show ?thesis
        unfolding step using new sel' prot'
        by (intro exI[of _ "?sel # new"]) auto
    next
      case False
      then have step: "greedyLoop t (r # rs) st = greedyLoop t rs st"
        using gap by (cases ?add) (auto simp: Let_def)
      from Cons.IH[of st] show ?thesis unfolding step by auto
    qed
  qed
qed

lemma greedyTrace_nth:
  "greedyTrace t acc ss \<Longrightarrow> i < length ss \<Longrightarrow>
     0 < dailyGap (protein t) (acc + weeklyProtein (take i ss))
   \<and> Math_min3 (Math_ceil (js_div (dailyGap (protein t) (acc + weeklyProtein (take i ss)))
                              (protein (macros (recipe (ss ! i))))))
        (availableServings (recipe (ss ! i))) (Fin 3) = Fin (servings (ss ! i))
   \<and> 0 < servings (ss ! i)"
proof (induction ss arbitrary: acc i)
  case Nil
  then show ?case by simp
next
  case (Cons s ss)
  show ?case
  proof (cases i)
    case 0
    then show ?thesis using Cons.prems by simp
  next
    case (Suc j)
    with Cons.prems have "j < length ss"
      and "greedyTrace t (acc + protein (macros (recipe s)) * servings s) ss" by simp_all
    from Cons.IH[OF this(2,1)] show ?thesis using Suc by (simp add: add.assoc)
  qed
qed

text \<open>
  \<^bold>\<open>Claim C1\<close> (greedy termination). For every recipe list and daily target, every
  assignment the protein-fill stage emits
  \<^item> is emitted while the protein accumulated by the assignments before it, divided by 7,
    is below the daily protein target;
  \<^item> has \<^verbatim>\<open>Math.min(Math.ceil(gap / protein per serving), availableServings, 3)\<close> servings,
    a positive number that is at most 3.
  The accumulator the stage returns is the protein of all its assignments, and from a
  state whose accumulated protein divided by 7 has reached the target the loop returns
  at once, whatever recipes remain.
\<close>

theorem greedy_termination:
  "(\<forall>i < length (selectedRecipes (greedyProteinFill recipes dailyTargets)).
      let sel = selectedRecipes (greedyProteinFill recipes dailyTargets);
          before = weeklyProtein (take i sel)
      in before / 7 < protein dailyTargets
         \<and> Fin (servings (sel ! i)) =
             Math_min3 (Math_ceil (js_div (dailyGap (protein dailyTargets) before)
                                     (protein (macros (recipe (sel ! i))))))
               (availableServings (recipe (sel ! i))) (Fin 3)
         \<and> 0 < servings (sel ! i) \<and> servings (sel ! i) \<le> 3)
   \<and> protein (currentMacros (greedyProteinFill recipes dailyTargets))
       = weeklyProtein (selectedRecipes (greedyProteinFill recipes dailyTargets))
   \<and> (\<forall>rs st. protein dailyTargets \<le> protein (currentMacros st) / 7 \<longrightarrow>
          greedyLoop dailyTargets rs st = st)"
proof -
  let ?init = "\<lparr> selectedRecipes = [],
                  currentMacros = \<lparr> calories = 0, protein = 0, carbs = 0, fat = 0 \<rparr>,
                  currentDay = 0, currentSlot = 0 \<rparr>"
  let ?g = "greedyProteinFill recipes dailyTargets"
  from greedyLoop_trace[of dailyTargets "sortByProteinDensity recipes" ?init]
  obtain new where new: "selectedRecipes ?g = new" "greedyTrace dailyTargets 0 new"
    "protein (currentMacros ?g) = weeklyProtein new"
    by (auto simp: greedyProteinFill_def)
  have "weeklyProtein (take i new) / 7 < protein dailyTargets
         \<and> Fin (servings (new ! i)) =
             Math_min3 (Math_ceil (js_div (dailyGap (protein dailyTargets) (weeklyProtein (take i new)))
                                     (protein (macros (recipe (new ! i))))))
               (availableServings (recipe (new ! i))) (Fin 3)
         \<and> 0 < servings (new ! i) \<and> servings (new ! i) \<le> 3" if i: "i < length new" for i
  proof -
    from greedyTrace_nth[OF new(2) i]
    have gap: "0 < dailyGap (protein dailyTargets) (weeklyProtein (take i new))"
      and m: "Math_min3 (Math_ceil (js_div (dailyGap (protein dailyTargets) (weeklyProtein (take i new)))
                                     (protein (macros (recipe (new ! i))))))
               (availableServings (recipe (new ! i))) (Fin 3) = Fin (servings (new ! i))"
      and pos: "0 < servings (new ! i)"
      by simp_all
    from gap have "weeklyProtein (take i new) / 7 < protein dailyTargets"
      by (simp add: dailyGap_def daysInWeek_def)
    moreover from m have "servings (new ! i) \<le> 3" by (rule Math_min3_cap)
    ultimately show ?thesis using m pos by simp
  qed
  then show ?thesis using new(1,3) greedyLoop_break by (simp add: Let_def)
qed

text \<open>In the scenario the gap is 150 g, \<open>\<lceil>150 / 40\<rceil> = 4\<close>, and the cap makes it 3 servings at
  breakfast of day 0; with 1050 g of protein in the week the loop emits nothing.\<close>

theorem greedy_termination_witness:
  "selectedRecipes (greedyProteinFill [specChickenRice] specTargets) =
     [\<lparr> recipe = specChickenRice, servings = 3, day = 0, slot = ''breakfast'' \<rparr>]
   \<and> servings (selectedRecipes (greedyProteinFill [specChickenRice] specTargets) ! 0) \<le> 3
   \<and> protein (currentMacros (greedyProteinFill [specChickenRice] specTargets)) = 120
   \<and> selectedRecipes (greedyLoop specTargets [specChickenRice]
         \<lparr> selectedRecipes = [],
           currentMacros = \<lparr> calories = 0, protein = 1050, carbs = 0, fat = 0 \<rparr>,
           currentDay = 0, currentSlot = 0 \<rparr>) = []"
proof -
  let ?sel = "selectedRecipes (greedyProteinFill [specChickenRice] specTargets)"
  let ?st = "\<lparr> selectedRecipes = [],
                currentMacros = \<lparr> calories = 0, protein = 1050, carbs = 0, fat = 0 \<rparr>,
                currentDay = 0, currentSlot = 0 \<rparr>"
  note t = greedy_termination[of "[specChickenRice]" specTargets]
  have ev: "?sel = [\<lparr> recipe = specChickenRice, servings = 3, day = 0, slot = ''breakfast'' \<rparr>]"
    by (simp add: greedyProteinFill_def sortByProteinDensity_def js_sort_def specChickenRice_def
        specTargets_def dailyGap_def daysInWeek_def js_div_def Math_min3_def pushSelection_def
        mealSlots_def Let_def)
  then have len: "0 < length ?sel" by simp
  from t len have le: "servings (?sel ! 0) \<le> 3" by (auto simp: Let_def)
  from t ev have acc: "protein (currentMacros (greedyProteinFill [specChickenRice] specTargets)) = 120"
    by (simp add: specChickenRice_def)
  have "protein specTargets \<le> protein (currentMacros ?st) / 7"
    by (simp add: specTargets_def)
  with t have "greedyLoop specTargets [specChickenRice] ?st = ?st" by blast
  then have "selectedRecipes (greedyLoop specTargets [specChickenRice] ?st) = []" by simp
  with ev le acc show ?thesis by blast
qed

section \<open>Fine-tuner, single pass\<close>

lemma calorieAccuracy_Fin:
  "calories t \<noteq> 0 \<Longrightarrow>
   calorieAccuracy sel t = Fin (\<bar>weeklyCalories sel / 7 - calories t\<bar> / calories t)"
  by (simp add: calorieAccuracy_def js_div_def daysInWeek_def)

text \<open>
  \<^bold>\<open>Claim C7\<close> (fine-tuner). With positive target calories, let the deviation be
  \<open>\<bar>daily average calories - target\<bar> / target\<close>. When it is at most 15 percent
  \<open>fineTuneMacros\<close> returns the assignments unchanged; otherwise it replaces the servings
  of every assignment by \<open>max 1 (round (servings * f))\<close>, with \<open>f = 0.8\<close> when the deviation
  exceeds 50 percent and \<open>f = 0.9\<close> otherwise, and changes nothing else.
\<close>

theorem fine_tuner_single_pass:
  assumes "0 < calories dailyTargets"
  shows "let deviation = \<bar>weeklyCalories sel / 7 - calories dailyTargets\<bar> / calories dailyTargets
         in fineTuneMacros sel dailyTargets =
              (if deviation \<le> 15 / 100 then sel
               else map (\<lambda>s. s\<lparr> servings :=
                           max 1 (round_half_up
                                    (servings s * (if 50 / 100 < deviation then 8 / 10 else 9 / 10))) \<rparr>)
                      sel)"
proof -
  from assms have "calories dailyTargets \<noteq> 0" by simp
  note acc = calorieAccuracy_Fin[OF this, of sel]
  show ?thesis
    unfolding fineTuneMacros_def acc Let_def
    by (auto simp: not_le intro!: map_idI)
qed

text \<open>Against 2000 kcal a day: 3 servings of 400 kcal are 91 percent off and become
  \<open>round 2.4 = 2\<close>; 35 servings hit the target and stay; 26 servings are 26 percent off
  and become \<open>round 23.4 = 23\<close>.\<close>

theorem fine_tuner_single_pass_witness:
  "fineTuneMacros [\<lparr> recipe = specChickenRice, servings = 3, day = 0, slot = ''breakfast'' \<rparr>] specTargets
     = [\<lparr> recipe = specChickenRice, servings = 2, day = 0, slot = ''breakfast'' \<rparr>]
   \<and> fineTuneMacros [\<lparr> recipe = specChickenRice, servings = 35, day = 0, slot = ''breakfast'' \<rparr>] specTargets
     = [\<lparr> recipe = specChickenRice, servings = 35, day = 0, slot = ''breakfast'' \<rparr>]
   \<and> fineTuneMacros [\<lparr> recipe = specChickenRice, servings = 26, day = 0, slot = ''breakfast'' \<rparr>] specTargets
     = [\<lparr> recipe = specChickenRice, servings = 23, day = 0, slot = ''breakfast'' \<rparr>]"
proof -
  have pos: "0 < calories specTargets" by (simp add: specTargets_def)
  note t = fine_tuner_single_pass[OF pos]
  show ?thesis
    using t[of "[\<lparr> recipe = specChickenRice, servings = 3, day = 0, slot = ''breakfast'' \<rparr>]"]
      t[of "[\<lparr> recipe = specChickenRice, servings = 35, day = 0, slot = ''breakfast'' \<rparr>]"]
      t[of "[\<lparr> recipe = specChickenRice, servings = 26, day = 0, slot = ''breakfast'' \<rparr>]"]
    by (simp add: Let_def weeklyCalories_def specChickenRice_def specTargets_def round_half_up_def)
qed

section \<open>Gap filler, one snack per macro\<close>

lemma set_insort_cmp [simp]: "set (insort_cmp cmp x ys) = insert x (set ys)"
  by (induction ys) auto

lemma set_js_sort [simp]: "set (js_sort cmp xs) = set xs"
  unfolding js_sort_def by (induction xs) auto

lemma js_sort_Nil_iff [simp]: "js_sort cmp xs = [] \<longleftrightarrow> xs = []"
  by (metis set_js_sort set_empty)

lemma hd_js_sort_mem: "xs \<noteq> [] \<Longrightarrow> hd (js_sort cmp xs) \<in> set xs"
  by (metis hd_in_set js_sort_Nil_iff set_js_sort)

lemma randomDay_range: "0 \<le> rnd \<Longrightarrow> rnd < 1 \<Longrightarrow> randomDay rnd \<le> 6"
proof -
  assume "0 \<le> rnd" "rnd < 1"
  then have "rnd * 7 < 7" by simp
  then have "\<lfloor>rnd * 7\<rfloor> < 7" by (simp only: floor_less_iff of_int_numeral)
  then have "nat \<lfloor>rnd * 7\<rfloor> \<le> 6" by linarith
  then show ?thesis by (simp only: randomDay_def daysInWeek_def of_nat_numeral)
qed

lemma snackFor_props:
  assumes "s \<in> set (snackFor grams gap candidates rnd)"
  shows "snackFor grams gap candidates rnd = [s] \<and> candidates \<noteq> [] \<and> 0 < gap
         \<and> recipe s = hd candidates \<and> slot s = ''snack'' \<and> day s = randomDay rnd
         \<and> Fin (servings s) = Math_min3 (Math_ceil (js_div gap (grams (macros (recipe s)))))
                                 (availableServings (recipe s)) (Fin 2)
         \<and> 0 < servings s"
proof -
  let ?m = "Math_min3 (Math_ceil (js_div gap (grams (macros (hd candidates)))))
              (availableServings (hd candidates)) (Fin 2)"
  from assms have c: "0 < gap" "candidates \<noteq> []"
    by (auto simp: snackFor_def split: if_splits)
  then have eq: "snackFor grams gap candidates rnd =
      (case ?m of Fin v \<Rightarrow> if 0 < v then [\<lparr> recipe = hd candidates, servings = v,
                                            day = randomDay rnd, slot = ''snack'' \<rparr>] else []
       | _ \<Rightarrow> [])"
    by (simp add: snackFor_def Let_def)
  show ?thesis
  proof (cases ?m)
    case (Fin v)
    with assms eq c show ?thesis by (cases "0 < v") auto
  qed (use assms eq in auto)
qed

lemma snackFor_length: "length (snackFor grams gap candidates rnd) \<le> 1"
  unfolding snackFor_def Let_def by (auto split: jsnum.splits)

lemma carbRich_mem:
  "r \<in> set (carbRichRecipes recipes selected) \<Longrightarrow>
   r \<in> set recipes \<and> recipe_id r \<notin> (\<lambda>s. recipe_id (recipe s)) ` set selected
   \<and> js_gt (availableServings r) 0 \<and> fat (macros r) < carbs (macros r)"
  by (auto simp: carbRichRecipes_def availableRecipes_def)

lemma fatRich_mem:
  "r \<in> set (fatRichRecipes recipes selected) \<Longrightarrow>
   r \<in> set recipes \<and> recipe_id r \<notin> (\<lambda>s. recipe_id (recipe s)) ` set selected
   \<and> js_gt (availableServings r) 0 \<and> carbs (macros r) < fat (macros r)"
  by (auto simp: fatRichRecipes_def availableRecipes_def)

text \<open>
  \<^bold>\<open>Claim C8\<close> (gap filler). With both random numbers in \<open>[0, 1)\<close>, \<open>fillRemainingMacros\<close>
  returns the given assignments followed by at most one assignment for the carbohydrate
  gap and at most one for the fat gap. Each added assignment uses the slot
  \<^verbatim>\<open>snack\<close> and a day from 0 to 6, has
  \<^verbatim>\<open>Math.min(Math.ceil(gap / grams per serving), availableServings, 2)\<close> servings (positive,
  at most 2), and its recipe is one of the given recipes whose id is not among the
  selected ones and whose availability is positive; the carbohydrate one has more
  carbohydrate than fat per serving, the fat one more fat than carbohydrate.
\<close>

theorem gap_filler_at_most_one_per_macro:
  assumes "0 \<le> rndCarb" "rndCarb < 1" "0 \<le> rndFat" "rndFat < 1"
  shows "\<exists>cs fs.
     fillRemainingMacros recipes selected current dailyTargets rndCarb rndFat = selected @ cs @ fs
     \<and> length cs \<le> 1 \<and> length fs \<le> 1
     \<and> (\<forall>s\<in>set cs.
           slot s = ''snack'' \<and> day s \<le> 6
           \<and> Fin (servings s) =
               Math_min3 (Math_ceil (js_div (dailyGap (carbs dailyTargets) (carbs current))
                                       (carbs (macros (recipe s)))))
                 (availableServings (recipe s)) (Fin 2)
           \<and> 0 < servings s \<and> servings s \<le> 2
           \<and> recipe s \<in> set recipes
           \<and> recipe_id (recipe s) \<notin> (\<lambda>s. recipe_id (recipe s)) ` set selected
           \<and> js_gt (availableServings (recipe s)) 0
           \<and> fat (macros (recipe s)) < carbs (macros (recipe s)))
     \<and> (\<forall>s\<in>set fs.
           slot s = ''snack'' \<and> day s \<le> 6
           \<and> Fin (servings s) =
               Math_min3 (Math_ceil (js_div (dailyGap (fat dailyTargets) (fat current))
                                       (fat (macros (recipe s)))))
                 (availableServings (recipe s)) (Fin 2)
           \<and> 0 < servings s \<and> servings s \<le> 2
           \<and> recipe s \<in> set recipes
           \<and> recipe_id (recipe s) \<notin> (\<lambda>s. recipe_id (recipe s)) ` set selected
           \<and> js_gt (availableServings (recipe s)) 0
           \<and> carbs (macros (recipe s)) < fat (macros (recipe s)))"
proof -
  let ?cs = "snackFor carbs (dailyGap (carbs dailyTargets) (carbs current))
               (carbRichRecipes recipes selected) rndCarb"
  let ?fs = "snackFor fat (dailyGap (fat dailyTargets) (fat current))
               (fatRichRecipes recipes selected) rndFat"
  have eq: "fillRemainingMacros recipes selected current dailyTargets rndCarb rndFat
              = selected @ ?cs @ ?fs"
    by (simp add: fillRemainingMacros_def Let_def)
  have c: "slot s = ''snack'' \<and> day s \<le> 6
           \<and> Fin (servings s) =
               Math_min3 (Math_ceil (js_div (dailyGap (carbs dailyTargets) (carbs current))
                                       (carbs (macros (recipe s)))))
                 (availableServings (recipe s)) (Fin 2)
           \<and> 0 < servings s \<and> servings s \<le> 2
           \<and> recipe s \<in> set recipes
           \<and> recipe_id (recipe s) \<notin> (\<lambda>s. recipe_id (recipe s)) ` set selected
           \<and> js_gt (availableServings (recipe s)) 0
           \<and> fat (macros (recipe s)) < carbs (macros (recipe s))" if "s \<in> set ?cs" for s
  proof -
    note p = snackFor_props[OF that]
    from p have "recipe s \<in> set (carbRichRecipes recipes selected)" by simp
    note m = carbRich_mem[OF this]
    from p have "servings s \<le> 2" using Math_min3_cap[of _ _ 2 "servings s"] by metis
    with p m randomDay_range[OF assms(1,2)] show ?thesis by simp
  qed
  have f: "slot s = ''snack'' \<and> day s \<le> 6
           \<and> Fin (servings s) =
               Math_min3 (Math_ceil (js_div (dailyGap (fat dailyTargets) (fat current))
                                       (fat (macros (recipe s)))))
                 (availableServings (recipe s)) (Fin 2)
           \<and> 0 < servings s \<and> servings s \<le> 2
           \<and> recipe s \<in> set recipes
           \<and> recipe_id (recipe s) \<notin> (\<lambda>s. recipe_id (recipe s)) ` set selected
           \<and> js_gt (availableServings (recipe s)) 0
           \<and> carbs (macros (recipe s)) < fat (macros (recipe s))" if "s \<in> set ?fs" for s
  proof -
    note p = snackFor_props[OF that]
    from p have "recipe s \<in> set (fatRichRecipes recipes selected)" by simp
    note m = fatRich_mem[OF this]
    from p have "servings s \<le> 2" using Math_min3_cap[of _ _ 2 "servings s"] by metis
    with p m randomDay_range[OF assms(3,4)] show ?thesis by simp
  qed
  show ?thesis
    apply (rule exI[of _ ?cs], rule exI[of _ ?fs])
    using eq c f snackFor_length by blast
qed

text \<open>After 3 servings of the scenario's recipe the carbohydrate gap is \<open>200 - 90 / 7\<close>
  and the fat gap \<open>67 - 30 / 7\<close>: the filler adds 2 servings of the oats bowl (capped) on
  day \<open>\<lfloor>0.5 * 7\<rfloor> = 3\<close> and 1 serving of the nut mix (its availability) on day
  \<open>\<lfloor>0.9 * 7\<rfloor> = 6\<close>.\<close>

theorem gap_filler_at_most_one_per_macro_witness:
  "fillRemainingMacros [specChickenRice, oatsBowl, nutMix]
      [\<lparr> recipe = specChickenRice, servings = 3, day = 0, slot = ''breakfast'' \<rparr>]
      \<lparr> calories = 1200, protein = 120, carbs = 90, fat = 30 \<rparr> specTargets (1 / 2) (9 / 10)
   = [\<lparr> recipe = specChickenRice, servings = 3, day = 0, slot = ''breakfast'' \<rparr>,
      \<lparr> recipe = oatsBowl, servings = 2, day = 3, slot = ''snack'' \<rparr>,
      \<lparr> recipe = nutMix, servings = 1, day = 6, slot = ''snack'' \<rparr>]
   \<and> (\<exists>cs fs. fillRemainingMacros [specChickenRice, oatsBowl, nutMix]
          [\<lparr> recipe = specChickenRice, servings = 3, day = 0, slot = ''breakfast'' \<rparr>]
          \<lparr> calories = 1200, protein = 120, carbs = 90, fat = 30 \<rparr> specTargets (1 / 2) (9 / 10)
        = [\<lparr> recipe = specChickenRice, servings = 3, day = 0, slot = ''breakfast'' \<rparr>] @ cs @ fs
        \<and> length cs \<le> 1 \<and> length fs \<le> 1)"
proof -
  have r: "(0::real) \<le> 1 / 2" "(1 / 2 :: real) < 1" "(0::real) \<le> 9 / 10" "(9 / 10 :: real) < 1"
    by simp_all
  from gap_filler_at_most_one_per_macro[OF r,
      of "[specChickenRice, oatsBowl, nutMix]"
         "[\<lparr> recipe = specChickenRice, servings = 3, day = 0, slot = ''breakfast'' \<rparr>]"
         "\<lparr> calories = 1200, protein = 120, carbs = 90, fat = 30 \<rparr>" specTargets]
  have 2: "\<exists>cs fs. fillRemainingMacros [specChickenRice, oatsBowl, nutMix]
          [\<lparr> recipe = specChickenRice, servings = 3, day = 0, slot = ''breakfast'' \<rparr>]
          \<lparr> calories = 1200, protein = 120, carbs = 90, fat = 30 \<rparr> specTargets (1 / 2) (9 / 10)
        = [\<lparr> recipe = specChickenRice, servings = 3, day = 0, slot = ''breakfast'' \<rparr>] @ cs @ fs
        \<and> length cs \<le> 1 \<and> length fs \<le> 1"
    by blast
  have 1: "fillRemainingMacros [specChickenRice, oatsBowl, nutMix]
      [\<lparr> recipe = specChickenRice, servings = 3, day = 0, slot = ''breakfast'' \<rparr>]
      \<lparr> calories = 1200, protein = 120, carbs = 90, fat = 30 \<rparr> specTargets (1 / 2) (9 / 10)
   = [\<lparr> recipe = specChickenRice, servings = 3, day = 0, slot = ''breakfast'' \<rparr>,
      \<lparr> recipe = oatsBowl, servings = 2, day = 3, slot = ''snack'' \<rparr>,
      \<lparr> recipe = nutMix, servings = 1, day = 6, slot = ''snack'' \<rparr>]"
    by (simp add: fillRemainingMacros_def carbRichRecipes_def fatRichRecipes_def
        availableRecipes_def snackFor_def js_sort_def randomDay_def dailyGap_def daysInWeek_def
        js_div_def Math_min3_def specChickenRice_def oatsBowl_def nutMix_def specTargets_def
        Let_def)
  from 1 2 show ?thesis by blast
qed

section \<open>The final plan\<close>

lemma distinct_map_insort_cmp:
  "distinct (map f (insort_cmp cmp x ys)) \<longleftrightarrow> f x \<notin> f ` set ys \<and> distinct (map f ys)"
  by (induction ys) auto

lemma distinct_map_js_sort: "distinct (map f (js_sort cmp xs)) = distinct (map f xs)"
proof (induction xs)
  case Nil
  show ?case by (simp add: js_sort_def)
next
  case (Cons x xs)
  have "js_sort cmp (x # xs) = insort_cmp cmp x (js_sort cmp xs)"
    by (simp add: js_sort_def)
  with Cons show ?case by (simp add: distinct_map_insort_cmp)
qed

lemma sortByProteinDensity_mem:
  "r \<in> set (sortByProteinDensity recipes) \<longleftrightarrow> r \<in> set recipes \<and> js_gt (availableServings r) 0"
  by (auto simp: sortByProteinDensity_def)

lemma sortByProteinDensity_distinct:
  "distinct (map recipe_id recipes) \<Longrightarrow> distinct (map recipe_id (sortByProteinDensity recipes))"
  by (simp add: sortByProteinDensity_def distinct_map_js_sort distinct_map_filter)

lemma greedyLoop_distinct:
  "distinct (map recipe_id rs) \<Longrightarrow>
   \<exists>new. selectedRecipes (greedyLoop t rs st) = selectedRecipes st @ new
         \<and> set (map recipe new) \<subseteq> set rs
         \<and> distinct (map (\<lambda>s. recipe_id (recipe s)) new)"
proof (induction rs arbitrary: st)
  case Nil
  show ?case by (rule exI[of _ "[]"]) simp
next
  case (Cons r rs)
  from Cons.prems have d: "distinct (map recipe_id rs)" and nr: "recipe_id r \<notin> recipe_id ` set rs"
    by simp_all
  let ?gap = "dailyGap (protein t) (protein (currentMacros st))"
  let ?add = "Math_min3 (Math_ceil (js_div ?gap (protein (macros r)))) (availableServings r) (Fin 3)"
  show ?case
  proof (cases "?gap \<le> 0")
    case True
    then have "greedyLoop t (r # rs) st = st" by simp
    then show ?thesis by (intro exI[of _ "[]"]) simp
  next
    case gap: False
    show ?thesis
    proof (cases "\<exists>s. ?add = Fin s \<and> 0 < s")
      case True
      then obtain s where s: "?add = Fin s" "0 < s" by blast
      let ?st' = "pushSelection st r s"
      let ?sel = "\<lparr> recipe = r, servings = s, day = currentDay st mod daysInWeek,
                     slot = mealSlots ! (currentSlot st mod length mealSlots) \<rparr>"
      have step: "greedyLoop t (r # rs) st = greedyLoop t rs ?st'"
        using gap s by (simp add: Let_def)
      from Cons.IH[OF d, of ?st'] obtain new where new:
        "selectedRecipes (greedyLoop t rs ?st') = selectedRecipes ?st' @ new"
        "set (map recipe new) \<subseteq> set rs"
        "distinct (map (\<lambda>s. recipe_id (recipe s)) new)"
        by blast
      have sel': "selectedRecipes ?st' = selectedRecipes st @ [?sel]"
        by (simp add: pushSelection_def)
      have "recipe_id r \<notin> (\<lambda>s. recipe_id (recipe s)) ` set new"
        using new(2) nr by auto
      then have "distinct (map (\<lambda>s. recipe_id (recipe s)) (?sel # new))"
        using new(3) by simp
      moreover have "set (map recipe (?sel # new)) \<subseteq> set (r # rs)"
        using new(2) by auto
      moreover have "selectedRecipes (greedyLoop t (r # rs) st) = selectedRecipes st @ (?sel # new)"
        unfolding step new(1) sel' by simp
      ultimately show ?thesis by blast
    next
      case False
      then have step: "greedyLoop t (r # rs) st = greedyLoop t rs st"
        using gap by (cases ?add) (auto simp: Let_def)
      from Cons.IH[OF d, of st] show ?thesis unfolding step by auto
    qed
  qed
qed

lemma greedyProteinFill_selected:
  "distinct (map recipe_id recipes) \<Longrightarrow>
     distinct (map (\<lambda>s. recipe_id (recipe s)) (selectedRecipes (greedyProteinFill recipes t)))"
  and greedyProteinFill_recipes:
  "s \<in> set (selectedRecipes (greedyProteinFill recipes t)) \<Longrightarrow>
     recipe s \<in> set recipes \<and> js_gt (availableServings (recipe s)) 0"
proof -
  let ?init = "\<lparr> selectedRecipes = [],
                  currentMacros = \<lparr> calories = 0, protein = 0, carbs = 0, fat = 0 \<rparr>,
                  currentDay = 0, currentSlot = 0 \<rparr>"
  {
    assume "distinct (map recipe_id recipes)"
    then have "distinct (map recipe_id (sortByProteinDensity recipes))"
      by (rule sortByProteinDensity_distinct)
    from greedyLoop_distinct[OF this, of t ?init]
    show "distinct (map (\<lambda>s. recipe_id (recipe s)) (selectedRecipes (greedyProteinFill recipes t)))"
      by (auto simp: greedyProteinFill_def)
  }
  {
    assume s: "s \<in> set (selectedRecipes (greedyProteinFill recipes t))"
    from greedyLoop_trace[of t "sortByProteinDensity recipes" ?init]
    have "set (map recipe (selectedRecipes (greedyProteinFill recipes t)))
            \<subseteq> set (sortByProteinDensity recipes)"
      by (auto simp: greedyProteinFill_def)
    with s have "recipe s \<in> set (sortByProteinDensity recipes)" by auto
    then show "recipe s \<in> set recipes \<and> js_gt (availableServings (recipe s)) 0"
      by (simp add: sortByProteinDensity_mem)
  }
qed

lemma map_recipe_fineTuneMacros: "map recipe (fineTuneMacros sel t) = map recipe sel"
  by (simp add: fineTuneMacros_def Let_def)

lemma length_fineTuneMacros: "length (fineTuneMacros sel t) = length sel"
  by (simp add: fineTuneMacros_def)

lemma filledRecipes_split:
  "\<exists>cs fs. filledRecipes recipes t rc rf = selectedRecipes (greedyProteinFill recipes t) @ cs @ fs
     \<and> length cs \<le> 1 \<and> length fs \<le> 1
     \<and> (\<forall>s\<in>set cs. recipe s \<in> set recipes \<and> js_gt (availableServings (recipe s)) 0
           \<and> recipe_id (recipe s) \<notin> (\<lambda>s. recipe_id (recipe s)) ` set (selectedRecipes (greedyProteinFill recipes t))
           \<and> fat (macros (recipe s)) < carbs (macros (recipe s)))
     \<and> (\<forall>s\<in>set fs. recipe s \<in> set recipes \<and> js_gt (availableServings (recipe s)) 0
           \<and> recipe_id (recipe s) \<notin> (\<lambda>s. recipe_id (recipe s)) ` set (selectedRecipes (greedyProteinFill recipes t))
           \<and> carbs (macros (recipe s)) < fat (macros (recipe s)))"
proof -
  let ?g = "greedyProteinFill recipes t"
  let ?cs = "snackFor carbs (dailyGap (carbs t) (carbs (currentMacros ?g)))
               (carbRichRecipes recipes (selectedRecipes ?g)) rc"
  let ?fs = "snackFor fat (dailyGap (fat t) (fat (currentMacros ?g)))
               (fatRichRecipes recipes (selectedRecipes ?g)) rf"
  have eq: "filledRecipes recipes t rc rf = selectedRecipes ?g @ ?cs @ ?fs"
    by (simp add: filledRecipes_def fillRemainingMacros_def Let_def)
  have c: "recipe s \<in> set recipes \<and> js_gt (availableServings (recipe s)) 0
           \<and> recipe_id (recipe s) \<notin> (\<lambda>s. recipe_id (recipe s)) ` set (selectedRecipes ?g)
           \<and> fat (macros (recipe s)) < carbs (macros (recipe s))" if "s \<in> set ?cs" for s
  proof -
    from snackFor_props[OF that]
    have "recipe s \<in> set (carbRichRecipes recipes (selectedRecipes ?g))" by simp
    from carbRich_mem[OF this] show ?thesis by simp
  qed
  have f: "recipe s \<in> set recipes \<and> js_gt (availableServings (recipe s)) 0
           \<and> recipe_id (recipe s) \<notin> (\<lambda>s. recipe_id (recipe s)) ` set (selectedRecipes ?g)
           \<and> carbs (macros (recipe s)) < fat (macros (recipe s))" if "s \<in> set ?fs" for s
  proof -
    from snackFor_props[OF that]
    have "recipe s \<in> set (fatRichRecipes recipes (selectedRecipes ?g))" by simp
    from fatRich_mem[OF this] show ?thesis by simp
  qed
  show ?thesis
    apply (rule exI[of _ ?cs], rule exI[of _ ?fs])
    using eq c f snackFor_length by blast
qed

lemma finalRecipes_available:
  assumes "s \<in> set (finalRecipes recipes t rc rf)"
  shows "recipe s \<in> set recipes \<and> js_gt (availableServings (recipe s)) 0"
proof -
  from assms have "recipe s \<in> set (map recipe (finalRecipes recipes t rc rf))" by simp
  then have "recipe s \<in> recipe ` set (filledRecipes recipes t rc rf)"
    by (simp add: finalRecipes_def map_recipe_fineTuneMacros)
  then obtain s' where s': "s' \<in> set (filledRecipes recipes t rc rf)" "recipe s = recipe s'"
    by auto
  from filledRecipes_split[of recipes t rc rf]
  obtain cs fs where sp: "filledRecipes recipes t rc rf = selectedRecipes (greedyProteinFill recipes t) @ cs @ fs"
    "\<forall>s\<in>set cs. recipe s \<in> set recipes \<and> js_gt (availableServings (recipe s)) 0"
    "\<forall>s\<in>set fs. recipe s \<in> set recipes \<and> js_gt (availableServings (recipe s)) 0"
    by blast
  from s'(1) sp(1) have "s' \<in> set (selectedRecipes (greedyProteinFill recipes t)) \<or> s' \<in> set cs \<or> s' \<in> set fs"
    by simp
  then have "recipe s' \<in> set recipes \<and> js_gt (availableServings (recipe s')) 0"
    using sp(2,3) greedyProteinFill_recipes[of s' recipes t] by blast
  with s'(2) show ?thesis by simp
qed

text \<open>
  \<^bold>\<open>Claim C10\<close> (one assignment per recipe). When the recipes have pairwise different ids
  (\<^verbatim>\<open>id\<close> is the primary key of \<^verbatim>\<open>recipes\<close>), the ids of the recipes of the final
  assignments are pairwise different: the greedy stage selects each recipe at most once,
  the gap filler picks among the recipes whose id is not selected, its two picks differ,
  and the fine-tuner keeps the sequence of recipes.
\<close>

theorem one_assignment_per_recipe:
  assumes "distinct (map recipe_id recipes)"
  shows "distinct (map (\<lambda>s. recipe_id (recipe s)) (finalRecipes recipes dailyTargets rndCarb rndFat))
       \<and> distinct (map (\<lambda>s. recipe_id (recipe s)) (selectedRecipes (greedyProteinFill recipes dailyTargets)))
       \<and> map recipe (finalRecipes recipes dailyTargets rndCarb rndFat)
           = map recipe (filledRecipes recipes dailyTargets rndCarb rndFat)"
proof -
  let ?id = "\<lambda>s. recipe_id (recipe s)"
  let ?g = "selectedRecipes (greedyProteinFill recipes dailyTargets)"
  have g: "distinct (map ?id ?g)" using assms by (rule greedyProteinFill_selected)
  from filledRecipes_split[of recipes dailyTargets rndCarb rndFat]
  obtain cs fs where sp: "filledRecipes recipes dailyTargets rndCarb rndFat = ?g @ cs @ fs"
    and lc: "length cs \<le> 1" and lf: "length fs \<le> 1"
    and c: "\<forall>s\<in>set cs. recipe s \<in> set recipes \<and> js_gt (availableServings (recipe s)) 0
        \<and> ?id s \<notin> ?id ` set ?g \<and> fat (macros (recipe s)) < carbs (macros (recipe s))"
    and f: "\<forall>s\<in>set fs. recipe s \<in> set recipes \<and> js_gt (availableServings (recipe s)) 0
        \<and> ?id s \<notin> ?id ` set ?g \<and> carbs (macros (recipe s)) < fat (macros (recipe s))"
    by (elim exE conjE)
  have inj: "inj_on recipe_id (set recipes)" using assms by (simp add: distinct_map)
  have dc: "distinct (map ?id cs)" using lc by (cases cs) simp_all
  have df: "distinct (map ?id fs)" using lf by (cases fs) simp_all
  have cf: "?id x \<noteq> ?id y" if x: "x \<in> set cs" and y: "y \<in> set fs" for x y
  proof
    assume e: "?id x = ?id y"
    from x c have rx: "recipe x \<in> set recipes" and mx: "fat (macros (recipe x)) < carbs (macros (recipe x))"
      by simp_all
    from y f have ry: "recipe y \<in> set recipes" and my: "carbs (macros (recipe y)) < fat (macros (recipe y))"
      by simp_all
    from inj_onD[OF inj e rx ry] have eq: "recipe x = recipe y" .
    from mx have "fat (macros (recipe y)) < carbs (macros (recipe y))" unfolding eq .
    with my show False by linarith
  qed
  from c have c1: "\<And>s. s \<in> set cs \<Longrightarrow> ?id s \<notin> ?id ` set ?g" by simp
  from f have f1: "\<And>s. s \<in> set fs \<Longrightarrow> ?id s \<notin> ?id ` set ?g" by simp
  have gc: "?id ` set ?g \<inter> ?id ` set cs = {}" using c1 image_iff by fastforce
  have gf: "?id ` set ?g \<inter> ?id ` set fs = {}" using f1 image_iff by fastforce
  have cfd: "?id ` set cs \<inter> ?id ` set fs = {}" using cf image_iff by fastforce
  have "distinct (map ?id (?g @ cs @ fs))"
    unfolding map_append distinct_append set_append set_map
    using g dc df gc gf cfd by blast
  then have "distinct (map recipe_id (map recipe (filledRecipes recipes dailyTargets rndCarb rndFat)))"
    by (simp only: sp map_map comp_def)
  moreover have m: "map recipe (finalRecipes recipes dailyTargets rndCarb rndFat)
           = map recipe (filledRecipes recipes dailyTargets rndCarb rndFat)"
    by (simp add: finalRecipes_def map_recipe_fineTuneMacros)
  ultimately have "distinct (map recipe_id (map recipe (finalRecipes recipes dailyTargets rndCarb rndFat)))"
    by simp
  then have "distinct (map ?id (finalRecipes recipes dailyTargets rndCarb rndFat))"
    by (simp only: map_map comp_def)
  with g m show ?thesis by (intro conjI)
qed

text \<open>A run through the three stages on the three sample recipes: the greedy stage stops
  after one serving of the first, the filler adds the other two, the fine-tuner keeps
  the servings (\<open>round 0.8 = 1\<close>, \<open>round 1.6 = 2\<close>).\<close>

lemma greedy_sample:
  "greedyProteinFill [specChickenRice, oatsBowl, nutMix] lowProteinTargets =
     \<lparr> selectedRecipes = [\<lparr> recipe = specChickenRice, servings = 1, day = 0, slot = ''breakfast'' \<rparr>],
       currentMacros = \<lparr> calories = 400, protein = 40, carbs = 30, fat = 10 \<rparr>,
       currentDay = 0, currentSlot = 1 \<rparr>"
  by (simp add: greedyProteinFill_def sortByProteinDensity_def js_sort_def specChickenRice_def
      oatsBowl_def nutMix_def lowProteinTargets_def dailyGap_def daysInWeek_def js_div_def
      Math_min3_def pushSelection_def mealSlots_def Let_def ceiling_def)

lemma filled_sample:
  "filledRecipes [specChickenRice, oatsBowl, nutMix] lowProteinTargets (1 / 2) (9 / 10) =
     [\<lparr> recipe = specChickenRice, servings = 1, day = 0, slot = ''breakfast'' \<rparr>,
      \<lparr> recipe = oatsBowl, servings = 2, day = 3, slot = ''snack'' \<rparr>,
      \<lparr> recipe = nutMix, servings = 1, day = 6, slot = ''snack'' \<rparr>]"
  unfolding filledRecipes_def greedy_sample
  by (simp add: fillRemainingMacros_def carbRichRecipes_def fatRichRecipes_def
        availableRecipes_def snackFor_def js_sort_def randomDay_def dailyGap_def daysInWeek_def
        js_div_def Math_min3_def specChickenRice_def oatsBowl_def nutMix_def lowProteinTargets_def
        Let_def)

lemma final_sample:
  "finalRecipes [specChickenRice, oatsBowl, nutMix] lowProteinTargets (1 / 2) (9 / 10) =
     [\<lparr> recipe = specChickenRice, servings = 1, day = 0, slot = ''breakfast'' \<rparr>,
      \<lparr> recipe = oatsBowl, servings = 2, day = 3, slot = ''snack'' \<rparr>,
      \<lparr> recipe = nutMix, servings = 1, day = 6, slot = ''snack'' \<rparr>]"
  unfolding finalRecipes_def filled_sample
  by (simp add: fineTuneMacros_def calorieAccuracy_def weeklyCalories_def js_div_def
      daysInWeek_def round_half_up_def specChickenRice_def oatsBowl_def nutMix_def
      lowProteinTargets_def Let_def)

theorem one_assignment_per_recipe_witness:
  "map (\<lambda>s. recipe_id (recipe s))
       (finalRecipes [specChickenRice, oatsBowl, nutMix] lowProteinTargets (1 / 2) (9 / 10))
     = [''chicken+rice'', ''oats-bowl'', ''nut-mix'']
   \<and> distinct (map (\<lambda>s. recipe_id (recipe s))
       (finalRecipes [specChickenRice, oatsBowl, nutMix] lowProteinTargets (1 / 2) (9 / 10)))"
proof -
  have d: "distinct (map recipe_id [specChickenRice, oatsBowl, nutMix])"
    by (simp add: specChickenRice_def oatsBowl_def nutMix_def)
  from one_assignment_per_recipe[OF d, of lowProteinTargets "1 / 2" "9 / 10"]
  have "distinct (map (\<lambda>s. recipe_id (recipe s))
       (finalRecipes [specChickenRice, oatsBowl, nutMix] lowProteinTargets (1 / 2) (9 / 10)))"
    by blast
  moreover have "map (\<lambda>s. recipe_id (recipe s))
       (finalRecipes [specChickenRice, oatsBowl, nutMix] lowProteinTargets (1 / 2) (9 / 10))
     = [''chicken+rice'', ''oats-bowl'', ''nut-mix'']"
    unfolding final_sample by (simp add: specChickenRice_def oatsBowl_def nutMix_def)
  ultimately show ?thesis by blast
qed

section \<open>Shortfall reporter, entries and quantities\<close>

lemma needFold_Nil [simp]: "needFold pantryItems m [] = m"
  by (simp add: needFold_def)

lemma needFold_Cons [simp]:
  "needFold pantryItems m ((i, sv) # ps) = needFold pantryItems (needStep pantryItems sv m i) ps"
  by (simp add: needFold_def)

lemma needFold_append [simp]:
  "needFold pantryItems m (ps @ qs) = needFold pantryItems (needFold pantryItems m ps) qs"
  by (simp add: needFold_def)

lemma needFold_ingredients:
  "foldl (needStep pantryItems sv) m is = needFold pantryItems m (map (\<lambda>i. (i, sv)) is)"
  by (induction "is" arbitrary: m) simp_all

lemma ingredientNeeds_flat:
  "foldl (\<lambda>m selection. foldl (needStep pantryItems (servings selection)) m
                            (recipe_ingredients (recipe selection))) m sel
   = needFold pantryItems m (requirements sel)"
proof (induction sel arbitrary: m)
  case Nil
  show ?case by (simp add: requirements_def)
next
  case (Cons s sel)
  have "requirements (s # sel) =
          map (\<lambda>i. (i, servings s)) (recipe_ingredients (recipe s)) @ requirements sel"
    by (simp add: requirements_def)
  then show ?case using Cons by (simp add: needFold_ingredients)
qed

lemma ingredientNeeds_needFold:
  "ingredientNeeds sel pantryItems = needFold pantryItems [] (requirements sel)"
  unfolding ingredientNeeds_def by (rule ingredientNeeds_flat)

lemma needStep_map_of:
  "map_of (needStep pantryItems sv m i) =
     (map_of m)(ingredient_id i \<mapsto>
        (case map_of m (ingredient_id i) of
           Some current \<Rightarrow> current\<lparr> needed := fl53 (needed current + fl53 (quantity i * sv)) \<rparr>
         | None \<Rightarrow> \<lparr> needed = fl53 (quantity i * sv), need_unit = unit i,
                      need_name = name (ingredients i),
                      available = pantryQuantity pantryItems (ingredient_id i) \<rparr>))"
  by (simp add: needStep_def Let_def update_conv' split: option.splits)

lemma needStep_distinct:
  "distinct (map fst m) \<Longrightarrow> distinct (map fst (needStep pantryItems sv m i))"
  by (simp add: needStep_def Let_def distinct_update split: option.splits)

text \<open>The need the reporter holds for an ingredient after its loop: the one it held
  before with the later products added, or the total of the list.\<close>

lemma needFold_map_of:
  "map_of (needFold pantryItems m ps) k =
     (case map_of m k of
        Some n \<Rightarrow> Some (n\<lparr> needed := sumFrom k (needed n) ps \<rparr>)
      | None \<Rightarrow>
          (case find (\<lambda>(i, sv). ingredient_id i = k) ps of
             None \<Rightarrow> None
           | Some (i, sv) \<Rightarrow>
               Some \<lparr> needed = sumFor ps k, need_unit = unit i,
                      need_name = name (ingredients i),
                      available = pantryQuantity pantryItems k \<rparr>))"
proof (induction ps arbitrary: m)
  case Nil
  show ?case by (simp split: option.splits)
next
  case (Cons p ps)
  obtain i sv where p: "p = (i, sv)" by (cases p)
  show ?case
    unfolding p needFold_Cons Cons.IH needStep_map_of
    by (cases "ingredient_id i = k") (simp_all split: option.splits)
qed

lemma needFold_distinct:
  "distinct (map fst m) \<Longrightarrow> distinct (map fst (needFold pantryItems m ps))"
proof (induction ps arbitrary: m)
  case Nil
  then show ?case by simp
next
  case (Cons p ps)
  obtain i sv where p: "p = (i, sv)" by (cases p)
  from Cons.prems have "distinct (map fst (needStep pantryItems sv m i))"
    by (rule needStep_distinct)
  from Cons.IH[OF this] show ?case unfolding p by simp
qed

lemma find_requirements:
  "find (\<lambda>(i, sv). ingredient_id i = k) ps = None \<longleftrightarrow> k \<notin> (\<lambda>(i, sv). ingredient_id i) ` set ps"
  by (auto simp: find_None_iff)

lemma requiredIds_requirements:
  "requiredIds sel = (\<lambda>(i, sv). ingredient_id i) ` set (requirements sel)"
  by (auto simp: requiredIds_def requirements_def image_iff) force+

lemma need_entry:
  assumes "(k, n) \<in> set (ingredientNeeds sel pantryItems)"
  shows "k \<in> requiredIds sel \<and> needed n = totalRequired sel k
         \<and> available n = pantryQuantity pantryItems k"
proof -
  have d: "distinct (map fst (ingredientNeeds sel pantryItems))"
    unfolding ingredientNeeds_needFold by (rule needFold_distinct) simp
  with assms have "map_of (ingredientNeeds sel pantryItems) k = Some n" by simp
  then have m: "(case find (\<lambda>(i, sv). ingredient_id i = k) (requirements sel) of
             None \<Rightarrow> None
           | Some (i, sv) \<Rightarrow>
               Some \<lparr> needed = sumFor (requirements sel) k, need_unit = unit i,
                      need_name = name (ingredients i),
                      available = pantryQuantity pantryItems k \<rparr>) = Some n"
    unfolding ingredientNeeds_needFold needFold_map_of by simp
  then have "find (\<lambda>(i, sv). ingredient_id i = k) (requirements sel) \<noteq> None"
    by (auto split: option.splits)
  then have 1: "k \<in> requiredIds sel"
    unfolding requiredIds_requirements find_requirements by simp
  from m have "needed n = sumFor (requirements sel) k \<and> available n = pantryQuantity pantryItems k"
    by (auto split: option.splits)
  with 1 show ?thesis by (simp add: totalRequired_def)
qed

lemma need_exists:
  assumes "k \<in> requiredIds sel"
  shows "\<exists>n. (k, n) \<in> set (ingredientNeeds sel pantryItems)"
proof -
  from assms have "find (\<lambda>(i, sv). ingredient_id i = k) (requirements sel) \<noteq> None"
    unfolding requiredIds_requirements find_requirements by simp
  then have "map_of (ingredientNeeds sel pantryItems) k \<noteq> None"
    unfolding ingredientNeeds_needFold needFold_map_of by (auto split: option.splits)
  then obtain n where "map_of (ingredientNeeds sel pantryItems) k = Some n" by blast
  then have "(k, n) \<in> set (ingredientNeeds sel pantryItems)" by (rule map_of_SomeD)
  then show ?thesis ..
qed

lemma missing_entry_iff:
  "(\<exists>e\<in>set (calculateMissingIngredients sel pantryItems). ingredientId e = k)
     \<longleftrightarrow> k \<in> requiredIds sel \<and> pantryQuantity pantryItems k < totalRequired sel k"
proof
  assume "\<exists>e\<in>set (calculateMissingIngredients sel pantryItems). ingredientId e = k"
  then obtain n where n: "(k, n) \<in> set (ingredientNeeds sel pantryItems)" "available n < needed n"
    by (auto simp: calculateMissingIngredients_def)
  from need_entry[OF n(1)] n(2)
  show "k \<in> requiredIds sel \<and> pantryQuantity pantryItems k < totalRequired sel k" by simp
next
  assume a: "k \<in> requiredIds sel \<and> pantryQuantity pantryItems k < totalRequired sel k"
  then obtain n where n: "(k, n) \<in> set (ingredientNeeds sel pantryItems)"
    using need_exists by blast
  from need_entry[OF n] a have "available n < needed n" by simp
  with n have "(k, n) \<in> set (filter (\<lambda>(k, need). available need < needed need)
                                 (ingredientNeeds sel pantryItems))" by simp
  then have "\<lparr> ingredientId = k, ingredientName = need_name n,
               neededQuantity = fl53 (needed n - available n),
               shortfall_unit = need_unit n, availableQuantity = available n \<rparr>
             \<in> set (calculateMissingIngredients sel pantryItems)"
    unfolding calculateMissingIngredients_def by force
  then show "\<exists>e\<in>set (calculateMissingIngredients sel pantryItems). ingredientId e = k"
    by force
qed

lemma missing_entry_quantities:
  assumes "e \<in> set (calculateMissingIngredients sel pantryItems)"
  shows "neededQuantity e
           = fl53 (totalRequired sel (ingredientId e) - pantryQuantity pantryItems (ingredientId e))
         \<and> availableQuantity e = pantryQuantity pantryItems (ingredientId e)"
proof -
  from assms obtain k n where n: "(k, n) \<in> set (ingredientNeeds sel pantryItems)"
    and e: "e = \<lparr> ingredientId = k, ingredientName = need_name n,
               neededQuantity = fl53 (needed n - available n),
               shortfall_unit = need_unit n, availableQuantity = available n \<rparr>"
    by (auto simp: calculateMissingIngredients_def)
  from need_entry[OF n] show ?thesis by (simp add: e)
qed

lemma missing_distinct: "distinct (map ingredientId (calculateMissingIngredients sel pantryItems))"
proof -
  have d: "distinct (map fst (ingredientNeeds sel pantryItems))"
    unfolding ingredientNeeds_needFold by (rule needFold_distinct) simp
  have "map ingredientId (calculateMissingIngredients sel pantryItems)
          = map fst (filter (\<lambda>(k, need). available need < needed need)
                       (ingredientNeeds sel pantryItems))"
    by (simp add: calculateMissingIngredients_def case_prod_unfold)
  with d show ?thesis by (simp add: distinct_map_filter)
qed

lemma sumFor_unreferenced:
  "k \<notin> (\<lambda>(i, sv). ingredient_id i) ` set ps \<Longrightarrow> sumFor ps k = 0"
  by (induction ps) auto

lemma totalRequired_unreferenced: "k \<notin> requiredIds sel \<Longrightarrow> totalRequired sel k = 0"
  unfolding requiredIds_requirements totalRequired_def by (rule sumFor_unreferenced)

text \<open>
  \<^bold>\<open>Claim C3\<close>, as the code has it. The total required of an ingredient is the one the
  machine adds up, \<open>totalRequired\<close>: the products of servings and required quantity in
  the order of the plan, every product and every partial sum rounded to a double. For
  every list of assignments and pantry:
  \<^item> \<open>calculateMissingIngredients\<close> has an entry for an ingredient exactly when the plan
    requires the ingredient and that total exceeds the pantry quantity (0 when the
    pantry has no item for it); with a pantry of non-negative quantities the second
    condition alone decides;
  \<^item> the entry's \<open>neededQuantity\<close> is the rounded difference of that total and the
    pantry quantity, its \<open>availableQuantity\<close> the pantry quantity, and an ingredient has
    at most one entry;
  \<^item> every final assignment is of a given recipe with positive availability, so an
    ingredient that only recipes without availability require has no entry.
\<close>

theorem shortfall_correctness:
  "(\<forall>k. (\<exists>e\<in>set (calculateMissingIngredients sel pantryItems). ingredientId e = k)
          \<longleftrightarrow> k \<in> requiredIds sel \<and> pantryQuantity pantryItems k < totalRequired sel k)
   \<and> ((\<forall>p\<in>set pantryItems. 0 \<le> p_quantity p) \<longrightarrow>
        (\<forall>k. (\<exists>e\<in>set (calculateMissingIngredients sel pantryItems). ingredientId e = k)
          \<longleftrightarrow> pantryQuantity pantryItems k < totalRequired sel k))
   \<and> (\<forall>e\<in>set (calculateMissingIngredients sel pantryItems).
          neededQuantity e
            = fl53 (totalRequired sel (ingredientId e) - pantryQuantity pantryItems (ingredientId e))
          \<and> availableQuantity e = pantryQuantity pantryItems (ingredientId e))
   \<and> distinct (map ingredientId (calculateMissingIngredients sel pantryItems))
   \<and> (\<forall>s\<in>set (finalRecipes recipes dailyTargets rndCarb rndFat).
          recipe s \<in> set recipes \<and> js_gt (availableServings (recipe s)) 0)
   \<and> (\<forall>k. (\<forall>r\<in>set recipes. js_gt (availableServings r) 0 \<longrightarrow>
                k \<notin> ingredient_id ` set (recipe_ingredients r)) \<longrightarrow>
          k \<notin> ingredientId ` set (calculateMissingIngredients
                                    (finalRecipes recipes dailyTargets rndCarb rndFat) pantryItems))"
proof (intro conjI)
  show "\<forall>k. (\<exists>e\<in>set (calculateMissingIngredients sel pantryItems). ingredientId e = k)
          \<longleftrightarrow> k \<in> requiredIds sel \<and> pantryQuantity pantryItems k < totalRequired sel k"
    using missing_entry_iff by blast
  show "(\<forall>p\<in>set pantryItems. 0 \<le> p_quantity p) \<longrightarrow>
        (\<forall>k. (\<exists>e\<in>set (calculateMissingIngredients sel pantryItems). ingredientId e = k)
          \<longleftrightarrow> pantryQuantity pantryItems k < totalRequired sel k)"
  proof (intro impI allI)
    fix k assume nn: "\<forall>p\<in>set pantryItems. 0 \<le> p_quantity p"
    have "k \<in> requiredIds sel" if "pantryQuantity pantryItems k < totalRequired sel k"
    proof (rule ccontr)
      assume "k \<notin> requiredIds sel"
      then have "totalRequired sel k = 0" by (rule totalRequired_unreferenced)
      with that pantryQuantity_nonneg[OF nn, of k] show False by simp
    qed
    then show "(\<exists>e\<in>set (calculateMissingIngredients sel pantryItems). ingredientId e = k)
          \<longleftrightarrow> pantryQuantity pantryItems k < totalRequired sel k"
      unfolding missing_entry_iff by blast
  qed
  show "\<forall>e\<in>set (calculateMissingIngredients sel pantryItems).
          neededQuantity e
            = fl53 (totalRequired sel (ingredientId e) - pantryQuantity pantryItems (ingredientId e))
          \<and> availableQuantity e = pantryQuantity pantryItems (ingredientId e)"
    using missing_entry_quantities by blast
  show "distinct (map ingredientId (calculateMissingIngredients sel pantryItems))"
    by (rule missing_distinct)
  show av: "\<forall>s\<in>set (finalRecipes recipes dailyTargets rndCarb rndFat).
          recipe s \<in> set recipes \<and> js_gt (availableServings (recipe s)) 0"
    using finalRecipes_available by blast
  show "\<forall>k. (\<forall>r\<in>set recipes. js_gt (availableServings r) 0 \<longrightarrow>
                k \<notin> ingredient_id ` set (recipe_ingredients r)) \<longrightarrow>
          k \<notin> ingredientId ` set (calculateMissingIngredients
                                    (finalRecipes recipes dailyTargets rndCarb rndFat) pantryItems)"
  proof (intro allI impI notI)
    fix k
    let ?final = "finalRecipes recipes dailyTargets rndCarb rndFat"
    assume ex: "\<forall>r\<in>set recipes. js_gt (availableServings r) 0 \<longrightarrow>
                k \<notin> ingredient_id ` set (recipe_ingredients r)"
      and "k \<in> ingredientId ` set (calculateMissingIngredients ?final pantryItems)"
    then have "\<exists>e\<in>set (calculateMissingIngredients ?final pantryItems). ingredientId e = k"
      by auto
    then have "k \<in> requiredIds ?final" unfolding missing_entry_iff by simp
    then obtain s where s: "s \<in> set ?final" "k \<in> ingredient_id ` set (recipe_ingredients (recipe s))"
      unfolding requiredIds_def by blast
    from av s(1) have "recipe s \<in> set recipes" "js_gt (availableServings (recipe s)) 0" by simp_all
    with ex s(2) show False by blast
  qed
qed

text \<open>Four servings need 600 g of chicken against 500 g and 320 g of rice against 400 g:
  one entry, 100 g of chicken. With 100 g of chicken in the pantry the recipe (150 g a
  serving) has no availability, the plan is empty and nothing is reported.\<close>

lemma missing_sample:
  "calculateMissingIngredients fourServings samplePantry =
     [\<lparr> ingredientId = ''chicken'', ingredientName = ''Chicken Breast'', neededQuantity = 100,
        shortfall_unit = ''g'', availableQuantity = 500 \<rparr>]"
  by (simp add: calculateMissingIngredients_def ingredientNeeds_def needStep_def fourServings_def
      withMacros_def chickenRice_def chickenBreast_def brownRice_def samplePantry_def
      pantryQuantity_def pantryFind_def fl53_eval)

lemma scarce_sample:
  "map (withMacros scarcePantry) [chickenRice] =
     [\<lparr> recipe_id = ''chicken-rice'', recipe_ingredients = recipe_ingredients chickenRice,
        macros = \<lparr> calories = 336, protein = 37, carbs = 18, fat = 6 \<rparr>,
        proteinDensity = 925 / 84, availableServings = Fin 0 \<rparr>]"
  by (simp add: withMacros_def calculateRecipeMacros_def macroStep_def
      calculateAvailableServings_def servingsStep_def pantryFind_def double_div_def
      round_half_up_def chickenRice_def chickenBreast_def brownRice_def scarcePantry_def
      fl53_eval)

theorem shortfall_correctness_witness:
  "calculateMissingIngredients fourServings samplePantry =
     [\<lparr> ingredientId = ''chicken'', ingredientName = ''Chicken Breast'', neededQuantity = 100,
        shortfall_unit = ''g'', availableQuantity = 500 \<rparr>]
   \<and> (\<exists>e\<in>set (calculateMissingIngredients fourServings samplePantry). ingredientId e = ''chicken'')
   \<and> \<not> (\<exists>e\<in>set (calculateMissingIngredients fourServings samplePantry). ingredientId e = ''rice'')
   \<and> totalRequired fourServings ''chicken'' = 600
   \<and> finalRecipes (map (withMacros scarcePantry) [chickenRice]) specTargets (1 / 2) (9 / 10) = []
   \<and> ''chicken'' \<notin> ingredientId ` set (calculateMissingIngredients
         (finalRecipes (map (withMacros scarcePantry) [chickenRice]) specTargets (1 / 2) (9 / 10))
         scarcePantry)"
proof -
  note t = shortfall_correctness[of fourServings samplePantry
      "map (withMacros scarcePantry) [chickenRice]" specTargets "1 / 2" "9 / 10"]
  note t' = shortfall_correctness[of "[]" scarcePantry
      "map (withMacros scarcePantry) [chickenRice]" specTargets "1 / 2" "9 / 10"]
  have ids: "requiredIds fourServings = {''chicken'', ''rice''}"
    by (auto simp: requiredIds_def fourServings_def withMacros_def chickenRice_def Let_def)
  have tc: "totalRequired fourServings ''chicken'' = 600"
    and tr: "totalRequired fourServings ''rice'' = 320"
    by (simp_all add: totalRequired_def requirements_def fourServings_def withMacros_def
        chickenRice_def fl53_eval)
  have pc: "pantryQuantity samplePantry ''chicken'' = 500"
    and pr: "pantryQuantity samplePantry ''rice'' = 400"
    by (simp_all add: pantryQuantity_def pantryFind_def samplePantry_def)
  from t ids tc pc
  have 2: "\<exists>e\<in>set (calculateMissingIngredients fourServings samplePantry). ingredientId e = ''chicken''"
    by simp
  from t ids tr pr
  have 3: "\<not> (\<exists>e\<in>set (calculateMissingIngredients fourServings samplePantry). ingredientId e = ''rice'')"
    by simp
  have "\<forall>r\<in>set (map (withMacros scarcePantry) [chickenRice]). js_gt (availableServings r) 0 \<longrightarrow>
          ''chicken'' \<notin> ingredient_id ` set (recipe_ingredients r)"
    unfolding scarce_sample by simp
  with t' have 6: "''chicken'' \<notin> ingredientId ` set (calculateMissingIngredients
         (finalRecipes (map (withMacros scarcePantry) [chickenRice]) specTargets (1 / 2) (9 / 10))
         scarcePantry)"
    by blast
  have 5: "finalRecipes (map (withMacros scarcePantry) [chickenRice]) specTargets (1 / 2) (9 / 10) = []"
    unfolding scarce_sample
    by (simp add: finalRecipes_def filledRecipes_def greedyProteinFill_def sortByProteinDensity_def
        js_sort_def fillRemainingMacros_def carbRichRecipes_def fatRichRecipes_def
        availableRecipes_def snackFor_def fineTuneMacros_def Let_def)
  from missing_sample 2 3 tc 5 6 show ?thesis by blast
qed

section \<open>The planning run: totals, validation, accuracy\<close>

text \<open>The run for the default profile, stage by stage.\<close>

lemma withMacros_sample: "withMacros samplePantry chickenRice = chickenRiceMacros"
  by (simp add: withMacros_def calculateRecipeMacros_def macroStep_def
      calculateAvailableServings_def servingsStep_def pantryFind_def double_div_def
      round_half_up_def chickenRice_def chickenBreast_def brownRice_def samplePantry_def
      chickenRiceMacros_def fl53_eval)

lemma targets_default:
  "dailyTargetsOf defaultProfile = \<lparr> calories = 2000, protein = 150, carbs = 200, fat = 67 \<rparr>"
  by (simp add: dailyTargetsOf_def defaultProfile_def round_half_up_def)

lemma greedy_default:
  "greedyProteinFill [chickenRiceMacros] \<lparr> calories = 2000, protein = 150, carbs = 200, fat = 67 \<rparr> =
     \<lparr> selectedRecipes = [\<lparr> recipe = chickenRiceMacros, servings = 3, day = 0, slot = ''breakfast'' \<rparr>],
       currentMacros = \<lparr> calories = 1008, protein = 111, carbs = 54, fat = 18 \<rparr>,
       currentDay = 0, currentSlot = 1 \<rparr>"
  by (simp add: greedyProteinFill_def sortByProteinDensity_def js_sort_def chickenRiceMacros_def
      dailyGap_def daysInWeek_def js_div_def Math_min3_def pushSelection_def mealSlots_def
      Let_def ceiling_def)

lemma final_default:
  "finalRecipes [chickenRiceMacros] \<lparr> calories = 2000, protein = 150, carbs = 200, fat = 67 \<rparr>
      (1 / 2) (9 / 10) =
     [\<lparr> recipe = chickenRiceMacros, servings = 2, day = 0, slot = ''breakfast'' \<rparr>]"
  unfolding finalRecipes_def filledRecipes_def greedy_default
  by (simp add: fillRemainingMacros_def carbRichRecipes_def fatRichRecipes_def
      availableRecipes_def snackFor_def js_sort_def fineTuneMacros_def calorieAccuracy_def
      weeklyCalories_def js_div_def daysInWeek_def round_half_up_def chickenRiceMacros_def Let_def)

lemma totals_default:
  "planTotals [chickenRiceMacros] \<lparr> calories = 2000, protein = 150, carbs = 200, fat = 67 \<rparr> =
     \<lparr> total_kcal = 1008, total_protein = 111, total_carbs = 54, total_fat = 18 \<rparr>"
  unfolding planTotals_def greedy_default by (simp add: round_half_up_def)

lemma generatePlan_default:
  "generatePlan (sampleDb defaultProfile) sampleWeek =
     Inr \<lparr> mealPlan = \<lparr> total_kcal = 1008, total_protein = 111, total_carbs = 54, total_fat = 18,
                        week_start = ''2025-01-06'' \<rparr>,
           meals = [\<lparr> meal_recipe_id = ''chicken-rice'', meal_servings = 2, day_of_week = 0,
                      meal_slot = ''breakfast'' \<rparr>],
           missingIngredients = [],
           macroAccuracy = \<lparr> acc_calories = Fin 5, acc_protein = Fin 7, acc_carbs = Fin 3,
                             acc_fat = Fin 3 \<rparr> \<rparr>"
  unfolding generatePlan_def sampleDb_def echoDb_def sampleWeek_def
  apply (simp add: Let_def withMacros_sample targets_default final_default totals_default)
  apply (simp add: insertMeals_def macroAccuracyOf_def finalMacros_def reduceMacro_def
      accuracy_def double_div_def js_sub_def round_half_up_def planRow_def
      calculateMissingIngredients_def ingredientNeeds_def needStep_def pantryQuantity_def
      pantryFind_def fl53_eval samplePantry_def chickenRiceMacros_def chickenRice_def Let_def)
  done

lemma accumulated_push: "accumulated st \<Longrightarrow> accumulated (pushSelection st r s)"
  by (simp add: accumulated_def pushSelection_def weeklyCalories_def weeklyProtein_def
      weeklyCarbs_def weeklyFat_def)

lemma accumulated_loop: "accumulated st \<Longrightarrow> accumulated (greedyLoop t rs st)"
proof (induction rs arbitrary: st)
  case Nil
  then show ?case by simp
next
  case (Cons r rs)
  let ?gap = "dailyGap (protein t) (protein (currentMacros st))"
  let ?add = "Math_min3 (Math_ceil (js_div ?gap (protein (macros r)))) (availableServings r) (Fin 3)"
  show ?case
  proof (cases "?gap \<le> 0")
    case True
    then show ?thesis using Cons.prems by simp
  next
    case gap: False
    show ?thesis
    proof (cases "\<exists>s. ?add = Fin s \<and> 0 < s")
      case True
      then obtain s where s: "?add = Fin s" "0 < s" by blast
      have "greedyLoop t (r # rs) st = greedyLoop t rs (pushSelection st r s)"
        using gap s by (simp add: Let_def)
      then show ?thesis using Cons.IH[OF accumulated_push[OF Cons.prems]] by simp
    next
      case False
      then have "greedyLoop t (r # rs) st = greedyLoop t rs st"
        using gap by (cases ?add) (auto simp: Let_def)
      then show ?thesis using Cons.IH[OF Cons.prems] by simp
    qed
  qed
qed

lemma accumulated_greedyProteinFill: "accumulated (greedyProteinFill recipes t)"
  unfolding greedyProteinFill_def
  by (rule accumulated_loop)
     (simp add: accumulated_def weeklyCalories_def weeklyProtein_def weeklyCarbs_def weeklyFat_def)

lemma final_default_sums:
  "weeklyCalories [\<lparr> recipe = chickenRiceMacros, servings = 2, day = 0, slot = ''breakfast'' \<rparr>] = 672"
  "weeklyProtein [\<lparr> recipe = chickenRiceMacros, servings = 2, day = 0, slot = ''breakfast'' \<rparr>] = 74"
  "weeklyCarbs [\<lparr> recipe = chickenRiceMacros, servings = 2, day = 0, slot = ''breakfast'' \<rparr>] = 36"
  "weeklyFat [\<lparr> recipe = chickenRiceMacros, servings = 2, day = 0, slot = ''breakfast'' \<rparr>] = 12"
  by (simp_all add: weeklyCalories_def weeklyProtein_def weeklyCarbs_def weeklyFat_def
      chickenRiceMacros_def)

text \<open>
  \<^bold>\<open>Claim C4\<close>, evaluated on the code. The totals stored with the plan are the rounded
  accumulator of the greedy stage, that is the sums over the assignments of that stage
  alone. For the default profile and the sample recipe the greedy stage selects 3
  servings (1008 kcal, 111 g, 54 g, 18 g), the fine-tuner makes them 2 (672 kcal, 74 g,
  36 g, 12 g), and the plan is stored with the totals of the 3. With the three recipes
  and the low protein target the stored totals (400 kcal) leave out the two snacks of the
  gap filler (1600 kcal in all).
\<close>

theorem stored_totals_are_greedy_totals:
  "planTotals recipes dailyTargets =
     \<lparr> total_kcal = round_half_up (weeklyCalories (selectedRecipes (greedyProteinFill recipes dailyTargets))),
       total_protein = round_half_up (weeklyProtein (selectedRecipes (greedyProteinFill recipes dailyTargets))),
       total_carbs = round_half_up (weeklyCarbs (selectedRecipes (greedyProteinFill recipes dailyTargets))),
       total_fat = round_half_up (weeklyFat (selectedRecipes (greedyProteinFill recipes dailyTargets))) \<rparr>
   \<and> generatePlan (sampleDb defaultProfile) sampleWeek =
       Inr \<lparr> mealPlan = \<lparr> total_kcal = 1008, total_protein = 111, total_carbs = 54, total_fat = 18,
                        week_start = ''2025-01-06'' \<rparr>,
             meals = [\<lparr> meal_recipe_id = ''chicken-rice'', meal_servings = 2, day_of_week = 0,
                        meal_slot = ''breakfast'' \<rparr>],
             missingIngredients = [],
             macroAccuracy = \<lparr> acc_calories = Fin 5, acc_protein = Fin 7, acc_carbs = Fin 3,
                               acc_fat = Fin 3 \<rparr> \<rparr>
   \<and> weeklyCalories (finalRecipes (map (withMacros samplePantry) [chickenRice])
          (dailyTargetsOf defaultProfile) (1 / 2) (9 / 10)) = 672
   \<and> weeklyProtein (finalRecipes (map (withMacros samplePantry) [chickenRice])
          (dailyTargetsOf defaultProfile) (1 / 2) (9 / 10)) = 74
   \<and> weeklyCarbs (finalRecipes (map (withMacros samplePantry) [chickenRice])
          (dailyTargetsOf defaultProfile) (1 / 2) (9 / 10)) = 36
   \<and> weeklyFat (finalRecipes (map (withMacros samplePantry) [chickenRice])
          (dailyTargetsOf defaultProfile) (1 / 2) (9 / 10)) = 12
   \<and> planTotals [specChickenRice, oatsBowl, nutMix] lowProteinTargets =
       \<lparr> total_kcal = 400, total_protein = 40, total_carbs = 30, total_fat = 10 \<rparr>
   \<and> weeklyCalories (finalRecipes [specChickenRice, oatsBowl, nutMix] lowProteinTargets
          (1 / 2) (9 / 10)) = 1600"
proof -
  have 1: "planTotals recipes dailyTargets =
     \<lparr> total_kcal = round_half_up (weeklyCalories (selectedRecipes (greedyProteinFill recipes dailyTargets))),
       total_protein = round_half_up (weeklyProtein (selectedRecipes (greedyProteinFill recipes dailyTargets))),
       total_carbs = round_half_up (weeklyCarbs (selectedRecipes (greedyProteinFill recipes dailyTargets))),
       total_fat = round_half_up (weeklyFat (selectedRecipes (greedyProteinFill recipes dailyTargets))) \<rparr>"
    using accumulated_greedyProteinFill[of recipes dailyTargets]
    by (simp add: planTotals_def accumulated_def Let_def)
  have f: "finalRecipes (map (withMacros samplePantry) [chickenRice])
          (dailyTargetsOf defaultProfile) (1 / 2) (9 / 10)
        = [\<lparr> recipe = chickenRiceMacros, servings = 2, day = 0, slot = ''breakfast'' \<rparr>]"
    by (simp add: withMacros_sample targets_default final_default)
  have 7: "planTotals [specChickenRice, oatsBowl, nutMix] lowProteinTargets =
       \<lparr> total_kcal = 400, total_protein = 40, total_carbs = 30, total_fat = 10 \<rparr>"
    unfolding planTotals_def greedy_sample by (simp add: round_half_up_def)
  have 8: "weeklyCalories (finalRecipes [specChickenRice, oatsBowl, nutMix] lowProteinTargets
          (1 / 2) (9 / 10)) = 1600"
    unfolding final_sample
    by (simp add: weeklyCalories_def specChickenRice_def oatsBowl_def nutMix_def)
  show ?thesis
    unfolding f final_default_sums using 1 generatePlan_default 7 8 by simp
qed

lemma targets_over:
  "dailyTargetsOf overProteinProfile = \<lparr> calories = 2000, protein = 750, carbs = 200, fat = 67 \<rparr>"
  by (simp add: dailyTargetsOf_def overProteinProfile_def round_half_up_def)

lemma greedy_over:
  "greedyProteinFill [chickenRiceMacros] \<lparr> calories = 2000, protein = 750, carbs = 200, fat = 67 \<rparr> =
     \<lparr> selectedRecipes = [\<lparr> recipe = chickenRiceMacros, servings = 3, day = 0, slot = ''breakfast'' \<rparr>],
       currentMacros = \<lparr> calories = 1008, protein = 111, carbs = 54, fat = 18 \<rparr>,
       currentDay = 0, currentSlot = 1 \<rparr>"
  by (simp add: greedyProteinFill_def sortByProteinDensity_def js_sort_def chickenRiceMacros_def
      dailyGap_def daysInWeek_def js_div_def Math_min3_def pushSelection_def mealSlots_def
      Let_def ceiling_def)

lemma final_over:
  "finalRecipes [chickenRiceMacros] \<lparr> calories = 2000, protein = 750, carbs = 200, fat = 67 \<rparr>
      (1 / 2) (9 / 10) =
     [\<lparr> recipe = chickenRiceMacros, servings = 2, day = 0, slot = ''breakfast'' \<rparr>]"
  unfolding finalRecipes_def filledRecipes_def greedy_over
  by (simp add: fillRemainingMacros_def carbRichRecipes_def fatRichRecipes_def
      availableRecipes_def snackFor_def js_sort_def fineTuneMacros_def calorieAccuracy_def
      weeklyCalories_def js_div_def daysInWeek_def round_half_up_def chickenRiceMacros_def Let_def)

lemma totals_over:
  "planTotals [chickenRiceMacros] \<lparr> calories = 2000, protein = 750, carbs = 200, fat = 67 \<rparr> =
     \<lparr> total_kcal = 1008, total_protein = 111, total_carbs = 54, total_fat = 18 \<rparr>"
  unfolding planTotals_def greedy_over by (simp add: round_half_up_def)

lemma targets_zero:
  "dailyTargetsOf zeroEnergyProfile = \<lparr> calories = 0, protein = 0, carbs = 0, fat = 0 \<rparr>"
  by (simp add: dailyTargetsOf_def zeroEnergyProfile_def round_half_up_def)

lemma greedy_zero:
  "greedyProteinFill [chickenRiceMacros] \<lparr> calories = 0, protein = 0, carbs = 0, fat = 0 \<rparr> =
     \<lparr> selectedRecipes = [],
       currentMacros = \<lparr> calories = 0, protein = 0, carbs = 0, fat = 0 \<rparr>,
       currentDay = 0, currentSlot = 0 \<rparr>"
  by (simp add: greedyProteinFill_def sortByProteinDensity_def js_sort_def chickenRiceMacros_def
      dailyGap_def daysInWeek_def Let_def)

lemma final_zero:
  "finalRecipes [chickenRiceMacros] \<lparr> calories = 0, protein = 0, carbs = 0, fat = 0 \<rparr>
      (1 / 2) (9 / 10) = []"
  unfolding finalRecipes_def filledRecipes_def greedy_zero
  by (simp add: fillRemainingMacros_def snackFor_def dailyGap_def fineTuneMacros_def)

lemma totals_zero:
  "planTotals [chickenRiceMacros] \<lparr> calories = 0, protein = 0, carbs = 0, fat = 0 \<rparr> =
     \<lparr> total_kcal = 0, total_protein = 0, total_carbs = 0, total_fat = 0 \<rparr>"
  unfolding planTotals_def greedy_zero by (simp add: round_half_up_def)

text \<open>The claim as the specification states it (an invalid target fails the call before
  any planning) fails: with a protein percentage of 150 the run plans, stores and returns
  a meal; with an energy target of 0 it returns an empty plan whose accuracies are NaN.\<close>

theorem invalid_target_not_rejected:
  "generatePlan (sampleDb overProteinProfile) sampleWeek =
     Inr \<lparr> mealPlan = \<lparr> total_kcal = 1008, total_protein = 111, total_carbs = 54, total_fat = 18,
                        week_start = ''2025-01-06'' \<rparr>,
           meals = [\<lparr> meal_recipe_id = ''chicken-rice'', meal_servings = 2, day_of_week = 0,
                      meal_slot = ''breakfast'' \<rparr>],
           missingIngredients = [],
           macroAccuracy = \<lparr> acc_calories = Fin 5, acc_protein = Fin 1, acc_carbs = Fin 3,
                             acc_fat = Fin 3 \<rparr> \<rparr>
   \<and> generatePlan (sampleDb zeroEnergyProfile) sampleWeek =
     Inr \<lparr> mealPlan = \<lparr> total_kcal = 0, total_protein = 0, total_carbs = 0, total_fat = 0,
                        week_start = ''2025-01-06'' \<rparr>,
           meals = [], missingIngredients = [],
           macroAccuracy = \<lparr> acc_calories = NaN, acc_protein = NaN, acc_carbs = NaN,
                             acc_fat = NaN \<rparr> \<rparr>"
proof -
  have 1: "generatePlan (sampleDb overProteinProfile) sampleWeek =
     Inr \<lparr> mealPlan = \<lparr> total_kcal = 1008, total_protein = 111, total_carbs = 54, total_fat = 18,
                        week_start = ''2025-01-06'' \<rparr>,
           meals = [\<lparr> meal_recipe_id = ''chicken-rice'', meal_servings = 2, day_of_week = 0,
                      meal_slot = ''breakfast'' \<rparr>],
           missingIngredients = [],
           macroAccuracy = \<lparr> acc_calories = Fin 5, acc_protein = Fin 1, acc_carbs = Fin 3,
                             acc_fat = Fin 3 \<rparr> \<rparr>"
    unfolding generatePlan_def sampleDb_def echoDb_def sampleWeek_def
    apply (simp add: Let_def withMacros_sample targets_over final_over totals_over)
    apply (simp add: insertMeals_def macroAccuracyOf_def finalMacros_def reduceMacro_def
      accuracy_def double_div_def js_sub_def round_half_up_def planRow_def
      calculateMissingIngredients_def ingredientNeeds_def needStep_def pantryQuantity_def
      pantryFind_def fl53_eval samplePantry_def chickenRiceMacros_def chickenRice_def)
    done
  have 2: "generatePlan (sampleDb zeroEnergyProfile) sampleWeek =
     Inr \<lparr> mealPlan = \<lparr> total_kcal = 0, total_protein = 0, total_carbs = 0, total_fat = 0,
                        week_start = ''2025-01-06'' \<rparr>,
           meals = [], missingIngredients = [],
           macroAccuracy = \<lparr> acc_calories = NaN, acc_protein = NaN, acc_carbs = NaN,
                             acc_fat = NaN \<rparr> \<rparr>"
    unfolding generatePlan_def sampleDb_def echoDb_def sampleWeek_def
    apply (simp add: Let_def withMacros_sample targets_zero final_zero totals_zero)
    apply (simp add: insertMeals_def macroAccuracyOf_def finalMacros_def reduceMacro_def
      accuracy_def double_div_def js_sub_def planRow_def
      calculateMissingIngredients_def ingredientNeeds_def)
    done
  from 1 2 show ?thesis by (rule conjI)
qed

text \<open>
  \<^bold>\<open>Claim C6\<close>, as the code has it. \<open>generatePlan\<close> does not validate the targets. Whatever
  the profile holds, when the three queries answer without error, the recipes are not
  null, the week's start is a valid date and the insert of the plan answers a row
  without error, the call returns a result: the meals, the shortfall and the accuracy of
  the final assignments that the stages compute from the targets of the profile.
\<close>

theorem no_target_validation:
  assumes "rsp_data (users_single db) = Some userProfile"
      and "\<not> rsp_error (users_single db)"
      and "\<not> rsp_error (pantry_select db)"
      and "\<not> rsp_error (recipes_select db)"
      and "rsp_data (recipes_select db) = Some recipes"
      and "\<forall>row. rsp_data (plan_insert db row) \<noteq> None \<and> \<not> rsp_error (plan_insert db row)"
  shows "let pantryItems = (case rsp_data (pantry_select db) of
                              None \<Rightarrow> [] | Some items \<Rightarrow> items);
             final = finalRecipes (map (withMacros pantryItems) recipes)
                       (dailyTargetsOf userProfile) (random_carb db) (random_fat db)
         in \<exists>res. generatePlan db (ValidDate isoString) = Inr res
              \<and> meals res = insertMeals (meal_insert db) final
              \<and> missingIngredients res = calculateMissingIngredients final pantryItems
              \<and> macroAccuracy res = macroAccuracyOf final (dailyTargetsOf userProfile)"
proof -
  let ?pantry = "case rsp_data (pantry_select db) of None \<Rightarrow> [] | Some items \<Rightarrow> items"
  let ?rw = "map (withMacros ?pantry) recipes"
  let ?t = "dailyTargetsOf userProfile"
  let ?row = "planRow isoString (planTotals ?rw ?t)"
  from assms(6) obtain plan where
    plan: "rsp_data (plan_insert db ?row) = Some plan" "\<not> rsp_error (plan_insert db ?row)"
    by (metis option.exhaust)
  show ?thesis
    using assms(1-5) plan by (simp add: generatePlan_def Let_def)
qed

text \<open>With an energy target of -500 kcal the call returns a plan without meals.\<close>

theorem no_target_validation_witness:
  "\<exists>res. generatePlan (sampleDb negativeEnergyProfile) sampleWeek = Inr res \<and> meals res = []"
proof -
  let ?db = "sampleDb negativeEnergyProfile"
  have a: "rsp_data (users_single ?db) = Some negativeEnergyProfile"
    "\<not> rsp_error (users_single ?db)" "\<not> rsp_error (pantry_select ?db)"
    "\<not> rsp_error (recipes_select ?db)" "rsp_data (recipes_select ?db) = Some [chickenRice]"
    "\<forall>row. rsp_data (plan_insert ?db row) \<noteq> None \<and> \<not> rsp_error (plan_insert ?db row)"
    by (simp_all add: sampleDb_def echoDb_def)
  have t: "dailyTargetsOf negativeEnergyProfile =
             \<lparr> calories = - 500, protein = - 37, carbs = - 50, fat = - 17 \<rparr>"
    by (simp add: dailyTargetsOf_def negativeEnergyProfile_def round_half_up_def)
  have g: "greedyProteinFill [chickenRiceMacros] \<lparr> calories = - 500, protein = - 37, carbs = - 50, fat = - 17 \<rparr> =
     \<lparr> selectedRecipes = [],
       currentMacros = \<lparr> calories = 0, protein = 0, carbs = 0, fat = 0 \<rparr>,
       currentDay = 0, currentSlot = 0 \<rparr>"
    by (simp add: greedyProteinFill_def sortByProteinDensity_def js_sort_def chickenRiceMacros_def
        dailyGap_def daysInWeek_def Let_def)
  have f: "finalRecipes [chickenRiceMacros] \<lparr> calories = - 500, protein = - 37, carbs = - 50, fat = - 17 \<rparr>
      (1 / 2) (9 / 10) = []"
    unfolding finalRecipes_def filledRecipes_def g
    by (simp add: fillRemainingMacros_def snackFor_def dailyGap_def fineTuneMacros_def)
  have p: "rsp_data (pantry_select ?db) = Some samplePantry"
    and r: "random_carb ?db = 1 / 2" "random_fat ?db = 9 / 10"
    and m: "meal_insert ?db = (\<lambda>row. \<lparr> rsp_data = Some row, rsp_error = False \<rparr>)"
    by (simp_all add: sampleDb_def echoDb_def)
  from no_target_validation[OF a, of "''2025-01-06T00:00:00.000Z''"]
  show ?thesis
    by (auto simp add: Let_def p r t f withMacros_sample insertMeals_def sampleWeek_def)
qed

text \<open>On an invalid date the call fails after the planning, when it formats the week's
  start.\<close>

lemma generatePlan_invalid_date:
  assumes "rsp_data (users_single db) = Some userProfile"
      and "\<not> rsp_error (users_single db)"
      and "\<not> rsp_error (pantry_select db)"
      and "\<not> rsp_error (recipes_select db)"
      and "rsp_data (recipes_select db) = Some recipes"
  shows "generatePlan db InvalidDate = Inl InvalidTimeValue"
  using assms by (simp add: generatePlan_def Let_def)

text \<open>The runs for the profile of 100 kcal with each of the two nut recipes, and for the
  default profile with the recipe of 1050 kcal.\<close>

lemma withMacros_nutFeast: "withMacros nutPantry nutFeast = nutFeastMacros"
  by (simp add: withMacros_def calculateRecipeMacros_def macroStep_def
      calculateAvailableServings_def servingsStep_def pantryFind_def double_div_def
      round_half_up_def nutFeast_def mixedNuts_def nutPantry_def nutFeastMacros_def fl53_eval)

lemma withMacros_nutSnack: "withMacros nutPantry nutSnack = nutSnackMacros"
  by (simp add: withMacros_def calculateRecipeMacros_def macroStep_def
      calculateAvailableServings_def servingsStep_def pantryFind_def double_div_def
      round_half_up_def nutSnack_def mixedNuts_def nutPantry_def nutSnackMacros_def fl53_eval)

lemma withMacros_nutBowl: "withMacros nutPantry nutBowl = nutBowlMacros"
  by (simp add: withMacros_def calculateRecipeMacros_def macroStep_def
      calculateAvailableServings_def servingsStep_def pantryFind_def double_div_def
      round_half_up_def nutBowl_def mixedNuts_def nutPantry_def nutBowlMacros_def fl53_eval)

lemma targets_light:
  "dailyTargetsOf lightProfile = \<lparr> calories = 100, protein = 8, carbs = 10, fat = 3 \<rparr>"
  by (simp add: dailyTargetsOf_def lightProfile_def round_half_up_def)

lemma greedy_nutFeast:
  "greedyProteinFill [nutFeastMacros] \<lparr> calories = 100, protein = 8, carbs = 10, fat = 3 \<rparr> =
     \<lparr> selectedRecipes = [\<lparr> recipe = nutFeastMacros, servings = 1, day = 0, slot = ''breakfast'' \<rparr>],
       currentMacros = \<lparr> calories = 1402, protein = 46, carbs = 49, fat = 125 \<rparr>,
       currentDay = 0, currentSlot = 1 \<rparr>"
  by (simp add: greedyProteinFill_def sortByProteinDensity_def js_sort_def nutFeastMacros_def
      dailyGap_def daysInWeek_def js_div_def Math_min3_def pushSelection_def mealSlots_def
      Let_def ceiling_def)

lemma final_nutFeast:
  "finalRecipes [nutFeastMacros] \<lparr> calories = 100, protein = 8, carbs = 10, fat = 3 \<rparr>
      (1 / 2) (9 / 10) =
     [\<lparr> recipe = nutFeastMacros, servings = 1, day = 0, slot = ''breakfast'' \<rparr>]"
  unfolding finalRecipes_def filledRecipes_def greedy_nutFeast
  by (simp add: fillRemainingMacros_def carbRichRecipes_def fatRichRecipes_def
      availableRecipes_def snackFor_def js_sort_def fineTuneMacros_def calorieAccuracy_def
      weeklyCalories_def js_div_def daysInWeek_def round_half_up_def nutFeastMacros_def Let_def)

lemma totals_nutFeast:
  "planTotals [nutFeastMacros] \<lparr> calories = 100, protein = 8, carbs = 10, fat = 3 \<rparr> =
     \<lparr> total_kcal = 1402, total_protein = 46, total_carbs = 49, total_fat = 125 \<rparr>"
  unfolding planTotals_def greedy_nutFeast by (simp add: round_half_up_def)

lemma greedy_nutSnack:
  "greedyProteinFill [nutSnackMacros] \<lparr> calories = 100, protein = 8, carbs = 10, fat = 3 \<rparr> =
     \<lparr> selectedRecipes = [\<lparr> recipe = nutSnackMacros, servings = 1, day = 0, slot = ''breakfast'' \<rparr>],
       currentMacros = \<lparr> calories = 701, protein = 23, carbs = 24, fat = 62 \<rparr>,
       currentDay = 0, currentSlot = 1 \<rparr>"
  by (simp add: greedyProteinFill_def sortByProteinDensity_def js_sort_def nutSnackMacros_def
      dailyGap_def daysInWeek_def js_div_def Math_min3_def pushSelection_def mealSlots_def
      Let_def ceiling_def)

lemma final_nutSnack:
  "finalRecipes [nutSnackMacros] \<lparr> calories = 100, protein = 8, carbs = 10, fat = 3 \<rparr>
      (1 / 2) (9 / 10) =
     [\<lparr> recipe = nutSnackMacros, servings = 1, day = 0, slot = ''breakfast'' \<rparr>]"
  unfolding finalRecipes_def filledRecipes_def greedy_nutSnack
  by (simp add: fillRemainingMacros_def carbRichRecipes_def fatRichRecipes_def
      availableRecipes_def snackFor_def js_sort_def fineTuneMacros_def calorieAccuracy_def
      weeklyCalories_def js_div_def daysInWeek_def round_half_up_def nutSnackMacros_def Let_def)

lemma totals_nutSnack:
  "planTotals [nutSnackMacros] \<lparr> calories = 100, protein = 8, carbs = 10, fat = 3 \<rparr> =
     \<lparr> total_kcal = 701, total_protein = 23, total_carbs = 24, total_fat = 62 \<rparr>"
  unfolding planTotals_def greedy_nutSnack by (simp add: round_half_up_def)

lemma greedy_nutBowl:
  "greedyProteinFill [nutBowlMacros] \<lparr> calories = 2000, protein = 150, carbs = 200, fat = 67 \<rparr> =
     \<lparr> selectedRecipes = [\<lparr> recipe = nutBowlMacros, servings = 1, day = 0, slot = ''breakfast'' \<rparr>],
       currentMacros = \<lparr> calories = 1050, protein = 35, carbs = 36, fat = 93 \<rparr>,
       currentDay = 0, currentSlot = 1 \<rparr>"
  by (simp add: greedyProteinFill_def sortByProteinDensity_def js_sort_def nutBowlMacros_def
      dailyGap_def daysInWeek_def js_div_def Math_min3_def pushSelection_def mealSlots_def
      Let_def ceiling_def)

lemma final_nutBowl:
  "finalRecipes [nutBowlMacros] \<lparr> calories = 2000, protein = 150, carbs = 200, fat = 67 \<rparr>
      (1 / 2) (9 / 10) =
     [\<lparr> recipe = nutBowlMacros, servings = 1, day = 0, slot = ''breakfast'' \<rparr>]"
  unfolding finalRecipes_def filledRecipes_def greedy_nutBowl
  by (simp add: fillRemainingMacros_def carbRichRecipes_def fatRichRecipes_def
      availableRecipes_def snackFor_def js_sort_def fineTuneMacros_def calorieAccuracy_def
      weeklyCalories_def js_div_def daysInWeek_def round_half_up_def nutBowlMacros_def Let_def)

lemma totals_nutBowl:
  "planTotals [nutBowlMacros] \<lparr> calories = 2000, protein = 150, carbs = 200, fat = 67 \<rparr> =
     \<lparr> total_kcal = 1050, total_protein = 35, total_carbs = 36, total_fat = 93 \<rparr>"
  unfolding planTotals_def greedy_nutBowl by (simp add: round_half_up_def)

lemma final_nut_runs:
  "finalRecipes (map (withMacros nutPantry) [nutFeast]) (dailyTargetsOf lightProfile) (1 / 2) (9 / 10)
     = [\<lparr> recipe = nutFeastMacros, servings = 1, day = 0, slot = ''breakfast'' \<rparr>]"
  "finalRecipes (map (withMacros nutPantry) [nutSnack]) (dailyTargetsOf lightProfile) (1 / 2) (9 / 10)
     = [\<lparr> recipe = nutSnackMacros, servings = 1, day = 0, slot = ''breakfast'' \<rparr>]"
  "finalRecipes (map (withMacros nutPantry) [nutBowl]) (dailyTargetsOf defaultProfile) (1 / 2) (9 / 10)
     = [\<lparr> recipe = nutBowlMacros, servings = 1, day = 0, slot = ''breakfast'' \<rparr>]"
  by (simp_all add: withMacros_nutFeast withMacros_nutSnack withMacros_nutBowl targets_light
      targets_default final_nutFeast final_nutSnack final_nutBowl)

text \<open>The claim as the specification states it fails at the edges of the rounding.
  \<^item> With the recipe of 1402 kcal and a target of 100 kcal the final plan is one serving,
    a daily average above 200 kcal, and the accuracy returned is 0, not negative.
  \<^item> With the recipe of 701 kcal the daily average is not 100 kcal and the accuracy
    returned is 100.
  \<^item> With the recipe of 1050 kcal and a target of 2000 kcal the daily average is 150
    kcal and the accuracy returned is 7, where
    \<open>round ((1 - \<bar>150 - 2000\<bar> / 2000) * 100) = round 7.5 = 8\<close>: the machine's
    \<open>1 - 0.925\<close> is below 0.075.\<close>

theorem accuracy_not_negative_just_above_double:
  "generatePlan (echoDb lightProfile [nutFeast] nutPantry) sampleWeek =
     Inr \<lparr> mealPlan = \<lparr> total_kcal = 1402, total_protein = 46, total_carbs = 49, total_fat = 125,
                        week_start = ''2025-01-06'' \<rparr>,
           meals = [\<lparr> meal_recipe_id = ''nut-feast'', meal_servings = 1, day_of_week = 0,
                      meal_slot = ''breakfast'' \<rparr>],
           missingIngredients = [],
           macroAccuracy = \<lparr> acc_calories = Fin 0, acc_protein = Fin 82, acc_carbs = Fin 70,
                             acc_fat = Fin (- 395) \<rparr> \<rparr>
   \<and> 2 * kcal_target lightProfile
       < calories (finalMacros (finalRecipes (map (withMacros nutPantry) [nutFeast])
                                  (dailyTargetsOf lightProfile) (1 / 2) (9 / 10)))
   \<and> generatePlan (echoDb lightProfile [nutSnack] nutPantry) sampleWeek =
     Inr \<lparr> mealPlan = \<lparr> total_kcal = 701, total_protein = 23, total_carbs = 24, total_fat = 62,
                        week_start = ''2025-01-06'' \<rparr>,
           meals = [\<lparr> meal_recipe_id = ''nut-snack'', meal_servings = 1, day_of_week = 0,
                      meal_slot = ''breakfast'' \<rparr>],
           missingIngredients = [],
           macroAccuracy = \<lparr> acc_calories = Fin 100, acc_protein = Fin 41, acc_carbs = Fin 34,
                             acc_fat = Fin (- 95) \<rparr> \<rparr>
   \<and> calories (finalMacros (finalRecipes (map (withMacros nutPantry) [nutSnack])
                               (dailyTargetsOf lightProfile) (1 / 2) (9 / 10)))
       \<noteq> kcal_target lightProfile
   \<and> generatePlan (echoDb defaultProfile [nutBowl] nutPantry) sampleWeek =
     Inr \<lparr> mealPlan = \<lparr> total_kcal = 1050, total_protein = 35, total_carbs = 36, total_fat = 93,
                        week_start = ''2025-01-06'' \<rparr>,
           meals = [\<lparr> meal_recipe_id = ''nut-bowl'', meal_servings = 1, day_of_week = 0,
                      meal_slot = ''breakfast'' \<rparr>],
           missingIngredients = [],
           macroAccuracy = \<lparr> acc_calories = Fin 7, acc_protein = Fin 3, acc_carbs = Fin 3,
                             acc_fat = Fin 20 \<rparr> \<rparr>
   \<and> calories (finalMacros (finalRecipes (map (withMacros nutPantry) [nutBowl])
                               (dailyTargetsOf defaultProfile) (1 / 2) (9 / 10))) = 150
   \<and> round_half_up ((1 - \<bar>150 - kcal_target defaultProfile\<bar> / kcal_target defaultProfile) * 100) = 8"
proof -
  have 1: "generatePlan (echoDb lightProfile [nutFeast] nutPantry) sampleWeek =
     Inr \<lparr> mealPlan = \<lparr> total_kcal = 1402, total_protein = 46, total_carbs = 49, total_fat = 125,
                        week_start = ''2025-01-06'' \<rparr>,
           meals = [\<lparr> meal_recipe_id = ''nut-feast'', meal_servings = 1, day_of_week = 0,
                      meal_slot = ''breakfast'' \<rparr>],
           missingIngredients = [],
           macroAccuracy = \<lparr> acc_calories = Fin 0, acc_protein = Fin 82, acc_carbs = Fin 70,
                             acc_fat = Fin (- 395) \<rparr> \<rparr>"
    unfolding generatePlan_def echoDb_def sampleWeek_def
    apply (simp add: Let_def withMacros_nutFeast targets_light final_nutFeast totals_nutFeast)
    apply (simp add: insertMeals_def macroAccuracyOf_def finalMacros_def reduceMacro_def
      accuracy_def double_div_def js_sub_def round_half_up_def planRow_def
      calculateMissingIngredients_def ingredientNeeds_def needStep_def pantryQuantity_def
      pantryFind_def fl53_eval nutPantry_def nutFeastMacros_def nutFeast_def)
    done
  have 2: "2 * kcal_target lightProfile
       < calories (finalMacros (finalRecipes (map (withMacros nutPantry) [nutFeast])
                                  (dailyTargetsOf lightProfile) (1 / 2) (9 / 10)))"
    unfolding final_nut_runs
    by (simp add: finalMacros_def reduceMacro_def nutFeastMacros_def lightProfile_def fl53_eval)
  have 3: "generatePlan (echoDb lightProfile [nutSnack] nutPantry) sampleWeek =
     Inr \<lparr> mealPlan = \<lparr> total_kcal = 701, total_protein = 23, total_carbs = 24, total_fat = 62,
                        week_start = ''2025-01-06'' \<rparr>,
           meals = [\<lparr> meal_recipe_id = ''nut-snack'', meal_servings = 1, day_of_week = 0,
                      meal_slot = ''breakfast'' \<rparr>],
           missingIngredients = [],
           macroAccuracy = \<lparr> acc_calories = Fin 100, acc_protein = Fin 41, acc_carbs = Fin 34,
                             acc_fat = Fin (- 95) \<rparr> \<rparr>"
    unfolding generatePlan_def echoDb_def sampleWeek_def
    apply (simp add: Let_def withMacros_nutSnack targets_light final_nutSnack totals_nutSnack)
    apply (simp add: insertMeals_def macroAccuracyOf_def finalMacros_def reduceMacro_def
      accuracy_def double_div_def js_sub_def round_half_up_def planRow_def
      calculateMissingIngredients_def ingredientNeeds_def needStep_def pantryQuantity_def
      pantryFind_def fl53_eval nutPantry_def nutSnackMacros_def nutSnack_def)
    done
  have 4: "calories (finalMacros (finalRecipes (map (withMacros nutPantry) [nutSnack])
                               (dailyTargetsOf lightProfile) (1 / 2) (9 / 10)))
       \<noteq> kcal_target lightProfile"
    unfolding final_nut_runs
    by (simp add: finalMacros_def reduceMacro_def nutSnackMacros_def lightProfile_def fl53_eval)
  have 5: "generatePlan (echoDb defaultProfile [nutBowl] nutPantry) sampleWeek =
     Inr \<lparr> mealPlan = \<lparr> total_kcal = 1050, total_protein = 35, total_carbs = 36, total_fat = 93,
                        week_start = ''2025-01-06'' \<rparr>,
           meals = [\<lparr> meal_recipe_id = ''nut-bowl'', meal_servings = 1, day_of_week = 0,
                      meal_slot = ''breakfast'' \<rparr>],
           missingIngredients = [],
           macroAccuracy = \<lparr> acc_calories = Fin 7, acc_protein = Fin 3, acc_carbs = Fin 3,
                             acc_fat = Fin 20 \<rparr> \<rparr>"
    unfolding generatePlan_def echoDb_def sampleWeek_def
    apply (simp add: Let_def withMacros_nutBowl targets_default final_nutBowl totals_nutBowl)
    apply (simp add: insertMeals_def macroAccuracyOf_def finalMacros_def reduceMacro_def
      accuracy_def double_div_def js_sub_def round_half_up_def planRow_def
      calculateMissingIngredients_def ingredientNeeds_def needStep_def pantryQuantity_def
      pantryFind_def fl53_eval nutPantry_def nutBowlMacros_def nutBowl_def)
    done
  have 6: "calories (finalMacros (finalRecipes (map (withMacros nutPantry) [nutBowl])
                               (dailyTargetsOf defaultProfile) (1 / 2) (9 / 10))) = 150"
    unfolding final_nut_runs
    by (simp add: finalMacros_def reduceMacro_def nutBowlMacros_def fl53_eval)
  have 7: "round_half_up ((1 - \<bar>150 - kcal_target defaultProfile\<bar> / kcal_target defaultProfile) * 100) = 8"
    by (simp add: defaultProfile_def round_half_up_def)
  from 1 2 3 4 5 6 7 show ?thesis by (intro conjI)
qed

lemma accuracy_Fin:
  "target \<noteq> 0 \<Longrightarrow>
   accuracy actual target =
     Fin (round_half_up (fl53 (fl53 (1 - fl53 (\<bar>fl53 (actual - target)\<bar> / target)) * 100)))"
  by (simp add: accuracy_def double_div_def js_sub_def)

lemma generatePlan_accuracy:
  assumes "generatePlan db weekStart = Inr res"
  shows "\<exists>userProfile recipes.
           rsp_data (users_single db) = Some userProfile
         \<and> rsp_data (recipes_select db) = Some recipes
         \<and> macroAccuracy res =
             macroAccuracyOf
               (finalRecipes
                  (map (withMacros (case rsp_data (pantry_select db) of
                                      None \<Rightarrow> [] | Some items \<Rightarrow> items)) recipes)
                  (dailyTargetsOf userProfile) (random_carb db) (random_fat db))
               (dailyTargetsOf userProfile)"
  using assms
  by (auto simp: generatePlan_def Let_def split: option.splits if_splits JsDate.splits)

text \<open>
  \<^bold>\<open>Claim C9\<close>, as the code has it. Let the target calories be positive (and a double,
  as every number of the machine is), and \<open>actual\<close> the daily average of the plan, the
  weekly sum divided by 7 by the machine. The accuracy of the calories is
  \<open>round ((1 - \<bar>actual - target\<bar> / target) * 100)\<close> with the difference, the quotient,
  the difference from 1 and the product each rounded to a double, and is not clamped.
  It is 100 when \<open>actual = target\<close>; it is at most 0 when \<open>actual\<close> exceeds twice the
  target, and negative when \<open>actual\<close> is at least 2.0051 times the target.
  \<open>generatePlan\<close> returns the accuracies of the final assignments as computed
  (\<open>generatePlan_accuracy\<close>).
\<close>

theorem accuracy_boundary:
  assumes "0 < calories dailyTargets"
      and "fl53 (calories dailyTargets) = calories dailyTargets"
  shows "let actual = calories (finalMacros sel);
             target = calories dailyTargets;
             acc = acc_calories (macroAccuracyOf sel dailyTargets)
         in acc = Fin (round_half_up
                         (fl53 (fl53 (1 - fl53 (\<bar>fl53 (actual - target)\<bar> / target)) * 100)))
            \<and> (actual = target \<longrightarrow> acc = Fin 100)
            \<and> (2 * target < actual \<longrightarrow> (\<exists>v. acc = Fin v \<and> v \<le> 0))
            \<and> (20051 / 10000 * target \<le> actual \<longrightarrow> (\<exists>v. acc = Fin v \<and> v < 0))"
proof -
  define actual where "actual = calories (finalMacros sel)"
  define target where "target = calories dailyTargets"
  define d where "d = fl53 (actual - target)"
  define q where "q = fl53 (\<bar>d\<bar> / target)"
  define x where "x = fl53 (fl53 (1 - q) * 100)"
  define acc where "acc = acc_calories (macroAccuracyOf sel dailyTargets)"
  have t: "0 < target" using assms(1) by (simp add: target_def)
  have ft: "fl53 target = target" using assms(2) by (simp add: target_def)
  have acc: "acc = Fin (round_half_up x)"
    using t accuracy_Fin[of target actual]
    by (simp add: acc_def macroAccuracyOf_def actual_def target_def d_def q_def x_def)
  have eq: "actual = target \<Longrightarrow> acc = Fin 100"
    by (simp add: acc x_def q_def d_def round_half_up_def)
  have dbl: "\<exists>v. acc = Fin v \<and> v \<le> 0" if "2 * target < actual"
  proof -
    from that have "target \<le> actual - target" by simp
    from fl53_mono[OF this] have d: "target \<le> d" by (simp add: d_def ft)
    with t have "1 \<le> \<bar>d\<bar> / target" by (simp add: pos_le_divide_eq)
    from fl53_mono[OF this] have "1 \<le> q" by (simp add: q_def)
    then have "1 - q \<le> 0" by simp
    from fl53_mono[OF this] have "fl53 (1 - q) \<le> 0" by simp
    then have "fl53 (1 - q) * 100 \<le> 0" by simp
    from fl53_mono[OF this] have "x \<le> 0" by (simp add: x_def)
    from round_half_up_mono[OF this] have "round_half_up x \<le> 0"
      by (simp add: round_half_up_def)
    with acc show ?thesis by simp
  qed
  have far: "\<exists>v. acc = Fin v \<and> v < 0" if "20051 / 10000 * target \<le> actual"
  proof -
    from that have a: "10051 / 10000 * target \<le> actual - target" by simp
    with t have a0: "0 \<le> actual - target" by (simp add: order_trans[rotated])
    have "(8233 / 8192 :: real) \<le> 10051 / 10000 * (1 - 1 / 2 ^ 53)" by simp
    then have "8233 / 8192 * target \<le> 10051 / 10000 * (1 - 1 / 2 ^ 53) * target"
      using t by (intro mult_right_mono) simp_all
    also have "\<dots> = (10051 / 10000 * target) * (1 - 1 / 2 ^ 53)" by simp
    also have "\<dots> \<le> (actual - target) * (1 - 1 / 2 ^ 53)"
      using a by (intro mult_right_mono) simp_all
    also have "\<dots> \<le> d" unfolding d_def using a0 by (rule fl53_lower)
    finally have d: "8233 / 8192 * target \<le> d" .
    with t have "0 \<le> d" by (simp add: order_trans[rotated])
    with d t have "8233 / 8192 \<le> \<bar>d\<bar> / target" by (simp add: pos_le_divide_eq)
    from fl53_mono[OF this] have "8233 / 8192 \<le> q" by (simp add: q_def fl53_eval)
    then have "1 - q \<le> - 41 / 8192" by simp
    from fl53_mono[OF this] have "fl53 (1 - q) \<le> - 41 / 8192" by (simp add: fl53_eval)
    then have "fl53 (1 - q) * 100 \<le> - 1025 / 2048" by simp
    from fl53_mono[OF this] have "x \<le> - 1025 / 2048" by (simp add: x_def fl53_eval)
    from round_half_up_mono[OF this] have "round_half_up x \<le> - 1"
      by (simp add: round_half_up_def)
    with acc show ?thesis by simp
  qed
  show ?thesis
    unfolding Let_def
    using acc eq dbl far
    unfolding acc_def actual_def target_def d_def q_def x_def
    by blast
qed

text \<open>35 servings of 400 kcal average the target of 2000 kcal: accuracy 100. Two servings
  of 1402 kcal average four times the target of 100 kcal: accuracy -201.\<close>

theorem accuracy_boundary_witness:
  "acc_calories (macroAccuracyOf
       [\<lparr> recipe = specChickenRice, servings = 35, day = 0, slot = ''breakfast'' \<rparr>] specTargets)
     = Fin 100
   \<and> acc_calories (macroAccuracyOf
       [\<lparr> recipe = nutFeastMacros, servings = 2, day = 0, slot = ''breakfast'' \<rparr>]
       (dailyTargetsOf lightProfile))
     = Fin (- 201)"
proof -
  let ?even = "[\<lparr> recipe = specChickenRice, servings = 35, day = 0, slot = ''breakfast'' \<rparr>]"
  let ?feast = "[\<lparr> recipe = nutFeastMacros, servings = 2, day = 0, slot = ''breakfast'' \<rparr>]"
  have t: "calories specTargets = 2000" "calories (dailyTargetsOf lightProfile) = 100"
    by (simp_all add: specTargets_def targets_light)
  have p: "0 < calories specTargets" "0 < calories (dailyTargetsOf lightProfile)"
    unfolding t by simp_all
  have r: "fl53 (calories specTargets) = calories specTargets"
    "fl53 (calories (dailyTargetsOf lightProfile)) = calories (dailyTargetsOf lightProfile)"
    unfolding t by (simp_all add: fl53_eval)
  have a: "calories (finalMacros ?even) = 2000"
    "calories (finalMacros ?feast) = fl53 (2804 / 7)"
    by (simp_all add: finalMacros_def reduceMacro_def specChickenRice_def nutFeastMacros_def
        fl53_eval)
  have 1: "acc_calories (macroAccuracyOf ?even specTargets) = Fin 100"
    unfolding accuracy_boundary[OF p(1) r(1), of ?even, unfolded Let_def, THEN conjunct1] a t
    by (simp add: round_half_up_def fl53_eval)
  have 2: "acc_calories (macroAccuracyOf ?feast (dailyTargetsOf lightProfile)) = Fin (- 201)"
    unfolding accuracy_boundary[OF p(2) r(2), of ?feast, unfolded Let_def, THEN conjunct1] a t
    by (simp add: round_half_up_def fl53_eval)
  from 1 2 show ?thesis by (rule conjI)
qed

text \<open>The run for the default profile with the two saffron recipes.\<close>

lemma withMacros_saffronTea: "withMacros saffronPantry saffronTea = saffronTeaMacros"
  by (simp add: withMacros_def calculateRecipeMacros_def macroStep_def
      calculateAvailableServings_def servingsStep_def pantryFind_def double_div_def
      round_half_up_def saffronTea_def saffron_def saffronPantry_def saffronTeaMacros_def
      fl53_eval)

lemma withMacros_saffronRice: "withMacros saffronPantry saffronRice = saffronRiceMacros"
  by (simp add: withMacros_def calculateRecipeMacros_def macroStep_def
      calculateAvailableServings_def servingsStep_def pantryFind_def double_div_def
      round_half_up_def saffronRice_def saffron_def brownRice_def saffronPantry_def
      saffronRiceMacros_def fl53_eval)

lemma greedy_saffron:
  "greedyProteinFill [saffronTeaMacros, saffronRiceMacros]
       \<lparr> calories = 2000, protein = 150, carbs = 200, fat = 67 \<rparr> =
     \<lparr> selectedRecipes =
         [\<lparr> recipe = saffronRiceMacros, servings = 1, day = 0, slot = ''breakfast'' \<rparr>,
          \<lparr> recipe = saffronTeaMacros, servings = 2, day = 0, slot = ''lunch'' \<rparr>],
       currentMacros = \<lparr> calories = 89, protein = 2, carbs = 18, fat = 1 \<rparr>,
       currentDay = 0, currentSlot = 2 \<rparr>"
  by (simp add: greedyProteinFill_def sortByProteinDensity_def js_sort_def js_sub_def
      saffronTeaMacros_def saffronRiceMacros_def
      dailyGap_def daysInWeek_def js_div_def Math_min3_def pushSelection_def mealSlots_def
      Let_def ceiling_def)

lemma final_saffron:
  "finalRecipes [saffronTeaMacros, saffronRiceMacros]
       \<lparr> calories = 2000, protein = 150, carbs = 200, fat = 67 \<rparr> (1 / 2) (9 / 10) =
     [\<lparr> recipe = saffronRiceMacros, servings = 1, day = 0, slot = ''breakfast'' \<rparr>,
      \<lparr> recipe = saffronTeaMacros, servings = 2, day = 0, slot = ''lunch'' \<rparr>]"
  unfolding finalRecipes_def filledRecipes_def greedy_saffron
  by (simp add: fillRemainingMacros_def carbRichRecipes_def fatRichRecipes_def
      availableRecipes_def snackFor_def js_sort_def fineTuneMacros_def calorieAccuracy_def
      weeklyCalories_def js_div_def daysInWeek_def round_half_up_def saffronTeaMacros_def
      saffronRiceMacros_def dailyGap_def Let_def)

lemma totals_saffron:
  "planTotals [saffronTeaMacros, saffronRiceMacros]
       \<lparr> calories = 2000, protein = 150, carbs = 200, fat = 67 \<rparr> =
     \<lparr> total_kcal = 89, total_protein = 2, total_carbs = 18, total_fat = 1 \<rparr>"
  unfolding planTotals_def greedy_saffron by (simp add: round_half_up_def)

text \<open>The claim on the shortfall as the specification states it fails by the rounding
  of the sums. The
  final plan has one serving of the saffron rice and two of the saffron tea, 0.1 g of
  saffron each, and the pantry holds 0.3 g. The reporter adds 0.1 and 0.2 to
  0.30000000000000004 and reports a shortfall of \<open>1 / 2 ^ 54\<close> g of saffron. That is not the
  total required minus the available quantity: the required quantities as the machine
  holds them total \<open>1 / 2 ^ 55\<close> g more than the stock it holds, and the quantities of the
  database total the stock exactly, which is no shortfall.\<close>

theorem shortfall_of_rounding:
  "generatePlan (echoDb defaultProfile [saffronTea, saffronRice] saffronPantry) sampleWeek =
     Inr \<lparr> mealPlan = \<lparr> total_kcal = 89, total_protein = 2, total_carbs = 18, total_fat = 1,
                        week_start = ''2025-01-06'' \<rparr>,
           meals = [\<lparr> meal_recipe_id = ''saffron-rice'', meal_servings = 1, day_of_week = 0,
                      meal_slot = ''breakfast'' \<rparr>,
                    \<lparr> meal_recipe_id = ''saffron-tea'', meal_servings = 2, day_of_week = 0,
                      meal_slot = ''lunch'' \<rparr>],
           missingIngredients =
             [\<lparr> ingredientId = ''saffron'', ingredientName = ''Saffron'',
                neededQuantity = 1 / 2 ^ 54, shortfall_unit = ''g'',
                availableQuantity = fl53 (3 / 10) \<rparr>],
           macroAccuracy = \<lparr> acc_calories = Fin 1, acc_protein = Fin 0, acc_carbs = Fin 1,
                             acc_fat = Fin 0 \<rparr> \<rparr>
   \<and> 1 * fl53 (1 / 10) + 2 * fl53 (1 / 10) - fl53 (3 / 10) = 1 / 2 ^ 55
   \<and> (1 * (1 / 10) + 2 * (1 / 10) :: real) = 3 / 10"
proof (intro conjI)
  show "generatePlan (echoDb defaultProfile [saffronTea, saffronRice] saffronPantry) sampleWeek =
     Inr \<lparr> mealPlan = \<lparr> total_kcal = 89, total_protein = 2, total_carbs = 18, total_fat = 1,
                        week_start = ''2025-01-06'' \<rparr>,
           meals = [\<lparr> meal_recipe_id = ''saffron-rice'', meal_servings = 1, day_of_week = 0,
                      meal_slot = ''breakfast'' \<rparr>,
                    \<lparr> meal_recipe_id = ''saffron-tea'', meal_servings = 2, day_of_week = 0,
                      meal_slot = ''lunch'' \<rparr>],
           missingIngredients =
             [\<lparr> ingredientId = ''saffron'', ingredientName = ''Saffron'',
                neededQuantity = 1 / 2 ^ 54, shortfall_unit = ''g'',
                availableQuantity = fl53 (3 / 10) \<rparr>],
           macroAccuracy = \<lparr> acc_calories = Fin 1, acc_protein = Fin 0, acc_carbs = Fin 1,
                             acc_fat = Fin 0 \<rparr> \<rparr>"
    unfolding generatePlan_def echoDb_def sampleWeek_def
    apply (simp add: Let_def withMacros_saffronTea withMacros_saffronRice targets_default
        final_saffron totals_saffron)
    apply (simp add: insertMeals_def macroAccuracyOf_def finalMacros_def reduceMacro_def
      accuracy_def double_div_def js_sub_def round_half_up_def planRow_def
      calculateMissingIngredients_def ingredientNeeds_def needStep_def pantryQuantity_def
      pantryFind_def fl53_eval saffronPantry_def saffronTeaMacros_def saffronRiceMacros_def
      saffronTea_def saffronRice_def saffron_def)
    done
  show "1 * fl53 (1 / 10) + 2 * fl53 (1 / 10) - fl53 (3 / 10) = 1 / 2 ^ 55"
    by (simp add: fl53_eval)
  show "(1 * (1 / 10) + 2 * (1 / 10) :: real) = 3 / 10"
    by simp
qed

end
